(* ===== verification/Prelude.thy ===== *)
theory Prelude
  imports Main "HOL-Library.Sublist"
begin

text \<open>
  Shared vocabulary of the development: JavaScript values as they appear in
  node paths (strings, numbers and \<open>undefined\<close>), the exceptions the
  TypeScript code can throw, the \<open>Array.prototype.shift\<close> and
  \<open>Array.prototype.find\<close> primitives the code relies on, and the generic
  lemmas on lists and options that the component theories share.
\<close>

section \<open>JavaScript values and exceptions\<close>

text \<open>
  A path element of \<open>@azure-tools/sourcemap\<close>'s \<open>Path\<close> is a string or a
  number; \<open>Array.prototype.shift\<close> on an empty array yields \<open>undefined\<close>.
  Numbers are modelled as integers (indices and enum values of the modelled code
  are integral).
\<close>

datatype jsval = JStr string | JNum int | JUndef

text \<open>
  Exceptions are values: \<open>fail\<close> of node's \<open>assert\<close> throws an
  \<open>AssertionError\<close>, \<open>throw new Error(m)\<close> an \<open>Error\<close>, calling a method that
  an object does not have a \<open>TypeError\<close>. The argument-out-of-range exception
  that ts-morph's \<open>getChildAtIndex\<close> throws for an index beyond the children is
  \<open>RangeError\<close>.
\<close>

datatype js_error =
    AssertionError string
  | Error string
  | TypeError string
  | RangeError string

type_synonym 'a js_result = "js_error + 'a"

text \<open>\<open>path.shift()\<close>: the first element (\<open>undefined\<close> for \<open>[]\<close>) and the rest.\<close>

fun shift :: "jsval list \<Rightarrow> jsval \<times> jsval list" where
  "shift [] = (JUndef, [])"
| "shift (x # xs) = (x, xs)"

text \<open>\<open>typeof v === 'string' && v.startsWith(p)\<close>\<close>

fun js_starts_with :: "jsval \<Rightarrow> string \<Rightarrow> bool" where
  "js_starts_with (JStr s) p = prefix p s"
| "js_starts_with _ p = False"

text \<open>Template-literal rendering \<open>`${v}`\<close> of a path element.\<close>

fun decimal :: "nat \<Rightarrow> string" where
  "decimal n = (if n < 10 then [char_of (48 + n)]
                else decimal (n div 10) @ [char_of (48 + n mod 10)])"

fun js_show :: "jsval \<Rightarrow> string" where
  "js_show (JStr s) = s"
| "js_show (JNum n) = (if n < 0 then ''-'' @ decimal (nat (- n)) else decimal (nat n))"
| "js_show JUndef = ''undefined''"

text \<open>Monadic sequencing of a computation that may throw.\<close>

definition js_bind :: "'a js_result \<Rightarrow> ('a \<Rightarrow> 'b js_result) \<Rightarrow> 'b js_result" where
  "js_bind r f = (case r of Inl e \<Rightarrow> Inl e | Inr a \<Rightarrow> f a)"

fun js_map :: "('a \<Rightarrow> 'b js_result) \<Rightarrow> 'a list \<Rightarrow> 'b list js_result" where
  "js_map f [] = Inr []"
| "js_map f (x # xs) = js_bind (f x) (\<lambda>y. js_bind (js_map f xs) (\<lambda>ys. Inr (y # ys)))"

section \<open>Shared lemma collections\<close>

named_theorems js_simps \<open>evaluation rules for the JavaScript primitives\<close>

lemma js_bind_Inl [simp, js_simps]: "js_bind (Inl e) f = Inl e"
  by (simp add: js_bind_def)

lemma js_bind_Inr [simp, js_simps]: "js_bind (Inr a) f = f a"
  by (simp add: js_bind_def)

lemma js_bind_eq_Inr [js_simps]:
  "js_bind r f = Inr b \<longleftrightarrow> (\<exists>a. r = Inr a \<and> f a = Inr b)"
  by (cases r) auto

lemma js_map_Inr_length:
  "js_map f xs = Inr ys \<Longrightarrow> length ys = length xs"
  by (induction xs arbitrary: ys) (auto simp: js_bind_eq_Inr)

lemma js_map_all_Inr [simp]:
  "js_map (\<lambda>x. Inr (g x)) xs = Inr (map g xs)"
  by (induction xs) simp_all

lemma js_map_append:
  "js_map f (xs @ ys) =
     js_bind (js_map f xs) (\<lambda>as. js_bind (js_map f ys) (\<lambda>bs. Inr (as @ bs)))"
  by (induction xs) (auto simp: js_bind_def split: sum.splits)

subsection \<open>Lists and \<open>find\<close>\<close>

lemma find_Some_first:
  "find P xs = Some x \<Longrightarrow> \<exists>i < length xs. xs ! i = x \<and> P x \<and> (\<forall>j < i. \<not> P (xs ! j))"
proof (induction xs)
  case Nil
  then show ?case by simp
next
  case (Cons y ys)
  show ?case
  proof (cases "P y")
    case True
    with Cons.prems show ?thesis by auto
  next
    case False
    with Cons.prems obtain i where "i < length ys" "ys ! i = x" "P x" "\<forall>j < i. \<not> P (ys ! j)"
      using Cons.IH by auto
    with False show ?thesis
      by (intro exI [of _ "Suc i"]) (auto simp: less_Suc_eq_0_disj)
  qed
qed

lemma find_nth_first:
  "i < length xs \<Longrightarrow> P (xs ! i) \<Longrightarrow> (\<forall>j < i. \<not> P (xs ! j)) \<Longrightarrow> find P xs = Some (xs ! i)"
proof (induction xs arbitrary: i)
  case Nil
  then show ?case by simp
next
  case (Cons y ys)
  show ?case
  proof (cases i)
    case 0
    with Cons.prems show ?thesis by simp
  next
    case (Suc k)
    with Cons.prems have "\<not> P y" by auto
    moreover from Cons.prems Suc have "find P ys = Some (ys ! k)"
      by (intro Cons.IH) auto
    ultimately show ?thesis using Suc by simp
  qed
qed

lemma find_None_nth:
  "find P xs = None \<Longrightarrow> i < length xs \<Longrightarrow> \<not> P (xs ! i)"
  by (simp add: find_None_iff)

lemma find_append:
  "find P (xs @ ys) = (case find P xs of None \<Rightarrow> find P ys | Some x \<Rightarrow> Some x)"
  by (induction xs) auto

lemma find_map:
  "find P (map f xs) = map_option f (find (P \<circ> f) xs)"
  by (induction xs) auto

lemma find_filter:
  "find P (filter Q xs) = find (\<lambda>x. Q x \<and> P x) xs"
  by (induction xs) auto

lemma find_upt_first:
  "j < n \<Longrightarrow> P j \<Longrightarrow> (\<forall>i<j. \<not> P i) \<Longrightarrow> find P [0..<n] = Some j"
  using find_nth_first [of j "[0..<n]" P] by simp

lemma find_map_index:
  "find P (map f [0..<n]) = Some x \<Longrightarrow> \<exists>i < n. x = f i \<and> P x"
  by (auto dest!: find_Some_first)

lemma length_concat_map_filter:
  "(\<forall>x \<in> set xs. length (f x) = (if P x then 1 else 0)) \<Longrightarrow>
   length (concat (map f xs)) = length (filter P xs)"
  by (induction xs) auto

lemma remdups_snoc: "remdups (ys @ [x]) = remdups (filter (\<lambda>y. y \<noteq> x) ys) @ [x]"
  by (induction ys) auto

lemma filter_append_filter_eq_iff:
  assumes "\<forall>x\<in>set xs. P x \<longleftrightarrow> \<not> Q x"
  shows "filter P xs @ filter Q xs = xs \<longleftrightarrow> sorted_wrt (\<lambda>a b. \<not> (Q a \<and> P b)) xs"
  using assms
proof (induction xs)
  case Nil
  then show ?case by simp
next
  case (Cons x xs)
  show ?case
  proof (cases "P x")
    case True
    with Cons show ?thesis by auto
  next
    case False
    with Cons.prems have q: "Q x" by simp
    have "filter P xs @ x # filter Q xs = x # xs \<longleftrightarrow> filter P xs = []"
    proof
      assume eq: "filter P xs @ x # filter Q xs = x # xs"
      show "filter P xs = []"
      proof (rule ccontr)
        assume "filter P xs \<noteq> []"
        then obtain y ys where yys: "filter P xs = y # ys" by (cases "filter P xs") auto
        then have "y \<in> set (filter P xs)" by simp
        then have "P y" by simp
        moreover from eq yys have "y = x" by simp
        ultimately show False using False by simp
      qed
    next
      assume "filter P xs = []"
      moreover from this Cons.prems have "filter Q xs = xs" by (auto simp: filter_empty_conv)
      ultimately show "filter P xs @ x # filter Q xs = x # xs" by simp
    qed
    moreover have "filter P xs = [] \<longleftrightarrow> sorted_wrt (\<lambda>a b. \<not> (Q a \<and> P b)) (x # xs)"
    proof -
      have "\<forall>y\<in>set ys. \<not> P y \<Longrightarrow> sorted_wrt (\<lambda>a b. \<not> (Q a \<and> P b)) ys" for ys
        by (induction ys) auto
      then show ?thesis using q by (auto simp: filter_empty_conv)
    qed
    ultimately show ?thesis using False q by simp
  qed
qed

end
