(* ===== verification/AstModel.thy ===== *)
theory AstModel
  imports Prelude
begin

text \<open>
  The ts-morph abstract syntax tree as the TypeScript code sees it: this is the
  external collaborator of the spec (a set of parsed documents exposing a tree of
  typed nodes), not code of the repository, and is modelled from the spec.
  A node has a kind, optionally a \<open>getName\<close> and a \<open>getValue\<close> method
  (each returning a JavaScript value when present) and ordered children, the
  children that ts-morph's \<open>getChildren()\<close> returns, \<open>SyntaxList\<close> wrappers
  included. A node object (a handle) is a file, the generation of the file
  when the handle was obtained, and the position of the node in the file's tree.
  Replacing a document gives it a fresh generation: handles of the old generation
  are then forgotten (\<open>wasForgotten()\<close>).
\<close>

section \<open>Nodes\<close>

datatype kind =
    SourceFile
  | SyntaxList
  | EnumDeclaration
  | EnumMember
  | TypeAliasDeclaration
  | InterfaceDeclaration
  | ClassDeclaration
  | TypeParameterDeclaration
  | OtherKind string

text \<open>\<open>NoMember\<close>: the node has no such method; \<open>Member v\<close>: calling it returns \<open>v\<close>.\<close>

datatype 'a member = NoMember | Member 'a

datatype node =
  Node (nkind: kind) (nname: "jsval member") (nvalue: "jsval member") (nchildren: "node list")

text \<open>The node at a position (a list of child indexes), as in a nested environment.\<close>

fun node_at :: "node \<Rightarrow> nat list \<Rightarrow> node option" where
  "node_at n [] = Some n"
| "node_at n (i # is) =
     (if i < length (nchildren n) then node_at (nchildren n ! i) is else None)"

section \<open>Documents and node handles\<close>

record source_file =
  sf_gen :: nat
  sf_root :: node

record project =
  files :: "string \<rightharpoonup> source_file"
  next_gen :: nat

record handle =
  h_file :: string
  h_gen :: nat
  h_pos :: "nat list"

text \<open>\<open>node.wasForgotten()\<close>: the document was removed or replaced since.\<close>

definition wasForgotten :: "project \<Rightarrow> handle \<Rightarrow> bool" where
  "wasForgotten P h =
     (case files P (h_file h) of None \<Rightarrow> True | Some sf \<Rightarrow> sf_gen sf \<noteq> h_gen h)"

text \<open>The node a live handle denotes.\<close>

definition node_of :: "project \<Rightarrow> handle \<Rightarrow> node option" where
  "node_of P h =
     (case files P (h_file h) of
        None \<Rightarrow> None
      | Some sf \<Rightarrow> if sf_gen sf = h_gen h then node_at (sf_root sf) (h_pos h) else None)"

definition valid_handle :: "project \<Rightarrow> handle \<Rightarrow> bool" where
  "valid_handle P h \<longleftrightarrow> node_of P h \<noteq> None"

text \<open>The handle of a position in the current generation of a document.\<close>

definition handle_at :: "project \<Rightarrow> string \<Rightarrow> nat list \<Rightarrow> handle option" where
  "handle_at P f p =
     (case files P f of
        None \<Rightarrow> None
      | Some sf \<Rightarrow> if node_at (sf_root sf) p = None then None
                   else Some \<lparr>h_file = f, h_gen = sf_gen sf, h_pos = p\<rparr>)"

text \<open>Navigation: \<open>getParent()\<close>, \<open>getChildren()\<close>, \<open>getChildIndex()\<close>.\<close>

definition parent_of :: "handle \<Rightarrow> handle option" where
  "parent_of h = (if h_pos h = [] then None else Some (h\<lparr>h_pos := butlast (h_pos h)\<rparr>))"

definition child_handle :: "handle \<Rightarrow> nat \<Rightarrow> handle" where
  "child_handle h i = h\<lparr>h_pos := h_pos h @ [i]\<rparr>"

definition getChildIndex :: "handle \<Rightarrow> nat" where
  "getChildIndex h = last (h_pos h)"

text \<open>
  \<open>node.getAncestors()\<close>: the ancestors from the parent up to the source file,
  nearest first, without the \<open>SyntaxList\<close> wrappers (ts-morph walks
  \<open>getParent()\<close>, which skips them).
\<close>

definition ancestor_positions :: "nat list \<Rightarrow> nat list list" where
  "ancestor_positions p = rev (map (\<lambda>k. take k p) [0..<length p])"

definition getAncestors :: "node \<Rightarrow> handle \<Rightarrow> handle list" where
  "getAncestors root h =
     map (\<lambda>q. h\<lparr>h_pos := q\<rparr>)
       (filter (\<lambda>q. case node_at root q of Some m \<Rightarrow> nkind m \<noteq> SyntaxList | None \<Rightarrow> False)
          (ancestor_positions (h_pos h)))"

section \<open>Documents as the collaborator edits them\<close>

text \<open>
  Parsing or re-parsing a document replaces it wholesale with a fresh generation;
  removing it drops it from the document set.
\<close>

definition replace_file :: "string \<Rightarrow> node \<Rightarrow> project \<Rightarrow> project" where
  "replace_file f root P =
     \<lparr>files = (files P)(f \<mapsto> \<lparr>sf_gen = next_gen P, sf_root = root\<rparr>),
      next_gen = Suc (next_gen P)\<rparr>"

definition remove_file :: "string \<Rightarrow> project \<Rightarrow> project" where
  "remove_file f P = P\<lparr>files := (files P)(f := None)\<rparr>"

text \<open>Generations of the documents are below the generation counter.\<close>

definition gens_fresh :: "project \<Rightarrow> bool" where
  "gens_fresh P \<longleftrightarrow> (\<forall>f sf. files P f = Some sf \<longrightarrow> sf_gen sf < next_gen P)"

text \<open>
  \<open>project.getSourceFile(index)\<close>: ts-morph normalises its argument with
  \<open>fileName.replace(...)\<close> before the lookup, so an argument that is not a string
  (\<open>undefined\<close>, a number) throws a \<open>TypeError\<close>; a string is looked up as the
  document's path, \<open>undefined\<close> (\<open>None\<close>) when there is none.
\<close>

definition getSourceFile :: "project \<Rightarrow> jsval \<Rightarrow> source_file option js_result" where
  "getSourceFile P index =
     (case index of
        JStr f \<Rightarrow> Inr (files P f)
      | JNum _ \<Rightarrow> Inl (TypeError ''fileName.replace is not a function'')
      | JUndef \<Rightarrow> Inl (TypeError ''Cannot read properties of undefined (reading replace)''))"

section \<open>Lemmas on positions, handles and edits\<close>

lemma node_at_append [simp]:
  "node_at n (p @ q) = (case node_at n p of None \<Rightarrow> None | Some m \<Rightarrow> node_at m q)"
  by (induction n p rule: node_at.induct) auto

lemma node_at_snoc:
  "node_at n (p @ [i]) =
     (case node_at n p of None \<Rightarrow> None
      | Some m \<Rightarrow> if i < length (nchildren m) then Some (nchildren m ! i) else None)"
  by (simp split: option.split)

lemma node_at_prefix:
  "node_at n (p @ q) = Some m \<Longrightarrow> \<exists>k. node_at n p = Some k"
  by (simp split: option.splits)

lemma ancestor_positions_Nil [simp]: "ancestor_positions [] = []"
  by (simp add: ancestor_positions_def)

lemma ancestor_positions_snoc [simp]:
  "ancestor_positions (p @ [i]) = p # ancestor_positions p"
  by (simp add: ancestor_positions_def)

lemma ancestor_positions_length [simp]:
  "length (ancestor_positions p) = length p"
  by (simp add: ancestor_positions_def)

lemma gens_fresh_replace: "gens_fresh P \<Longrightarrow> gens_fresh (replace_file f root P)"
  unfolding gens_fresh_def replace_file_def by (auto intro: less_SucI)

lemma gens_fresh_remove: "gens_fresh P \<Longrightarrow> gens_fresh (remove_file f P)"
  by (auto simp: gens_fresh_def remove_file_def)

lemma valid_handle_not_forgotten:
  "valid_handle P h \<Longrightarrow> \<not> wasForgotten P h"
  unfolding valid_handle_def node_of_def wasForgotten_def
  by (cases "files P (h_file h)") (auto split: if_splits)

lemma handle_at_valid:
  "handle_at P f p = Some h \<Longrightarrow> valid_handle P h \<and> h_file h = f \<and> h_pos h = p"
proof (cases "files P f")
  case None
  then show "handle_at P f p = Some h \<Longrightarrow> ?thesis" by (simp add: handle_at_def)
next
  case (Some sf)
  assume "handle_at P f p = Some h"
  with Some have "node_at (sf_root sf) p \<noteq> None" and h: "h = \<lparr>h_file = f, h_gen = sf_gen sf, h_pos = p\<rparr>"
    by (simp_all add: handle_at_def split: if_splits)
  with Some show ?thesis by (simp add: valid_handle_def node_of_def)
qed

text \<open>A handle taken before a replacement of its document is forgotten after it.\<close>

lemma replace_forgets:
  "gens_fresh P \<Longrightarrow> valid_handle P h \<Longrightarrow> wasForgotten (replace_file (h_file h) root P) h"
  unfolding gens_fresh_def valid_handle_def node_of_def wasForgotten_def replace_file_def
  by (cases "files P (h_file h)") (fastforce split: if_splits)+

lemma gens_fresh_live:
  "gens_fresh P \<Longrightarrow> \<not> wasForgotten P c \<Longrightarrow> h_gen c < next_gen P"
proof -
  assume fresh: "gens_fresh P" and live: "\<not> wasForgotten P c"
  then obtain sf where sf: "files P (h_file c) = Some sf" and g: "sf_gen sf = h_gen c"
    by (auto simp: wasForgotten_def split: option.splits)
  from fresh sf have "sf_gen sf < next_gen P"
    by (simp add: gens_fresh_def)
  with g show ?thesis by simp
qed

lemma gens_fresh_valid:
  "gens_fresh P \<Longrightarrow> valid_handle P c \<Longrightarrow> h_gen c < next_gen P"
  using gens_fresh_live valid_handle_not_forgotten by blast

lemma remove_other_keeps:
  "f \<noteq> h_file h \<Longrightarrow> node_of (remove_file f P) h = node_of P h"
  by (simp add: node_of_def remove_file_def)

lemma remove_forgets:
  "wasForgotten (remove_file (h_file h) P) h"
  by (simp add: wasForgotten_def remove_file_def)

lemma replace_other_keeps:
  "f \<noteq> h_file h \<Longrightarrow> node_of (replace_file f root P) h = node_of P h"
  by (simp add: node_of_def replace_file_def)

end
