(* ===== verification/JsString.thy ===== *)
theory JsString
  imports Prelude
begin

text \<open>
  \<open>quote\<close> of src/adl/core/support/typescript.ts is \<open>JSON.stringify\<close> on a
  string; the locator expressions it builds (\<open>$.getMember("...")\<close>,
  \<open>$.getEnum("...")\<close>) are later read back by the sandboxed evaluator of
  support/sandbox (not part of the sources), which parses the double-quoted
  JavaScript string literal. This theory models \<open>JSON.stringify\<close> on strings
  of 8-bit characters, the string-literal reader for the escapes it produces, the
  parser of the two locator call shapes, and proves that reading back what
  \<open>quote\<close> wrote gives the original name.
\<close>

section \<open>JSON.stringify on strings\<close>

definition hex_digit :: "nat \<Rightarrow> char" where
  "hex_digit d = (if d < 10 then char_of (48 + d) else char_of (87 + d))"

definition json_escape :: "char \<Rightarrow> string" where
  "json_escape c =
     (if c = CHR 0x22 then [CHR 0x5C, CHR 0x22]
      else if c = CHR 0x5C then [CHR 0x5C, CHR 0x5C]
      else if c = CHR 0x08 then [CHR 0x5C, CHR ''b'']
      else if c = CHR 0x0C then [CHR 0x5C, CHR ''f'']
      else if c = CHR 0x0A then [CHR 0x5C, CHR ''n'']
      else if c = CHR 0x0D then [CHR 0x5C, CHR ''r'']
      else if c = CHR 0x09 then [CHR 0x5C, CHR ''t'']
      else if of_char c < (32::nat)
      then [CHR 0x5C, CHR ''u'', CHR ''0'', CHR ''0'',
            hex_digit (of_char c div 16), hex_digit (of_char c mod 16)]
      else [c])"

definition json_quote :: "string \<Rightarrow> string" where
  "json_quote s = CHR 0x22 # concat (map json_escape s) @ [CHR 0x22]"

section \<open>Reading a double-quoted string literal\<close>

definition hex_val :: "char \<Rightarrow> nat option" where
  "hex_val c =
     (let n = of_char c :: nat in
      if 48 \<le> n \<and> n < 58 then Some (n - 48)
      else if 97 \<le> n \<and> n < 103 then Some (n - 87)
      else if 65 \<le> n \<and> n < 71 then Some (n - 55)
      else None)"

definition simple_escape :: "char \<Rightarrow> char option" where
  "simple_escape e =
     (if e = CHR ''b'' then Some (CHR 0x08)
      else if e = CHR ''f'' then Some (CHR 0x0C)
      else if e = CHR ''n'' then Some (CHR 0x0A)
      else if e = CHR ''r'' then Some (CHR 0x0D)
      else if e = CHR ''t'' then Some (CHR 0x09)
      else if e = CHR ''v'' then Some (CHR 0x0B)
      else if e = CHR ''u'' \<or> e = CHR ''x'' \<or> e \<in> set ''0123456789'' \<or> e = CHR 0x0A then None
      else Some e)"

text \<open>
  The characters of a literal after its opening quote: the value and the text after
  the closing quote; \<open>None\<close> for a syntax error (unterminated literal, bad escape,
  or a \<open>\u\<close> escape beyond the 8-bit range of the model).
\<close>

fun read_lit :: "string \<Rightarrow> (string \<times> string) option" where
  "read_lit [] = None"
| "read_lit (c # cs) =
     (if c = CHR 0x22 then Some ([], cs)
      else if c = CHR 0x0A then None
      else if c = CHR 0x5C then
        (case cs of
           [] \<Rightarrow> None
         | e # cs' \<Rightarrow>
             if e = CHR ''u'' then
               (case cs' of
                  a # b # x # y # r \<Rightarrow>
                    (case (hex_val a, hex_val b, hex_val x, hex_val y) of
                       (Some da, Some db, Some dx, Some dy) \<Rightarrow>
                         let v = ((da * 16 + db) * 16 + dx) * 16 + dy in
                         if v < 256 then map_option (\<lambda>(s, rest). (char_of v # s, rest)) (read_lit r)
                         else None
                     | _ \<Rightarrow> None)
                | _ \<Rightarrow> None)
             else (case simple_escape e of
                     None \<Rightarrow> None
                   | Some x \<Rightarrow> map_option (\<lambda>(s, rest). (x # s, rest)) (read_lit cs')))
      else map_option (\<lambda>(s, rest). (c # s, rest)) (read_lit cs))"

section \<open>Locator expressions\<close>

text \<open>The two call shapes that \<open>getNodeIdentifier\<close> emits.\<close>

datatype locator = GetMember string | GetEnum string

definition parse_call :: "(string \<Rightarrow> locator) \<Rightarrow> string \<Rightarrow> locator option" where
  "parse_call k s =
     (case s of
        q # r \<Rightarrow>
          if q = CHR 0x22 then
            (case read_lit r of Some (v, rest) \<Rightarrow> if rest = '')'' then Some (k v) else None
             | None \<Rightarrow> None)
          else None
      | [] \<Rightarrow> None)"

definition parse_locator :: "string \<Rightarrow> locator option" where
  "parse_locator e =
     (if prefix ''$.getMember('' e then parse_call GetMember (drop 12 e)
      else if prefix ''$.getEnum('' e then parse_call GetEnum (drop 10 e)
      else None)"

section \<open>Reading back what was quoted\<close>

lemma hex_digit_val: "d < 16 \<Longrightarrow> hex_val (hex_digit d) = Some d"
  by (auto simp: hex_digit_def hex_val_def Let_def)

lemma read_lit_escape:
  "read_lit (json_escape c @ cs) = map_option (\<lambda>(s, rest). (c # s, rest)) (read_lit cs)"
proof -
  have zero: "hex_val CHR ''0'' = Some 0"
    by (simp add: hex_val_def)
  have hi: "of_char c < (32::nat) \<Longrightarrow> hex_val (hex_digit (of_char c div 16)) = Some (of_char c div 16)"
    by (intro hex_digit_val) simp
  have lo: "hex_val (hex_digit (of_char c mod 16)) = Some (of_char c mod 16)"
    by (intro hex_digit_val) simp
  have small: "(of_char c div 16 * 16 + of_char c mod 16 :: nat) = of_char c"
    by simp
  show ?thesis
    by (auto simp: json_escape_def simple_escape_def zero hi lo Let_def small)
qed

lemma read_lit_json:
  "read_lit (concat (map json_escape s) @ CHR 0x22 # rest) = Some (s, rest)"
  by (induction s) (simp_all add: read_lit_escape)

text \<open>Quoting and reading back are inverse.\<close>

theorem read_json_quote:
  "read_lit (tl (json_quote s) @ rest) = Some (s, rest)"
  by (simp add: json_quote_def read_lit_json)

lemma json_quote_inj: "(json_quote s = json_quote t) = (s = t)"
proof
  assume q: "json_quote s = json_quote t"
  have "Some (s, []) = read_lit (tl (json_quote s) @ [])" by (rule read_json_quote [symmetric])
  also have "\<dots> = read_lit (tl (json_quote t) @ [])" by (simp only: q)
  also have "\<dots> = Some (t, [])" by (rule read_json_quote)
  finally show "s = t" by simp
qed simp

lemma parse_getMember [simp]:
  "parse_locator (''$.getMember('' @ json_quote s @ '')'') = Some (GetMember s)"
  using read_json_quote [of s "'')''"]
  by (simp add: parse_locator_def parse_call_def json_quote_def)

lemma parse_getEnum [simp]:
  "parse_locator (''$.getEnum('' @ json_quote s @ '')'') = Some (GetEnum s)"
  using read_json_quote [of s "'')''"]
  by (simp add: parse_locator_def parse_call_def json_quote_def)

end
