(* ===== verification/NodePath.thy ===== *)
theory NodePath
  imports AstModel JsString
begin

text \<open>
  Node addressing of src/adl/core/support/typescript.ts: \<open>quote\<close> (line 16),
  \<open>getNodeIdentifier\<close> (lines 23--43), \<open>getPath\<close> (lines 49--51) and
  \<open>getNode\<close> (lines 56--84), with the sandboxed evaluation of locator
  expressions (support/sandbox, not in the sources) modelled from the spec as the two
  call shapes \<open>$.getMember(...)\<close> and \<open>$.getEnum(...)\<close>.
\<close>

section \<open>Identifiers and paths\<close>

text \<open>\<open>JSON.stringify(v)\<close>: a string is quoted, \<open>undefined\<close> stays \<open>undefined\<close>.\<close>

fun quote :: "jsval \<Rightarrow> jsval" where
  "quote (JStr s) = JStr (json_quote s)"
| "quote (JNum n) = JStr (js_show (JNum n))"
| "quote JUndef = JUndef"

text \<open>\<open>(<EnumMember>node).getName()\<close>: the result of the node's \<open>getName\<close>.\<close>

definition call_getName :: "node \<Rightarrow> jsval" where
  "call_getName n = (case nname n of Member v \<Rightarrow> v | NoMember \<Rightarrow> JUndef)"

definition getNodeIdentifier :: "handle \<Rightarrow> node \<Rightarrow> jsval" where
  "getNodeIdentifier h n =
     (case nkind n of
        SourceFile \<Rightarrow> JStr (h_file h)
      | EnumMember \<Rightarrow> JStr (''$.getMember('' @ js_show (quote (call_getName n)) @ '')'')
      | EnumDeclaration \<Rightarrow> JStr (''$.getEnum('' @ js_show (quote (call_getName n)) @ '')'')
      | _ \<Rightarrow>
          (case nname n of
             Member v \<Rightarrow> v
           | NoMember \<Rightarrow>
               (case nvalue n of
                  Member v \<Rightarrow> v
                | NoMember \<Rightarrow> JNum (int (getChildIndex h)))))"

text \<open>The identifier of the node a handle denotes inside a document tree.\<close>

definition ident_in :: "node \<Rightarrow> handle \<Rightarrow> jsval" where
  "ident_in root h =
     (case node_at root (h_pos h) of Some n \<Rightarrow> getNodeIdentifier h n | None \<Rightarrow> JUndef)"

definition getPath :: "node \<Rightarrow> handle \<Rightarrow> jsval list \<Rightarrow> jsval list" where
  "getPath root h args =
     map (ident_in root) (getAncestors root h) @ [ident_in root h] @ args"

section \<open>Evaluating a locator expression\<close>

text \<open>
  The members of a node reachable through its \<open>SyntaxList\<close> children, of one kind:
  the statements of a source file (\<open>getEnum\<close> searches them) and the members of
  an enum declaration (\<open>getMember\<close> searches them).
\<close>

definition member_positions :: "node \<Rightarrow> kind \<Rightarrow> nat list list" where
  "member_positions n k =
     concat (map (\<lambda>i. let c = nchildren n ! i in
                       if nkind c = SyntaxList
                       then map (\<lambda>j. [i, j])
                              (filter (\<lambda>j. nkind (nchildren c ! j) = k) [0..<length (nchildren c)])
                       else [])
                 [0..<length (nchildren n)])"

definition find_named :: "handle \<Rightarrow> node \<Rightarrow> kind \<Rightarrow> string \<Rightarrow> handle option" where
  "find_named ctx n k nm =
     map_option (\<lambda>q. ctx\<lparr>h_pos := h_pos ctx @ q\<rparr>)
       (find (\<lambda>q. case node_at n q of Some m \<Rightarrow> nname m = Member (JStr nm) | None \<Rightarrow> False)
          (member_positions n k))"

text \<open>
  \<open>evaluateExpression(index, {$: ctx})\<close>: \<open>$.getMember(name)\<close> exists on enum
  declarations, \<open>$.getEnum(name)\<close> on source files; calling either on another node
  is a \<open>TypeError\<close>; text outside the two shapes is not a locator expression.
\<close>

definition eval_locator :: "project \<Rightarrow> handle \<Rightarrow> string \<Rightarrow> handle option js_result" where
  "eval_locator P ctx e =
     (case node_of P ctx of
        None \<Rightarrow> Inl (Error ''node was forgotten'')
      | Some n \<Rightarrow>
          (case parse_locator e of
             Some (GetMember nm) \<Rightarrow>
               if nkind n = EnumDeclaration then Inr (find_named ctx n EnumMember nm)
               else Inl (TypeError ''$.getMember is not a function'')
           | Some (GetEnum nm) \<Rightarrow>
               if nkind n = SourceFile then Inr (find_named ctx n EnumDeclaration nm)
               else Inl (TypeError ''$.getEnum is not a function'')
           | None \<Rightarrow> Inl (Error ''unsupported locator expression'')))"

section \<open>Resolving a path\<close>

text \<open>
  The child test of the \<open>find\<close> at lines 72--79: a child whose \<open>getName()\<close> or
  \<open>getValue()\<close> is strictly equal to the path element.
\<close>

definition matches :: "node \<Rightarrow> jsval \<Rightarrow> bool" where
  "matches c index =
     ((case nname c of Member v \<Rightarrow> v = index | NoMember \<Rightarrow> False) \<or>
      (case nvalue c of Member v \<Rightarrow> v = index | NoMember \<Rightarrow> False))"

text \<open>One narrowing step (lines 62--81) from the node \<open>from\<close> with the element \<open>index\<close>.\<close>

definition locate :: "project \<Rightarrow> handle \<Rightarrow> jsval \<Rightarrow> handle option js_result" where
  "locate P from index =
     (case node_of P from of
        None \<Rightarrow> Inl (Error ''node was forgotten'')
      | Some n \<Rightarrow>
          js_bind
            (case index of
               JStr s \<Rightarrow>
                 if prefix ''$.'' s
                 then eval_locator P
                        (if nkind n = SyntaxList
                         then (case parent_of from of Some p \<Rightarrow> p | None \<Rightarrow> from) else from) s
                 else Inr None
             | _ \<Rightarrow> Inr None)
            (\<lambda>result.
               case result of
                 Some r \<Rightarrow> Inr (Some r)
               | None \<Rightarrow>
                   (case find (\<lambda>i. matches (nchildren n ! i) index) [0..<length (nchildren n)] of
                      Some i \<Rightarrow> Inr (Some (child_handle from i))
                    | None \<Rightarrow>
                        (case index of
                           JNum k \<Rightarrow>
                             if 0 \<le> k \<and> nat k < length (nchildren n)
                             then Inr (Some (child_handle from (nat k)))
                             else Inl (RangeError ''index out of range'')
                         | _ \<Rightarrow> Inr None))))"

text \<open>
  \<open>getNode(path, node)\<close>: shift the first element, narrow, and recurse on the rest
  while there is a result and elements are left (line 83). The first equation is
  \<open>path.shift()\<close> on an empty path, which yields \<open>undefined\<close>.
\<close>

fun getNode_from :: "project \<Rightarrow> handle \<Rightarrow> jsval list \<Rightarrow> handle option js_result" where
  "getNode_from P from [] = locate P from JUndef"
| "getNode_from P from (index # rest) =
     js_bind (locate P from index)
       (\<lambda>result. case result of
                   None \<Rightarrow> Inr None
                 | Some r \<Rightarrow> if rest = [] then Inr (Some r) else getNode_from P r rest)"

text \<open>
  \<open>getNode(path, project)\<close>: the first element names the source file, whose child 0
  (the statement \<open>SyntaxList\<close>) is where narrowing starts; a missing file is the
  \<open>fail(...)\<close> of line 59, a first element that is not a string makes
  \<open>getSourceFile\<close> throw.
\<close>

definition getNode :: "project \<Rightarrow> jsval list \<Rightarrow> handle option js_result" where
  "getNode P path =
     (case shift path of
        (index, path') \<Rightarrow>
          js_bind (getSourceFile P index)
            (\<lambda>found. case found of
               None \<Rightarrow> Inl (AssertionError (''SourceFile '' @ js_show index @ '' is not in the project''))
             | Some sf \<Rightarrow>
                 if nchildren (sf_root sf) = [] then Inl (RangeError ''index out of range'')
                 else getNode_from P
                        \<lparr>h_file = js_show index, h_gen = sf_gen sf, h_pos = [0]\<rparr> path'))"

section \<open>Type declarations and well-formed documents\<close>

text \<open>\<open>IsTypeDeclaration(node?)\<close> (lines 116--118); \<open>undefined\<close> is no declaration.\<close>

fun IsTypeDeclaration :: "node option \<Rightarrow> bool" where
  "IsTypeDeclaration None = False"
| "IsTypeDeclaration (Some n) =
     (nkind n = TypeAliasDeclaration \<or> nkind n = ClassDeclaration \<or>
      nkind n = InterfaceDeclaration \<or> nkind n = EnumDeclaration)"

text \<open>
  The union type \<open>TypeDeclaration\<close> (line 13) as the list of its member kinds;
  the source lists \<open>ClassDeclaration\<close> twice.
\<close>

definition TypeDeclaration_kinds :: "kind list" where
  "TypeDeclaration_kinds =
     [TypeAliasDeclaration, InterfaceDeclaration, ClassDeclaration, EnumDeclaration, ClassDeclaration]"

text \<open>
  A parsed source file: its child 0 is the \<open>SyntaxList\<close> of its statements
  (ts-morph's \<open>getChildAtIndex(0)\<close> of line 59).
\<close>

definition wf_source_file :: "node \<Rightarrow> bool" where
  "wf_source_file root \<longleftrightarrow>
     nkind root = SourceFile \<and> nchildren root \<noteq> [] \<and> nkind (nchildren root ! 0) = SyntaxList"

definition statements :: "node \<Rightarrow> node list" where
  "statements root = nchildren (nchildren root ! 0)"

text \<open>No statement carries, as its name or value, the name of another statement.\<close>

definition unique_decl_names :: "node list \<Rightarrow> bool" where
  "unique_decl_names ss \<longleftrightarrow>
     (\<forall>i<length ss. \<forall>k<length ss. i \<noteq> k \<longrightarrow>
        (case nname (ss ! i) of Member v \<Rightarrow> \<not> matches (ss ! k) v | NoMember \<Rightarrow> True))"

section \<open>A document of the repository: the generated enum \<open>AppType\<close>\<close>

text \<open>
  The ts-morph tree of
  src/adl/test/scenarios/v2/multiple/apimanagement/output/enums/AppType.ts: one exported
  enum with one member, each carrying its JSDoc comment.
\<close>

definition tok :: "string \<Rightarrow> node" where
  "tok k = Node (OtherKind k) NoMember NoMember []"

definition appType_member :: node where
  "appType_member =
     Node EnumMember (Member (JStr ''developerPortal'')) (Member (JStr ''developerPortal''))
       [tok ''JSDoc'', tok ''Identifier'', tok ''EqualsToken'', tok ''StringLiteral'']"

definition appType_enum :: node where
  "appType_enum =
     Node EnumDeclaration (Member (JStr ''AppType'')) NoMember
       [tok ''JSDoc'', Node SyntaxList NoMember NoMember [tok ''ExportKeyword''],
        tok ''EnumKeyword'', tok ''Identifier'', tok ''OpenBraceToken'',
        Node SyntaxList NoMember NoMember [appType_member], tok ''CloseBraceToken'']"

definition appType_file :: node where
  "appType_file =
     Node SourceFile NoMember NoMember
       [Node SyntaxList NoMember NoMember [appType_enum], tok ''EndOfFileToken'']"

definition appType_project :: project where
  "appType_project =
     replace_file ''/output/enums/AppType.ts'' appType_file \<lparr>files = Map.empty, next_gen = 0\<rparr>"

section \<open>Lemmas on identifiers, narrowing and paths\<close>

lemmas appType_defs = appType_project_def appType_file_def appType_enum_def appType_member_def tok_def

text \<open>The type guard \<open>IsTypeDeclaration\<close> accepts exactly the kinds of the union \<open>TypeDeclaration\<close>.\<close>

lemma IsTypeDeclaration_kinds:
  "IsTypeDeclaration (Some n) \<longleftrightarrow> nkind n \<in> set TypeDeclaration_kinds"
  by (auto simp: TypeDeclaration_kinds_def)

lemma wf_root_child0:
  "wf_source_file root \<Longrightarrow> node_at root [0] = Some (nchildren root ! 0)"
  by (auto simp: wf_source_file_def)

lemma getPath_top_level:
  assumes "wf_source_file root" and "h_pos h = [0, j]"
  shows "getPath root h args = JStr (h_file h) # ident_in root h # args"
proof -
  have pos: "h_pos h = [0] @ [j]" using assms(2) by simp
  have "ancestor_positions (h_pos h) = [[0], []]"
    by (simp only: pos ancestor_positions_snoc) (simp add: ancestor_positions_def)
  with assms(1) have "getAncestors root h = [h\<lparr>h_pos := []\<rparr>]"
    by (simp add: getAncestors_def wf_root_child0) (simp add: wf_source_file_def)
  with assms(1) show ?thesis
    by (simp add: getPath_def ident_in_def getNodeIdentifier_def wf_source_file_def)
qed

lemma getNode_file:
  assumes "files P f = Some sf" and "nchildren (sf_root sf) \<noteq> []"
  shows "getNode P (JStr f # rest) = getNode_from P \<lparr>h_file = f, h_gen = sf_gen sf, h_pos = [0]\<rparr> rest"
  using assms by (simp add: getNode_def getSourceFile_def)

lemma getNode_from_single:
  "getNode_from P from [index] = locate P from index"
  by (simp add: js_bind_def split: sum.split option.split)

lemma matches_own_name:
  "nname s = Member v \<Longrightarrow> matches s v"
  by (simp add: matches_def)

lemma unique_decl_names_first:
  assumes "unique_decl_names ss" "j < length ss" "nname (ss ! j) = Member v" "i < length ss" "i \<noteq> j"
  shows "\<not> matches (ss ! i) v"
  using assms unfolding unique_decl_names_def by (metis member.simps(5))

lemma locate_by_name:
  assumes "node_of P from = Some n" "\<not> prefix ''$.'' nm" "j < length (nchildren n)"
    "matches (nchildren n ! j) (JStr nm)" "\<forall>i<j. \<not> matches (nchildren n ! i) (JStr nm)"
  shows "locate P from (JStr nm) = Inr (Some (child_handle from j))"
  using assms by (simp add: locate_def find_upt_first)

lemma member_positions_first:
  assumes "nchildren n \<noteq> []" "nkind (nchildren n ! 0) = SyntaxList"
  shows "\<exists>rest. member_positions n k =
     map (\<lambda>j. [0, j]) (filter (\<lambda>j. nkind (nchildren (nchildren n ! 0) ! j) = k)
                              [0..<length (nchildren (nchildren n ! 0))]) @ rest"
proof -
  have "[0..<length (nchildren n)] = 0 # [1..<length (nchildren n)]"
    using assms(1) by (simp add: upt_conv_Cons)
  with assms(2) show ?thesis by (simp add: member_positions_def Let_def)
qed

lemma find_named_top_enum:
  assumes wf: "wf_source_file root" and j: "j < length (statements root)"
    and kind: "nkind (statements root ! j) = EnumDeclaration"
    and name: "nname (statements root ! j) = Member (JStr nm)"
    and first: "\<forall>i<j. \<not> (nkind (statements root ! i) = EnumDeclaration \<and>
                             nname (statements root ! i) = Member (JStr nm))"
  shows "find_named ctx root EnumDeclaration nm = Some (ctx\<lparr>h_pos := h_pos ctx @ [0, j]\<rparr>)"
proof -
  let ?sl = "nchildren root ! 0"
  let ?Q = "\<lambda>q. case node_at root q of Some m \<Rightarrow> nname m = Member (JStr nm) | None \<Rightarrow> False"
  let ?K = "\<lambda>j. nkind (nchildren ?sl ! j) = EnumDeclaration"
  have ne: "nchildren root \<noteq> []" and sl: "nkind ?sl = SyntaxList"
    using wf by (simp_all add: wf_source_file_def)
  obtain rest where mp: "member_positions root EnumDeclaration =
      map (\<lambda>j. [0, j]) (filter ?K [0..<length (nchildren ?sl)]) @ rest"
    using member_positions_first [OF ne sl] by blast
  have Q: "\<And>i. i < length (nchildren ?sl) \<Longrightarrow> ?Q [0, i] = (nname (nchildren ?sl ! i) = Member (JStr nm))"
    using ne by simp
  have "find (\<lambda>i. ?K i \<and> ?Q [0, i]) [0..<length (nchildren ?sl)] = Some j"
    using j kind name first Q by (intro find_upt_first) (auto simp: statements_def)
  then have "find ?Q (map (\<lambda>j. [0, j]) (filter ?K [0..<length (nchildren ?sl)])) = Some [0, j]"
    by (simp add: find_map find_filter comp_def)
  then show ?thesis
    by (simp add: find_named_def mp find_append)
qed

lemma locate_eval_found:
  assumes "node_of P from = Some n" "prefix ''$.'' e"
    "eval_locator P (if nkind n = SyntaxList
                     then (case parent_of from of Some p \<Rightarrow> p | None \<Rightarrow> from) else from) e
       = Inr (Some r)"
  shows "locate P from (JStr e) = Inr (Some r)"
  using assms by (simp add: locate_def)

lemma eval_locator_getEnum:
  "node_of P ctx = Some n \<Longrightarrow> nkind n = SourceFile \<Longrightarrow> parse_locator e = Some (GetEnum nm) \<Longrightarrow>
   eval_locator P ctx e = Inr (find_named ctx n EnumDeclaration nm)"
  by (simp add: eval_locator_def)

lemma eval_locator_getMember:
  "node_of P ctx = Some n \<Longrightarrow> nkind n = EnumDeclaration \<Longrightarrow> parse_locator e = Some (GetMember nm) \<Longrightarrow>
   eval_locator P ctx e = Inr (find_named ctx n EnumMember nm)"
  by (simp add: eval_locator_def)

lemma ident_enum_decl:
  "nkind s = EnumDeclaration \<Longrightarrow> nname s = Member (JStr nm) \<Longrightarrow>
   getNodeIdentifier h s = JStr (''$.getEnum('' @ json_quote nm @ '')'')"
  by (simp add: getNodeIdentifier_def call_getName_def)

lemma ident_enum_member:
  "nkind s = EnumMember \<Longrightarrow> nname s = Member (JStr nm) \<Longrightarrow>
   getNodeIdentifier h s = JStr (''$.getMember('' @ json_quote nm @ '')'')"
  by (simp add: getNodeIdentifier_def call_getName_def)

lemma dot_not_locator: "CHR ''.'' \<notin> set nm \<Longrightarrow> \<not> prefix ''$.'' nm"
  by (auto dest: set_mono_prefix)

lemma getNode_statement:
  assumes doc: "files P f = Some sf" and wf: "wf_source_file (sf_root sf)"
    and j: "j < length (statements (sf_root sf))"
    and decl: "IsTypeDeclaration (Some (statements (sf_root sf) ! j))"
    and name: "nname (statements (sf_root sf) ! j) = Member (JStr nm)"
    and dot: "CHR ''.'' \<notin> set nm"
    and uniq: "unique_decl_names (statements (sf_root sf))"
  shows "getNode P [JStr f, getNodeIdentifier h (statements (sf_root sf) ! j)] =
           Inr (Some \<lparr>h_file = f, h_gen = sf_gen sf, h_pos = [0, j]\<rparr>)"
proof -
  let ?root = "sf_root sf"
  let ?ss = "statements ?root"
  let ?s = "?ss ! j"
  let ?slh = "\<lparr>h_file = f, h_gen = sf_gen sf, h_pos = [0::nat]\<rparr>"
  have ne: "nchildren ?root \<noteq> []" and sl: "nkind (nchildren ?root ! 0) = SyntaxList"
    and src: "nkind ?root = SourceFile"
    using wf by (simp_all add: wf_source_file_def)
  have at: "node_at ?root [0, j] = Some ?s"
    using ne j by (simp add: statements_def)
  have slnode: "node_of P ?slh = Some (nchildren ?root ! 0)"
    using doc ne by (simp add: node_of_def)
  have others: "\<forall>i<j. \<not> matches (?ss ! i) (JStr nm)"
  proof (intro allI impI)
    fix i assume "i < j"
    with j have "i < length ?ss" "i \<noteq> j" by simp_all
    with unique_decl_names_first [OF uniq j name] show "\<not> matches (?ss ! i) (JStr nm)" by blast
  qed
  let ?t = "\<lparr>h_file = f, h_gen = sf_gen sf, h_pos = [0::nat, j]\<rparr>"
  have step: "locate P ?slh (getNodeIdentifier h ?s) = Inr (Some ?t)"
  proof (cases "nkind ?s = EnumDeclaration")
    case True
    let ?rh = "\<lparr>h_file = f, h_gen = sf_gen sf, h_pos = []::nat list\<rparr>"
    have first: "\<forall>i<j. \<not> (nkind (?ss ! i) = EnumDeclaration \<and> nname (?ss ! i) = Member (JStr nm))"
      using others by (auto simp: matches_def)
    have fn: "find_named ?rh ?root EnumDeclaration nm = Some ?t"
      using find_named_top_enum [OF wf j True name first, of ?rh] by simp
    have root: "node_of P ?rh = Some ?root"
      using doc by (simp add: node_of_def)
    have ev: "eval_locator P ?rh (''$.getEnum('' @ json_quote nm @ '')'') = Inr (Some ?t)"
      using eval_locator_getEnum [OF root src parse_getEnum] fn by simp
    show ?thesis
      unfolding ident_enum_decl [OF True name]
      by (rule locate_eval_found [OF slnode]) (use sl ev in \<open>simp_all add: parent_of_def\<close>)
  next
    case False
    with decl have kinds: "nkind ?s = TypeAliasDeclaration \<or> nkind ?s = ClassDeclaration \<or>
        nkind ?s = InterfaceDeclaration"
      by simp
    then have ident: "getNodeIdentifier h ?s = JStr nm"
      using name by (auto simp: getNodeIdentifier_def)
    have "locate P ?slh (JStr nm) = Inr (Some (child_handle ?slh j))"
      using slnode dot_not_locator [OF dot] j others name
      by (intro locate_by_name) (auto simp: statements_def matches_def)
    then show ?thesis
      using ident by (simp add: child_handle_def)
  qed
  show ?thesis
    using getNode_file [OF doc ne] step by (simp add: getNode_from_single)
qed


lemma valid_handle_node_of:
  "valid_handle P h \<longleftrightarrow> (\<exists>n. node_of P h = Some n)"
  by (auto simp: valid_handle_def)

lemma node_of_child:
  "node_of P src = Some n \<Longrightarrow> i < length (nchildren n) \<Longrightarrow>
   node_of P (child_handle src i) = Some (nchildren n ! i)"
  by (auto simp: node_of_def child_handle_def node_at_snoc split: option.splits if_splits)

lemma node_of_extend:
  "node_of P ctx = Some n \<Longrightarrow> node_at n q = Some m \<Longrightarrow>
   node_of P (ctx\<lparr>h_pos := h_pos ctx @ q\<rparr>) = Some m"
  by (auto simp: node_of_def split: option.splits if_splits)

lemma node_of_parent:
  assumes n: "node_of P h = Some n" and p: "parent_of h = Some p"
  shows "\<exists>m. node_of P p = Some m"
proof -
  from p have ne: "h_pos h \<noteq> []" and pd: "p = h\<lparr>h_pos := butlast (h_pos h)\<rparr>"
    by (simp_all add: parent_of_def split: if_splits)
  from ne have pos: "h_pos h = butlast (h_pos h) @ [last (h_pos h)]"
    by simp
  obtain sf where sf: "files P (h_file h) = Some sf" and g: "sf_gen sf = h_gen h"
      and at: "node_at (sf_root sf) (h_pos h) = Some n"
    using n by (simp add: node_of_def split: option.splits if_splits)
  from at pos obtain k where "node_at (sf_root sf) (butlast (h_pos h)) = Some k"
    by (metis node_at_prefix)
  with sf g pd show ?thesis
    by (simp add: node_of_def)
qed

lemma find_named_valid:
  assumes "node_of P ctx = Some n" "find_named ctx n k nm = Some r"
  shows "\<exists>m. node_of P r = Some m"
proof -
  from assms(2) obtain q where q: "r = ctx\<lparr>h_pos := h_pos ctx @ q\<rparr>"
      and found: "find (\<lambda>q. case node_at n q of Some m \<Rightarrow> nname m = Member (JStr nm) | None \<Rightarrow> False)
                   (member_positions n k) = Some q"
    by (auto simp: find_named_def)
  from found have "\<exists>m. node_at n q = Some m"
    by (auto dest!: find_Some_first split: option.splits)
  with assms(1) q show ?thesis
    by (auto dest: node_of_extend)
qed

lemma eval_locator_valid:
  "eval_locator P ctx e = Inr (Some r) \<Longrightarrow> \<exists>m. node_of P r = Some m"
  by (auto simp: eval_locator_def split: option.splits locator.splits if_splits
           dest: find_named_valid)

lemma find_named_same_doc:
  "find_named ctx n k nm = Some r \<Longrightarrow> h_file r = h_file ctx \<and> h_gen r = h_gen ctx"
  by (auto simp: find_named_def)

lemma eval_locator_same_doc:
  "eval_locator P ctx e = Inr (Some r) \<Longrightarrow> h_file r = h_file ctx \<and> h_gen r = h_gen ctx"
  by (auto simp: eval_locator_def split: option.splits locator.splits if_splits
           dest: find_named_same_doc)

lemma locate_valid:
  assumes "locate P src index = Inr (Some r)"
  shows "(\<exists>m. node_of P r = Some m) \<and> h_file r = h_file src \<and> h_gen r = h_gen src"
proof -
  from assms obtain n where n: "node_of P src = Some n"
    by (auto simp: locate_def split: option.splits)
  let ?ctx = "if nkind n = SyntaxList then (case parent_of src of Some p \<Rightarrow> p | None \<Rightarrow> src) else src"
  have ctx_doc: "h_file ?ctx = h_file src \<and> h_gen ?ctx = h_gen src"
    by (auto simp: parent_of_def split: option.splits)
  show ?thesis
  proof (cases "\<exists>s. index = JStr s \<and> prefix ''$.'' s \<and> (\<exists>r'. eval_locator P ?ctx s = Inr (Some r'))")
    case True
    then obtain s r' where s: "index = JStr s" "prefix ''$.'' s" and ev: "eval_locator P ?ctx s = Inr (Some r')"
      by blast
    with assms n have "r = r'" by (simp add: locate_def)
    with ev ctx_doc show ?thesis
      using eval_locator_valid eval_locator_same_doc by fastforce
  next
    case False
    with assms n obtain i where "i < length (nchildren n)" "r = child_handle src i"
      by (auto simp: locate_def js_bind_def split: jsval.splits if_splits option.splits sum.splits
               dest!: find_Some_first)
    with n show ?thesis
      by (auto simp: child_handle_def dest: node_of_child)
  qed
qed

lemma getNode_from_valid:
  "getNode_from P src path = Inr (Some r) \<Longrightarrow>
   (\<exists>m. node_of P r = Some m) \<and> h_file r = h_file src \<and> h_gen r = h_gen src"
proof (induction P src path rule: getNode_from.induct)
  case (1 P src)
  then show ?case by (simp add: locate_valid)
next
  case (2 P src index rest)
  then obtain r' where l: "locate P src index = Inr (Some r')"
    by (auto simp: js_bind_def split: sum.splits option.splits if_splits)
  show ?case
  proof (cases "rest = []")
    case True
    with 2 l show ?thesis by (simp add: locate_valid)
  next
    case False
    with "2.prems" l have "getNode_from P r' rest = Inr (Some r)" by simp
    with "2.IH" [OF False] locate_valid [OF l] show ?thesis by simp
  qed
qed

lemma getNode_valid:
  assumes "getNode P path = Inr (Some r)"
  shows "valid_handle P r \<and> (\<exists>sf. files P (h_file r) = Some sf \<and> sf_gen sf = h_gen r)"
proof -
  obtain x rest where p: "path = x # rest"
    using assms by (cases path) (simp_all add: getNode_def getSourceFile_def)
  obtain f where x: "x = JStr f"
    using assms p by (cases x) (simp_all add: getNode_def getSourceFile_def)
  obtain sf where sf: "files P f = Some sf"
    using assms p x by (cases "files P f") (simp_all add: getNode_def getSourceFile_def)
  have ne: "nchildren (sf_root sf) \<noteq> []"
    and r: "getNode_from P \<lparr>h_file = f, h_gen = sf_gen sf, h_pos = [0]\<rparr> rest = Inr (Some r)"
    using assms p x sf by (simp_all add: getNode_def getSourceFile_def split: if_splits)
  from getNode_from_valid [OF r] have "\<exists>m. node_of P r = Some m" "h_file r = f" "h_gen r = sf_gen sf"
    by simp_all
  with sf show ?thesis
    by (simp add: valid_handle_def)
qed


lemma member_positions_kind:
  "q \<in> set (member_positions n k) \<Longrightarrow> \<exists>m. node_at n q = Some m \<and> nkind m = k"
  by (auto simp: member_positions_def Let_def split: if_splits)

lemma find_named_typed:
  assumes "node_of P ctx = Some n" "find_named ctx n k nm = Some r"
  shows "\<exists>m. node_of P r = Some m \<and> nkind m = k \<and> nname m = Member (JStr nm)"
proof -
  from assms(2) obtain q where q: "r = ctx\<lparr>h_pos := h_pos ctx @ q\<rparr>"
      and found: "find (\<lambda>q. case node_at n q of Some m \<Rightarrow> nname m = Member (JStr nm) | None \<Rightarrow> False)
                   (member_positions n k) = Some q"
    by (auto simp: find_named_def)
  from find_Some_first [OF found] have mem: "q \<in> set (member_positions n k)"
      and nm: "case node_at n q of Some m \<Rightarrow> nname m = Member (JStr nm) | None \<Rightarrow> False"
    by (auto simp: in_set_conv_nth)
  from member_positions_kind [OF mem] obtain m where m: "node_at n q = Some m" "nkind m = k" by blast
  with nm assms(1) q show ?thesis by (auto dest: node_of_extend)
qed

lemma getNode_start:
  assumes "files P f = Some sf" "wf_source_file (sf_root sf)"
  shows "getNode P (JStr f # rest) = getNode_from P \<lparr>h_file = f, h_gen = sf_gen sf, h_pos = [0]\<rparr> rest"
    and "node_of P \<lparr>h_file = f, h_gen = sf_gen sf, h_pos = [0]\<rparr> = Some (nchildren (sf_root sf) ! 0)"
  using assms by (simp_all add: getNode_def getSourceFile_def wf_source_file_def node_of_def)

lemma find_no_match:
  "\<forall>c \<in> set cs. \<not> matches c x \<Longrightarrow> find (\<lambda>i. matches (cs ! i) x) [0..<length cs] = None"
  by (auto simp: find_None_iff)


lemma node_at_statement:
  "wf_source_file root \<Longrightarrow> j < length (statements root) \<Longrightarrow> node_at root [0, j] = Some (statements root ! j)"
  by (simp add: wf_source_file_def statements_def)

lemma getPath_statement:
  assumes wf: "wf_source_file (sf_root sf)"
    and h: "h = \<lparr>h_file = f, h_gen = sf_gen sf, h_pos = [0, j]\<rparr>"
    and j: "j < length (statements (sf_root sf))"
  shows "getPath (sf_root sf) h [] = [JStr f, getNodeIdentifier h (statements (sf_root sf) ! j)]"
proof -
  have "node_at (sf_root sf) (h_pos h) = Some (statements (sf_root sf) ! j)"
    using node_at_statement [OF wf j] h by simp
  then show ?thesis
    using getPath_top_level [OF wf, of h j] h by (simp add: ident_in_def)
qed

text \<open>
  C1. Address round trip for top-level declarations: in a parsed source file, the
  path \<open>getPath\<close> computes for a type declaration among the file's statements
  (an enum found through \<open>$.getEnum(...)\<close>, any other by its name) is
  resolved by \<open>getNode\<close> back to the same node, provided declaration names
  contain no dot and no other statement carries the declaration's name.
\<close>

theorem getNode_getPath_top_level:
  assumes doc: "files P f = Some sf" and wf: "wf_source_file (sf_root sf)"
    and h: "h = \<lparr>h_file = f, h_gen = sf_gen sf, h_pos = [0, j]\<rparr>"
    and j: "j < length (statements (sf_root sf))"
    and decl: "IsTypeDeclaration (Some (statements (sf_root sf) ! j))"
    and name: "nname (statements (sf_root sf) ! j) = Member (JStr nm)"
    and dot: "CHR ''.'' \<notin> set nm"
    and uniq: "unique_decl_names (statements (sf_root sf))"
  shows "getNode P (getPath (sf_root sf) h []) = Inr (Some h)"
  using getPath_statement [OF wf h j] getNode_statement [OF doc wf j decl name dot uniq, of h] h
  by simp

text \<open>
  C2. Paths start with the nearest ancestor: \<open>getPath\<close> lists the ancestors
  nearest first (ts-morph's \<open>getAncestors()\<close> order), while \<open>getNode\<close>
  reads the first element as a source-file path. For any node with an ancestor,
  unless the nearest ancestor's identifier happens to name a document, resolving the
  node's path throws: the \<open>AssertionError\<close> of \<open>fail(...)\<close> naming that
  identifier when it is a string, the \<open>TypeError\<close> of \<open>getSourceFile\<close> when it
  is a child index. For a node nested inside a declaration (an enum member) the path never
  starts with the file, so the round trip of the spec does not hold there.
\<close>

theorem getNode_getPath_nearest_first:
  assumes anc: "getAncestors root h = a # outer"
    and nodoc: "\<forall>f. ident_in root a = JStr f \<longrightarrow> files P f = None"
  shows "getNode P (getPath root h args) =
           (case ident_in root a of
              JStr s \<Rightarrow> Inl (AssertionError (''SourceFile '' @ s @ '' is not in the project''))
            | JNum _ \<Rightarrow> Inl (TypeError ''fileName.replace is not a function'')
            | JUndef \<Rightarrow> Inl (TypeError ''Cannot read properties of undefined (reading replace)''))"
proof -
  have "getPath root h args = ident_in root a # map (ident_in root) outer @ [ident_in root h] @ args"
    by (simp add: getPath_def anc)
  then show ?thesis
    using nodoc by (cases "ident_in root a") (simp_all add: getNode_def getSourceFile_def)
qed


text \<open>
  C25. The error paths of \<open>getNode\<close>:
  \<^item> an empty path throws a \<open>TypeError\<close> in \<open>getSourceFile\<close>;
  \<^item> an unknown document is the \<open>AssertionError\<close> of \<open>fail\<close>;
  \<^item> a document without children is a \<open>RangeError\<close> of \<open>getChildAtIndex(0)\<close>;
  \<^item> a child index that no statement matches by name or value and that is out of
    range is a \<open>RangeError\<close>;
  \<^item> a string element that is not a locator and matches no statement gives
    \<open>undefined\<close>, not an error.
\<close>

theorem getNode_error_paths:
  "getNode P [] = Inl (TypeError ''Cannot read properties of undefined (reading replace)'') \<and>
   (files P f = None \<longrightarrow>
      getNode P (JStr f # rest) = Inl (AssertionError (''SourceFile '' @ f @ '' is not in the project''))) \<and>
   (files P f = Some sf \<longrightarrow> nchildren (sf_root sf) = [] \<longrightarrow>
      getNode P (JStr f # rest) = Inl (RangeError ''index out of range'')) \<and>
   (files P f = Some sf \<longrightarrow> wf_source_file (sf_root sf) \<longrightarrow>
      (\<forall>c \<in> set (statements (sf_root sf)). \<not> matches c (JNum k)) \<longrightarrow>
      \<not> (0 \<le> k \<and> nat k < length (statements (sf_root sf))) \<longrightarrow>
      getNode P [JStr f, JNum k] = Inl (RangeError ''index out of range'')) \<and>
   (files P f = Some sf \<longrightarrow> wf_source_file (sf_root sf) \<longrightarrow> \<not> prefix ''$.'' s \<longrightarrow>
      (\<forall>c \<in> set (statements (sf_root sf)). \<not> matches c (JStr s)) \<longrightarrow>
      getNode P [JStr f, JStr s] = Inr None)"
proof (intro conjI impI)
  show "getNode P [] = Inl (TypeError ''Cannot read properties of undefined (reading replace)'')"
    by (simp add: getNode_def getSourceFile_def)
  show "getNode P (JStr f # rest) = Inl (AssertionError (''SourceFile '' @ f @ '' is not in the project''))"
    if "files P f = None" using that by (simp add: getNode_def getSourceFile_def)
  show "getNode P (JStr f # rest) = Inl (RangeError ''index out of range'')"
    if "files P f = Some sf" "nchildren (sf_root sf) = []" using that by (simp add: getNode_def getSourceFile_def)
next
  assume doc: "files P f = Some sf" and wf: "wf_source_file (sf_root sf)"
    and none: "\<forall>c \<in> set (statements (sf_root sf)). \<not> matches c (JNum k)"
    and out: "\<not> (0 \<le> k \<and> nat k < length (statements (sf_root sf)))"
  have "find (\<lambda>i. matches (statements (sf_root sf) ! i) (JNum k)) [0..<length (statements (sf_root sf))] = None"
    using none by (rule find_no_match)
  with out show "getNode P [JStr f, JNum k] = Inl (RangeError ''index out of range'')"
    using getNode_start [OF doc wf] by (simp add: locate_def statements_def)
next
  assume doc: "files P f = Some sf" and wf: "wf_source_file (sf_root sf)"
    and nl: "\<not> prefix ''$.'' s"
    and none: "\<forall>c \<in> set (statements (sf_root sf)). \<not> matches c (JStr s)"
  have "find (\<lambda>i. matches (statements (sf_root sf) ! i) (JStr s)) [0..<length (statements (sf_root sf))] = None"
    using none by (rule find_no_match)
  with nl show "getNode P [JStr f, JStr s] = Inr None"
    using getNode_start [OF doc wf] by (simp add: locate_def statements_def)
qed

theorem getNode_getPath_top_level_witness:
  "getNode appType_project
     (getPath appType_file \<lparr>h_file = ''/output/enums/AppType.ts'', h_gen = 0, h_pos = [0, 0]\<rparr> []) =
   Inr (Some \<lparr>h_file = ''/output/enums/AppType.ts'', h_gen = 0, h_pos = [0, 0]\<rparr>)"
proof -
  have f: "files appType_project ''/output/enums/AppType.ts'' = Some \<lparr>sf_gen = 0, sf_root = appType_file\<rparr>"
    by (simp add: appType_project_def replace_file_def)
  show ?thesis
    using getNode_getPath_top_level [OF f, of _ 0 "''AppType''"]
    by (simp add: appType_defs wf_source_file_def statements_def
                  unique_decl_names_def)
qed

theorem getNode_getPath_nearest_first_witness:
  "getNode appType_project
     (getPath appType_file \<lparr>h_file = ''/output/enums/AppType.ts'', h_gen = 0, h_pos = [0, 0, 5, 0]\<rparr> []) =
   Inl (AssertionError (''SourceFile '' @ ''$.getEnum('' @ json_quote ''AppType'' @ '')'' @ '' is not in the project''))"
proof -
  let ?h = "\<lparr>h_file = ''/output/enums/AppType.ts'', h_gen = 0, h_pos = [0::nat, 0, 5, 0]\<rparr>"
  let ?a = "\<lparr>h_file = ''/output/enums/AppType.ts'', h_gen = 0, h_pos = [0::nat, 0]\<rparr>"
  have anc: "getAncestors appType_file ?h = ?a # [?h\<lparr>h_pos := []\<rparr>]"
    by (simp add: getAncestors_def ancestor_positions_def appType_defs)
  have id: "ident_in appType_file ?a = JStr (''$.getEnum('' @ json_quote ''AppType'' @ '')'')"
    by (simp add: ident_in_def appType_defs ident_enum_decl)
  have nd: "\<forall>f. ident_in appType_file ?a = JStr f \<longrightarrow> files appType_project f = None"
    unfolding id by (simp add: appType_project_def replace_file_def)
  show ?thesis
    using getNode_getPath_nearest_first [OF anc nd] id by simp
qed

theorem getNode_error_paths_witness:
  "getNode appType_project [JStr ''/output/enums/AppType.ts'', JNum 5] = Inl (RangeError ''index out of range'') \<and>
   getNode appType_project [JStr ''/output/enums/AppType.ts'', JStr ''Tier''] = Inr None"
proof -
  have doc: "files appType_project ''/output/enums/AppType.ts'' = Some \<lparr>sf_gen = 0, sf_root = appType_file\<rparr>"
    by (simp add: appType_project_def replace_file_def)
  show ?thesis
    using getNode_error_paths [of appType_project "''/output/enums/AppType.ts''" _
                                  "\<lparr>sf_gen = 0, sf_root = appType_file\<rparr>" 5 "''Tier''"] doc
    by (simp add: wf_source_file_def statements_def matches_def appType_defs)
qed

end
