(* ===== verification/Reference.thy ===== *)
theory Reference
  imports NodePath
begin

text \<open>
  \<open>referenceTo\<close> of src/adl/core/support/typescript.ts (lines 91--110): a
  \<open>Proxy\<close> over a node that keeps the node's path and a mutable \<open>current\<close>
  node. Each of its four traps (\<open>get\<close>, \<open>getOwnPropertyDescriptor\<close>,
  \<open>has\<close>, \<open>set\<close>) evaluates
  \<open>current.wasForgotten() ? (current = getNode([...path], project)) : current\<close>
  and applies the \<open>Reflect\<close> operation to the result. The model makes the
  closure's state explicit (\<open>ref_state\<close>), returns it updated from every trap,
  including when the trap throws after the assignment, and composes traps with the
  document edits of the collaborator into a step function on the pair of document
  set and reference.
\<close>

section \<open>The reference and its traps\<close>

record ref_state =
  ref_current :: "handle option"
  ref_path :: "jsval list"

datatype trap = TrapGet | TrapGetOwnPropertyDescriptor | TrapHas | TrapSet

text \<open>
  Construction (lines 92--94): the project, the current node, and the path computed
  once by \<open>getPath(input)\<close>; ts-morph refuses to navigate a forgotten node.
\<close>

definition referenceTo :: "project \<Rightarrow> handle \<Rightarrow> ref_state js_result" where
  "referenceTo P input =
     (case files P (h_file input) of
        None \<Rightarrow> Inl (Error ''node was forgotten'')
      | Some sf \<Rightarrow>
          if sf_gen sf = h_gen input \<and> node_at (sf_root sf) (h_pos input) \<noteq> None
          then Inr \<lparr>ref_current = Some input, ref_path = getPath (sf_root sf) input []\<rparr>
          else Inl (Error ''node was forgotten''))"

text \<open>
  The target of a trap. With \<open>current\<close> undefined (after a re-resolution that found
  nothing) \<open>current.wasForgotten()\<close> is a \<open>TypeError\<close>; when \<open>getNode\<close> throws
  the assignment does not happen; when it returns \<open>undefined\<close> the assignment
  happens and \<open>Reflect\<close> then throws on the non-object.
\<close>

definition acquire :: "project \<Rightarrow> ref_state \<Rightarrow> handle js_result \<times> ref_state" where
  "acquire P r =
     (case ref_current r of
        None \<Rightarrow> (Inl (TypeError ''Cannot read properties of undefined (reading wasForgotten)''), r)
      | Some cur \<Rightarrow>
          if wasForgotten P cur then
            (case getNode P (ref_path r) of
               Inl e \<Rightarrow> (Inl e, r)
             | Inr None \<Rightarrow> (Inl (TypeError ''Reflect operation called on non-object''),
                            r\<lparr>ref_current := None\<rparr>)
             | Inr (Some n) \<Rightarrow> (Inr n, r\<lparr>ref_current := Some n\<rparr>))
          else (Inr cur, r))"

text \<open>
  The four traps of lines 97--108 share the acquisition; the \<open>Reflect\<close> operation
  then reads or writes a property of the acquired node, which the model returns.
\<close>

fun proxy_trap :: "project \<Rightarrow> ref_state \<Rightarrow> trap \<Rightarrow> handle js_result \<times> ref_state" where
  "proxy_trap P r TrapGet = acquire P r"
| "proxy_trap P r TrapGetOwnPropertyDescriptor = acquire P r"
| "proxy_trap P r TrapHas = acquire P r"
| "proxy_trap P r TrapSet = acquire P r"

section \<open>Edits and accesses interleaved\<close>

text \<open>
  What can happen to a retained reference: the collaborator re-parses or replaces a
  document, removes one, or a caller goes through one of the traps. Execution is
  single-threaded, so a run is a sequence of these events.
\<close>

datatype event = EditDoc string node | RemoveDoc string | Access trap

fun sys_step :: "project \<times> ref_state \<Rightarrow> event \<Rightarrow> project \<times> ref_state" where
  "sys_step (P, r) (EditDoc f root) = (replace_file f root P, r)"
| "sys_step (P, r) (RemoveDoc f) = (remove_file f P, r)"
| "sys_step (P, r) (Access t) = (P, snd (proxy_trap P r t))"

fun sys_run :: "project \<times> ref_state \<Rightarrow> event list \<Rightarrow> project \<times> ref_state" where
  "sys_run s [] = s"
| "sys_run s (e # es) = sys_run (sys_step s e) es"

text \<open>States reachable from a reference taken on a live node.\<close>

inductive ref_reach :: "project \<times> ref_state \<Rightarrow> bool" where
  start: "gens_fresh P \<Longrightarrow> referenceTo P h = Inr r \<Longrightarrow> ref_reach (P, r)"
| step: "ref_reach s \<Longrightarrow> ref_reach (sys_step s e)"

text \<open>
  The invariant: generations stay fresh, and the cached node is either forgotten (and
  will be re-resolved) or live, and older than every future generation.
\<close>

definition ref_inv :: "project \<times> ref_state \<Rightarrow> bool" where
  "ref_inv s \<longleftrightarrow>
     (case s of (P, r) \<Rightarrow>
        gens_fresh P \<and>
        (\<forall>c. ref_current r = Some c \<longrightarrow>
             h_gen c < next_gen P \<and> (wasForgotten P c \<or> valid_handle P c)))"

section \<open>The enum \<open>AppType\<close> retained across edits\<close>

text \<open>
  The reference a generator would hold on the enum declaration of AppType.ts, and two
  re-parses of the file: one where an interface was inserted before the enum, one
  where the enum was deleted.
\<close>

definition appType_ref :: ref_state where
  "appType_ref =
     \<lparr>ref_current = Some \<lparr>h_file = ''/output/enums/AppType.ts'', h_gen = 0, h_pos = [0, 0]\<rparr>,
      ref_path = [JStr ''/output/enums/AppType.ts'', JStr (''$.getEnum('' @ json_quote ''AppType'' @ '')'')]\<rparr>"

definition other_interface :: node where
  "other_interface = Node InterfaceDeclaration (Member (JStr ''Other'')) NoMember [tok ''InterfaceKeyword'']"

definition appType_moved_file :: node where
  "appType_moved_file =
     Node SourceFile NoMember NoMember
       [Node SyntaxList NoMember NoMember [other_interface, appType_enum], tok ''EndOfFileToken'']"

definition appType_deleted_file :: node where
  "appType_deleted_file =
     Node SourceFile NoMember NoMember [Node SyntaxList NoMember NoMember [], tok ''EndOfFileToken'']"

section \<open>Lemmas\<close>

lemma proxy_trap_acquire [simp]: "proxy_trap P r t = acquire P r"
  by (cases t) simp_all

lemma acquire_path [simp]: "ref_path (snd (acquire P r)) = ref_path r"
  by (simp add: acquire_def split: option.split sum.split)

lemma referenceTo_Inr:
  "referenceTo P h = Inr r \<Longrightarrow>
   valid_handle P h \<and> ref_current r = Some h \<and>
   (\<exists>sf. files P (h_file h) = Some sf \<and> ref_path r = getPath (sf_root sf) h [])"
  by (auto simp: referenceTo_def valid_handle_def node_of_def split: option.splits if_splits)

lemma acquire_Inr:
  "fst (acquire P r) = Inr c \<Longrightarrow>
   (ref_current r = Some c \<and> \<not> wasForgotten P c) \<or>
   (\<exists>cur. ref_current r = Some cur \<and> wasForgotten P cur \<and> getNode P (ref_path r) = Inr (Some c))"
  by (auto simp: acquire_def split: option.splits if_splits sum.splits)

lemma acquire_current:
  "ref_current (snd (acquire P r)) = None \<or>
   ref_current (snd (acquire P r)) = ref_current r \<or>
   (\<exists>c. ref_current (snd (acquire P r)) = Some c \<and> getNode P (ref_path r) = Inr (Some c))"
  by (auto simp: acquire_def split: option.splits if_splits sum.splits)

lemma ref_inv_edit: "ref_inv (P, r) \<Longrightarrow> ref_inv (replace_file f root P, r)"
proof -
  assume inv: "ref_inv (P, r)"
  then have fresh: "gens_fresh P" by (simp add: ref_inv_def)
  show ?thesis
    unfolding ref_inv_def
  proof (simp add: gens_fresh_replace [OF fresh], intro allI impI)
    fix c assume c: "ref_current r = Some c"
    with inv have lt: "h_gen c < next_gen P" and live: "wasForgotten P c \<or> valid_handle P c"
      by (auto simp: ref_inv_def)
    have "wasForgotten (replace_file f root P) c \<or> valid_handle (replace_file f root P) c"
    proof (cases "f = h_file c")
      case True
      with lt show ?thesis
        by (simp add: wasForgotten_def replace_file_def)
    next
      case False
      then have "node_of (replace_file f root P) c = node_of P c"
        by (rule replace_other_keeps)
      moreover from False have "wasForgotten (replace_file f root P) c = wasForgotten P c"
        by (simp add: wasForgotten_def replace_file_def)
      ultimately show ?thesis
        using live by (simp add: valid_handle_def)
    qed
    with lt show "h_gen c < next_gen (replace_file f root P) \<and>
        (wasForgotten (replace_file f root P) c \<or> valid_handle (replace_file f root P) c)"
      by (simp add: replace_file_def)
  qed
qed

lemma ref_inv_remove: "ref_inv (P, r) \<Longrightarrow> ref_inv (remove_file f P, r)"
proof -
  assume inv: "ref_inv (P, r)"
  then have fresh: "gens_fresh P" by (simp add: ref_inv_def)
  show ?thesis
    unfolding ref_inv_def
  proof (simp add: gens_fresh_remove [OF fresh], intro allI impI)
    fix c assume c: "ref_current r = Some c"
    with inv have lt: "h_gen c < next_gen P" and live: "wasForgotten P c \<or> valid_handle P c"
      by (auto simp: ref_inv_def)
    have "wasForgotten (remove_file f P) c \<or> valid_handle (remove_file f P) c"
    proof (cases "f = h_file c")
      case True
      then show ?thesis by (simp add: remove_forgets)
    next
      case False
      then have "node_of (remove_file f P) c = node_of P c"
        by (rule remove_other_keeps)
      moreover from False have "wasForgotten (remove_file f P) c = wasForgotten P c"
        by (simp add: wasForgotten_def remove_file_def)
      ultimately show ?thesis
        using live by (simp add: valid_handle_def)
    qed
    with lt show "h_gen c < next_gen (remove_file f P) \<and>
        (wasForgotten (remove_file f P) c \<or> valid_handle (remove_file f P) c)"
      by (simp add: remove_file_def)
  qed
qed

lemma ref_inv_access: "ref_inv (P, r) \<Longrightarrow> ref_inv (P, snd (acquire P r))"
proof -
  assume inv: "ref_inv (P, r)"
  then have fresh: "gens_fresh P" by (simp add: ref_inv_def)
  have "\<And>c. getNode P (ref_path r) = Inr (Some c) \<Longrightarrow> h_gen c < next_gen P \<and> valid_handle P c"
    using fresh gens_fresh_valid getNode_valid by blast
  with inv acquire_current [of P r] show ?thesis
    by (auto simp: ref_inv_def)
qed

lemma ref_inv_step: "ref_inv s \<Longrightarrow> ref_inv (sys_step s e)"
  by (cases s, cases e) (simp_all add: ref_inv_edit ref_inv_remove ref_inv_access)

lemma ref_reach_inv: "ref_reach s \<Longrightarrow> ref_inv s"
proof (induction rule: ref_reach.induct)
  case (start P h r)
  then have "valid_handle P h" and "ref_current r = Some h"
    by (simp_all add: referenceTo_Inr)
  with start.hyps(1) show ?case
    by (simp add: ref_inv_def gens_fresh_valid)
next
  case (step s e)
  from step.IH show ?case by (rule ref_inv_step)
qed

lemma acquire_Inr_current:
  "fst (acquire P r) = Inr c \<Longrightarrow> ref_current (snd (acquire P r)) = Some c"
  by (auto simp: acquire_def split: option.splits if_splits sum.splits)

lemma ident_same_decl:
  "nkind s' = nkind s \<Longrightarrow> nname s' = nname s \<Longrightarrow> nname s = Member v \<Longrightarrow>
   getNodeIdentifier h s' = getNodeIdentifier h s"
  by (simp add: getNodeIdentifier_def call_getName_def split: kind.split)

lemma referenceTo_statement:
  assumes doc: "files P f = Some sf"
    and ref: "referenceTo P \<lparr>h_file = f, h_gen = sf_gen sf, h_pos = [0, j]\<rparr> = Inr r"
    and wf: "wf_source_file (sf_root sf)" and j: "j < length (statements (sf_root sf))"
    and kind': "nkind s' = nkind (statements (sf_root sf) ! j)"
    and name: "nname (statements (sf_root sf) ! j) = Member (JStr nm)"
    and name': "nname s' = Member (JStr nm)"
  shows "ref_current r = Some \<lparr>h_file = f, h_gen = sf_gen sf, h_pos = [0, j]\<rparr> \<and>
         ref_path r = [JStr f, getNodeIdentifier \<lparr>h_file = f, h_gen = sf_gen sf, h_pos = [0, j]\<rparr> s']"
proof -
  let ?h = "\<lparr>h_file = f, h_gen = sf_gen sf, h_pos = [0::nat, j]\<rparr>"
  from referenceTo_Inr [OF ref] doc have cur: "ref_current r = Some ?h"
    and path0: "ref_path r = getPath (sf_root sf) ?h []"
    by auto
  with getPath_statement [OF wf refl j] ident_same_decl [OF kind' name' [folded name] name]
  show ?thesis by simp
qed

lemma acquire_after_replace:
  assumes cur: "ref_current r = Some c" and cf: "h_file c = f" and old: "h_gen c < next_gen P"
    and path: "ref_path r = [JStr f, getNodeIdentifier h (statements root' ! j')]"
    and wf': "wf_source_file root'" and j': "j' < length (statements root')"
    and decl': "IsTypeDeclaration (Some (statements root' ! j'))"
    and name': "nname (statements root' ! j') = Member (JStr nm)"
    and dot: "CHR ''.'' \<notin> set nm"
    and uniq': "unique_decl_names (statements root')"
  shows "acquire (replace_file f root' P) r =
           (Inr \<lparr>h_file = f, h_gen = next_gen P, h_pos = [0, j']\<rparr>,
            r\<lparr>ref_current := Some \<lparr>h_file = f, h_gen = next_gen P, h_pos = [0, j']\<rparr>\<rparr>)"
proof -
  let ?P' = "replace_file f root' P"
  have forgotten: "wasForgotten ?P' c"
    using cf old by (simp add: wasForgotten_def replace_file_def)
  have doc': "files ?P' f = Some \<lparr>sf_gen = next_gen P, sf_root = root'\<rparr>"
    by (simp add: replace_file_def)
  have "getNode ?P' (ref_path r) = Inr (Some \<lparr>h_file = f, h_gen = next_gen P, h_pos = [0, j']\<rparr>)"
    unfolding path
    using getNode_statement [OF doc', of j' nm h] wf' j' decl' name' dot uniq' by simp
  with cur forgotten show ?thesis
    by (simp add: acquire_def)
qed

lemma sys_run_append: "sys_run s (xs @ ys) = sys_run (sys_run s xs) ys"
  by (induction xs arbitrary: s) simp_all

lemma appType_file_facts:
  "wf_source_file appType_file" "statements appType_file = [appType_enum]"
  by (simp_all add: wf_source_file_def appType_defs statements_def)

lemma appType_moved_facts:
  "wf_source_file appType_moved_file"
  "statements appType_moved_file = [other_interface, appType_enum]"
  "unique_decl_names (statements appType_moved_file)"
  by (simp_all add: wf_source_file_def unique_decl_names_def statements_def appType_moved_file_def
                    other_interface_def appType_enum_def matches_def less_Suc_eq numeral_2_eq_2)

lemma appType_referenceTo:
  "referenceTo appType_project \<lparr>h_file = ''/output/enums/AppType.ts'', h_gen = 0, h_pos = [0, 0]\<rparr> = Inr appType_ref"
proof -
  note wf = appType_file_facts(1)
  have "getPath appType_file \<lparr>h_file = ''/output/enums/AppType.ts'', h_gen = 0, h_pos = [0, 0]\<rparr> [] =
        [JStr ''/output/enums/AppType.ts'', JStr (''$.getEnum('' @ json_quote ''AppType'' @ '')'')]"
    using getPath_top_level [OF wf, of _ 0] by (simp add: ident_in_def appType_defs ident_enum_decl)
  then show ?thesis
    by (simp add: referenceTo_def appType_ref_def appType_project_def replace_file_def appType_file_def)
qed

lemma appType_fresh: "gens_fresh appType_project"
  by (simp add: gens_fresh_def appType_project_def replace_file_def)

lemma appType_reach: "ref_reach (appType_project, appType_ref)"
  by (rule ref_reach.start [OF appType_fresh appType_referenceTo])

lemma getNode_no_statements:
  assumes doc: "files P f = Some sf" and wf: "wf_source_file (sf_root sf)"
    and none: "statements (sf_root sf) = []"
    and only: "\<forall>i<length (nchildren (sf_root sf)). 0 < i \<longrightarrow> nkind (nchildren (sf_root sf) ! i) \<noteq> SyntaxList"
    and pre: "prefix ''$.'' e" and pe: "parse_locator e = Some (GetEnum nm)"
  shows "getNode P [JStr f, JStr e] = Inr None"
proof -
  let ?root = "sf_root sf"
  have ne: "nchildren ?root \<noteq> []" and sl: "nkind (nchildren ?root ! 0) = SyntaxList"
    and src: "nkind ?root = SourceFile"
    using wf by (simp_all add: wf_source_file_def)
  have mp: "member_positions ?root EnumDeclaration = []"
  proof -
    have "[0..<length (nchildren ?root)] = 0 # [1..<length (nchildren ?root)]"
      using ne by (simp add: upt_conv_Cons)
    with none only show ?thesis
      by (auto simp: member_positions_def Let_def statements_def)
  qed
  have slnode: "node_of P \<lparr>h_file = f, h_gen = sf_gen sf, h_pos = [0]\<rparr> = Some (nchildren ?root ! 0)"
    using doc ne by (simp add: node_of_def)
  have rootnode: "node_of P \<lparr>h_file = f, h_gen = sf_gen sf, h_pos = []\<rparr> = Some ?root"
    using doc by (simp add: node_of_def)
  have "locate P \<lparr>h_file = f, h_gen = sf_gen sf, h_pos = [0]\<rparr> (JStr e) = Inr None"
    using slnode sl pre pe rootnode src mp none
    by (simp add: locate_def eval_locator_def parent_of_def find_named_def statements_def)
  then show ?thesis
    using getNode_file [OF doc ne] by (simp add: getNode_from_single)
qed

text \<open>
  C3. Every access through a retained reference reaches a live node: in any state
  reachable from \<open>referenceTo\<close> on a live node, through any interleaving of
  document replacements, removals and trap calls, a trap that returns a node returns
  one that is not forgotten and exists in the current document set, and caches it as
  \<open>current\<close>.
\<close>

theorem reference_reads_live_node:
  assumes reach: "ref_reach (P, r)" and ok: "fst (proxy_trap P r t) = Inr c"
  shows "valid_handle P c \<and> ref_current (snd (proxy_trap P r t)) = Some c"
proof -
  from reach have inv: "ref_inv (P, r)" by (rule ref_reach_inv)
  from ok have a: "fst (acquire P r) = Inr c" by simp
  have "valid_handle P c"
    using acquire_Inr [OF a]
  proof
    assume "ref_current r = Some c \<and> \<not> wasForgotten P c"
    with inv show ?thesis by (auto simp: ref_inv_def)
  next
    assume "\<exists>cur. ref_current r = Some cur \<and> wasForgotten P cur \<and> getNode P (ref_path r) = Inr (Some c)"
    then show ?thesis by (auto dest: getNode_valid)
  qed
  with acquire_Inr_current [OF a] show ?thesis by simp
qed

theorem reference_reads_live_node_witness:
  "ref_reach (replace_file ''/output/enums/AppType.ts'' appType_moved_file appType_project, appType_ref) \<and>
   fst (proxy_trap (replace_file ''/output/enums/AppType.ts'' appType_moved_file appType_project) appType_ref TrapGet)
     = Inr \<lparr>h_file = ''/output/enums/AppType.ts'', h_gen = 1, h_pos = [0, 1]\<rparr> \<and>
   valid_handle (replace_file ''/output/enums/AppType.ts'' appType_moved_file appType_project)
     \<lparr>h_file = ''/output/enums/AppType.ts'', h_gen = 1, h_pos = [0, 1]\<rparr>"
proof -
  let ?P = "replace_file ''/output/enums/AppType.ts'' appType_moved_file appType_project"
  have reach: "ref_reach (?P, appType_ref)"
    using ref_reach.step [OF appType_reach, of "EditDoc ''/output/enums/AppType.ts'' appType_moved_file"] by simp
  have doc: "files ?P ''/output/enums/AppType.ts'' = Some \<lparr>sf_gen = 1, sf_root = appType_moved_file\<rparr>"
    by (simp add: appType_project_def replace_file_def)
  note uniq = appType_moved_facts(3)
  have "getNode ?P [JStr ''/output/enums/AppType.ts'', getNodeIdentifier \<lparr>h_file = ''x'', h_gen = 0, h_pos = []\<rparr> appType_enum] =
        Inr (Some \<lparr>h_file = ''/output/enums/AppType.ts'', h_gen = 1, h_pos = [0, 1]\<rparr>)"
    using getNode_statement [OF doc, of 1 "''AppType''"] uniq
    by (simp add: wf_source_file_def statements_def appType_moved_file_def appType_enum_def)
  then have "getNode ?P (ref_path appType_ref) = Inr (Some \<lparr>h_file = ''/output/enums/AppType.ts'', h_gen = 1, h_pos = [0, 1]\<rparr>)"
    by (simp add: appType_ref_def ident_enum_decl appType_enum_def)
  then have got: "fst (proxy_trap ?P appType_ref TrapGet) = Inr \<lparr>h_file = ''/output/enums/AppType.ts'', h_gen = 1, h_pos = [0, 1]\<rparr>"
    by (simp add: acquire_def appType_ref_def wasForgotten_def doc)
  show ?thesis
    using reference_reads_live_node [OF reach got] reach got by simp
qed

text \<open>
  C4. Healing after a re-parse: a reference to a top-level type declaration, after its
  document is replaced by a new parse in which a declaration of the same kind and name
  is a statement (at any position) and no other statement carries that name, resolves
  on the next trap to that new declaration and caches it.
\<close>

theorem reference_heals_top_level:
  assumes doc: "files P f = Some sf" and fresh: "gens_fresh P"
    and ref: "referenceTo P \<lparr>h_file = f, h_gen = sf_gen sf, h_pos = [0, j]\<rparr> = Inr r"
    and wf: "wf_source_file (sf_root sf)" and j: "j < length (statements (sf_root sf))"
    and wf': "wf_source_file root'" and j': "j' < length (statements root')"
    and decl': "IsTypeDeclaration (Some (statements root' ! j'))"
    and kind': "nkind (statements root' ! j') = nkind (statements (sf_root sf) ! j)"
    and name: "nname (statements (sf_root sf) ! j) = Member (JStr nm)"
    and name': "nname (statements root' ! j') = Member (JStr nm)"
    and dot: "CHR ''.'' \<notin> set nm"
    and uniq': "unique_decl_names (statements root')"
  shows "proxy_trap (replace_file f root' P) r t =
           (Inr \<lparr>h_file = f, h_gen = next_gen P, h_pos = [0, j']\<rparr>,
            r\<lparr>ref_current := Some \<lparr>h_file = f, h_gen = next_gen P, h_pos = [0, j']\<rparr>\<rparr>)"
proof -
  let ?h = "\<lparr>h_file = f, h_gen = sf_gen sf, h_pos = [0::nat, j]\<rparr>"
  from referenceTo_statement [OF doc ref wf j kind' name name'] have cur: "ref_current r = Some ?h"
    and path: "ref_path r = [JStr f, getNodeIdentifier ?h (statements root' ! j')]"
    by auto
  have old: "h_gen ?h < next_gen P" using fresh doc by (auto simp: gens_fresh_def)
  show ?thesis
    unfolding proxy_trap_acquire
    by (rule acquire_after_replace [OF cur _ old path wf' j' decl' name' dot uniq']) simp
qed

theorem reference_heals_top_level_witness:
  "proxy_trap (replace_file ''/output/enums/AppType.ts'' appType_moved_file appType_project) appType_ref TrapGet =
     (Inr \<lparr>h_file = ''/output/enums/AppType.ts'', h_gen = 1, h_pos = [0, 1]\<rparr>,
      appType_ref\<lparr>ref_current := Some \<lparr>h_file = ''/output/enums/AppType.ts'', h_gen = 1, h_pos = [0, 1]\<rparr>\<rparr>)"
proof -
  have doc: "files appType_project ''/output/enums/AppType.ts'' = Some \<lparr>sf_gen = 0, sf_root = appType_file\<rparr>"
    by (simp add: appType_project_def replace_file_def)
  note uniq = appType_moved_facts(3)
  have "next_gen appType_project = 1"
    by (simp add: appType_project_def replace_file_def)
  then show ?thesis
    using reference_heals_top_level [OF doc appType_fresh, of 0 appType_ref appType_moved_file 1 "''AppType''" TrapGet]
      appType_referenceTo uniq
    by (simp add: appType_defs wf_source_file_def statements_def appType_moved_file_def)
qed

text \<open>
  C5. A lost reference is lost for good: once a re-resolution has returned
  \<open>undefined\<close> (the addressed node was gone at that moment), \<open>current\<close> is
  \<open>undefined\<close> and stays so through any later edits and accesses, and every trap
  throws the \<open>TypeError\<close> of \<open>current.wasForgotten()\<close>, even when the node
  is back in the document.
\<close>

theorem lost_reference_stays_lost:
  assumes "ref_current r = None"
  shows "ref_current (snd (sys_run (P, r) es)) = None \<and>
         proxy_trap (fst (sys_run (P, r) es)) (snd (sys_run (P, r) es)) t =
           (Inl (TypeError ''Cannot read properties of undefined (reading wasForgotten)''),
            snd (sys_run (P, r) es))"
  using assms
proof (induction es arbitrary: P r)
  case Nil
  then show ?case by (simp add: acquire_def)
next
  case (Cons e es)
  obtain P' r' where s: "sys_step (P, r) e = (P', r')" by (cases "sys_step (P, r) e")
  from Cons.prems have "ref_current r' = None"
    using s by (cases e) (auto simp: acquire_def)
  with Cons.IH [of r' P'] s show ?case by simp
qed

theorem lost_reference_stays_lost_witness:
  "snd (proxy_trap (replace_file ''/output/enums/AppType.ts'' appType_deleted_file appType_project) appType_ref TrapGet)
     = appType_ref\<lparr>ref_current := None\<rparr> \<and>
   ref_current (snd (sys_run (replace_file ''/output/enums/AppType.ts'' appType_deleted_file appType_project,
                               appType_ref\<lparr>ref_current := None\<rparr>)
                              [EditDoc ''/output/enums/AppType.ts'' appType_file])) = None \<and>
   fst (proxy_trap (replace_file ''/output/enums/AppType.ts'' appType_file
                      (replace_file ''/output/enums/AppType.ts'' appType_deleted_file appType_project))
                   (appType_ref\<lparr>ref_current := None\<rparr>) TrapGet)
     = Inl (TypeError ''Cannot read properties of undefined (reading wasForgotten)'') \<and>
   getNode (replace_file ''/output/enums/AppType.ts'' appType_file
              (replace_file ''/output/enums/AppType.ts'' appType_deleted_file appType_project))
           (ref_path appType_ref)
     = Inr (Some \<lparr>h_file = ''/output/enums/AppType.ts'', h_gen = 2, h_pos = [0, 0]\<rparr>)"
proof -
  let ?f = "''/output/enums/AppType.ts''"
  let ?P1 = "replace_file ?f appType_deleted_file appType_project"
  let ?P2 = "replace_file ?f appType_file ?P1"
  let ?E = "''$.getEnum('' @ json_quote ''AppType'' @ '')''"
  have doc1: "files ?P1 ?f = Some \<lparr>sf_gen = 1, sf_root = appType_deleted_file\<rparr>"
    by (simp add: appType_project_def replace_file_def)
  have doc2: "files ?P2 ?f = Some \<lparr>sf_gen = 2, sf_root = appType_file\<rparr>"
    by (simp add: appType_project_def replace_file_def)
  have absent: "getNode ?P1 [JStr ?f, JStr ?E] = Inr None"
    by (rule getNode_no_statements [OF doc1 _ _ _ _ parse_getEnum])
       (simp_all add: wf_source_file_def statements_def appType_deleted_file_def tok_def)
  have lost: "snd (proxy_trap ?P1 appType_ref TrapGet) = appType_ref\<lparr>ref_current := None\<rparr>"
    using absent doc1 by (simp add: acquire_def appType_ref_def wasForgotten_def)
  have present: "getNode ?P2 (ref_path appType_ref) = Inr (Some \<lparr>h_file = ?f, h_gen = 2, h_pos = [0, 0]\<rparr>)"
  proof -
    have "getNode ?P2 [JStr ?f, getNodeIdentifier \<lparr>h_file = ''x'', h_gen = 0, h_pos = []\<rparr> appType_enum] =
          Inr (Some \<lparr>h_file = ?f, h_gen = 2, h_pos = [0, 0]\<rparr>)"
      using getNode_statement [OF doc2, of 0 "''AppType''"]
      by (simp add: wf_source_file_def statements_def appType_defs unique_decl_names_def)
    then show ?thesis
      by (simp add: appType_ref_def ident_enum_decl appType_enum_def)
  qed
  show ?thesis
    using lost_reference_stays_lost [of "appType_ref\<lparr>ref_current := None\<rparr>" ?P1
            "[EditDoc ?f appType_file]" TrapGet] lost present
    by simp
qed

end
