(* ===== verification/Declarations.thy ===== *)
theory Declarations
  imports Reference
begin

text \<open>
  \<open>Declaration<T>\<close> of model/typescript/reference (outside the sources, modelled from
  the spec, section 4.4): a declaration binds a node to the constructor of its semantic
  view. Its identity is the node's address, the path \<open>getPath\<close> computes. Its
  \<open>value\<close> applies the view constructor to the current live node, which the
  declaration reaches through the self-healing reference of \<open>referenceTo\<close>, so every
  access re-derives the view from the node the document holds at that moment.
\<close>

section \<open>Declarations, their identity and their value\<close>

definition declaration_address :: "node \<Rightarrow> handle \<Rightarrow> jsval list" where
  "declaration_address root h = getPath root h []"

record 'v ts_declaration =
  decl_reference :: ref_state
  decl_view :: "node \<Rightarrow> 'v"

text \<open>\<open>wrap(node, viewCtor)\<close>: the reference to the node and the view constructor.\<close>

definition wrap :: "project \<Rightarrow> handle \<Rightarrow> (node \<Rightarrow> 'v) \<Rightarrow> 'v ts_declaration js_result" where
  "wrap P node viewCtor =
     js_bind (referenceTo P node) (\<lambda>r. Inr \<lparr>decl_reference = r, decl_view = viewCtor\<rparr>)"

text \<open>
  \<open>.value\<close>: acquire the live node through the reference (re-resolving it when it was
  forgotten), then construct the view on it. ts-morph refuses to read a node that is
  not in the current tree, which the reference never hands out (C3).
\<close>

definition declaration_value :: "project \<Rightarrow> 'v ts_declaration \<Rightarrow> 'v js_result \<times> 'v ts_declaration" where
  "declaration_value P d =
     (case acquire P (decl_reference d) of
        (Inl e, r) \<Rightarrow> (Inl e, d\<lparr>decl_reference := r\<rparr>)
      | (Inr h, r) \<Rightarrow>
          (case node_of P h of
             None \<Rightarrow> (Inl (Error ''node was forgotten''), d\<lparr>decl_reference := r\<rparr>)
           | Some n \<Rightarrow> (Inr (decl_view d n), d\<lparr>decl_reference := r\<rparr>)))"

section \<open>Lemmas\<close>

lemma wrap_Inr:
  "wrap P h viewCtor = Inr d \<longleftrightarrow>
   (\<exists>r. referenceTo P h = Inr r \<and> d = \<lparr>decl_reference = r, decl_view = viewCtor\<rparr>)"
  by (auto simp: wrap_def js_bind_def split: sum.splits)

lemma declaration_value_acquired:
  "acquire P (decl_reference d) = (Inr h, r) \<Longrightarrow> node_of P h = Some n \<Longrightarrow>
   declaration_value P d = (Inr (decl_view d n), d\<lparr>decl_reference := r\<rparr>)"
  by (simp add: declaration_value_def)

lemma node_of_statement:
  assumes "files P f = Some sf" and "wf_source_file (sf_root sf)" and "j < length (statements (sf_root sf))"
  shows "node_of P \<lparr>h_file = f, h_gen = sf_gen sf, h_pos = [0, j]\<rparr> = Some (statements (sf_root sf) ! j)"
  using assms(1) node_at_statement [OF assms(2,3)] by (simp add: node_of_def)

end
