(* ===== verification/TypeExpansion.thy ===== *)
theory TypeExpansion
  imports Prelude
begin

text \<open>
  Type-reference resolution of src/adl/core/support/typescript.ts: \<open>expandUnion\<close>
  (lines 180--182), \<open>getDefinition\<close> (lines 184--197) and \<open>expandLiterals\<close>
  (lines 199--228). A type node is a literal type, a reference to a name, a union or
  another kind; the checker's symbol table maps a referenced name to its declarations
  (\<open>None\<close> when the name has no symbol). \<open>expandLiterals\<close> follows type
  aliases, which may be cyclic, so it is defined with fuel: one unit per nested call,
  \<open>None\<close> when the recursion is deeper than the fuel.
\<close>

section \<open>Type nodes and declarations\<close>

datatype literal = NumericLiteral int | StringLiteral string | OtherLiteral string

datatype typenode =
    LiteralTypeNode literal
  | TypeReferenceNode string
  | UnionTypeNode "typenode list"
  | OtherTypeNode string

datatype decl =
    AliasDecl string typenode
  | TypeParamDecl string
  | OtherDecl string

type_synonym symbols = "string \<rightharpoonup> decl list"

text \<open>What \<open>expandLiterals\<close> returns: a literal value or a type parameter.\<close>

datatype litval = LNum int | LStr string | LTypeParam string

fun literal_kind :: "literal \<Rightarrow> string" where
  "literal_kind (NumericLiteral _) = ''NumericLiteral''"
| "literal_kind (StringLiteral _) = ''StringLiteral''"
| "literal_kind (OtherLiteral k) = k"

fun decl_kind :: "decl \<Rightarrow> string" where
  "decl_kind (AliasDecl _ _) = ''TypeAliasDeclaration''"
| "decl_kind (TypeParamDecl _) = ''TypeParameter''"
| "decl_kind (OtherDecl k) = k"

fun node_kind :: "typenode \<Rightarrow> string" where
  "node_kind (LiteralTypeNode _) = ''LiteralType''"
| "node_kind (TypeReferenceNode _) = ''TypeReference''"
| "node_kind (UnionTypeNode _) = ''UnionType''"
| "node_kind (OtherTypeNode k) = k"

section \<open>The operations\<close>

text \<open>
  \<open>expandUnion(node)\<close> on the members of a union: nested unions are expanded in
  place, \<open>.flat()\<close> splices their results.
\<close>

fun expandUnion :: "typenode list \<Rightarrow> typenode list" where
  "expandUnion [] = []"
| "expandUnion (UnionTypeNode us # ts) = expandUnion us @ expandUnion ts"
| "expandUnion (t # ts) = t # expandUnion ts"

text \<open>
  \<open>getDefinition\<close>: no symbol is "Cannot resolve"; a declaration array of any length
  other than one, the empty one included (an empty array is truthy), is "Ambiguous".
\<close>

definition getDefinition :: "symbols \<Rightarrow> string \<Rightarrow> decl js_result" where
  "getDefinition syms typeName =
     (case syms typeName of
        None \<Rightarrow> Inl (Error (''Cannot resolve type reference '' @ [CHR 0x27] @ typeName @ [CHR 0x27] @ ''.''))
      | Some decls \<Rightarrow>
          if length decls \<noteq> 1
          then Inl (Error (''Ambiguous type reference '' @ [CHR 0x27] @ typeName @ [CHR 0x27] @ ''.''))
          else Inr (decls ! 0))"

text \<open>
  The results of \<open>.map(each => expandLiterals(each)).flat()\<close>, evaluated left to
  right: the first exception (or the first call that does not return) is the result.
\<close>

fun collect :: "litval list js_result option list \<Rightarrow> litval list js_result option" where
  "collect [] = Some (Inr [])"
| "collect (r # rs) =
     (case r of
        None \<Rightarrow> None
      | Some (Inl e) \<Rightarrow> Some (Inl e)
      | Some (Inr xs) \<Rightarrow>
          (case collect rs of
             None \<Rightarrow> None
           | Some (Inl e) \<Rightarrow> Some (Inl e)
           | Some (Inr ys) \<Rightarrow> Some (Inr (xs @ ys))))"

definition fail_msg :: "string \<Rightarrow> string \<Rightarrow> js_error" where
  "fail_msg what k = AssertionError (what @ '' '' @ [CHR 0x27] @ k @ [CHR 0x27] @ '' '')"

fun expandLiterals :: "nat \<Rightarrow> symbols \<Rightarrow> bool \<Rightarrow> typenode \<Rightarrow> litval list js_result option" where
  "expandLiterals 0 syms allowNumbers node = None"
| "expandLiterals (Suc n) syms allowNumbers node =
     (case node of
        LiteralTypeNode literal \<Rightarrow>
          (case literal of
             NumericLiteral v \<Rightarrow>
               if allowNumbers then Some (Inr [LNum v])
               else Some (Inl (fail_msg ''unexpected literal type'' (literal_kind literal)))
           | StringLiteral s \<Rightarrow> Some (Inr [LStr s])
           | OtherLiteral _ \<Rightarrow> Some (Inl (fail_msg ''unexpected literal type'' (literal_kind literal))))
      | TypeReferenceNode typeName \<Rightarrow>
          (case getDefinition syms typeName of
             Inl e \<Rightarrow> Some (Inl e)
           | Inr defn \<Rightarrow>
               (case defn of
                  AliasDecl _ typeNode \<Rightarrow> expandLiterals n syms allowNumbers typeNode
                | TypeParamDecl p \<Rightarrow> Some (Inr [LTypeParam p])
                | OtherDecl _ \<Rightarrow>
                    Some (Inl (fail_msg ''unsupported type reference node'' (decl_kind defn)))))
      | UnionTypeNode members \<Rightarrow>
          collect (map (expandLiterals n syms allowNumbers) (expandUnion members))
      | OtherTypeNode _ \<Rightarrow> Some (Inl (fail_msg ''unsupported type for expandLiterals'' (node_kind node))))"

text \<open>The exported entry point: \<open>allowNumbers = allowNumbers ?? true\<close>.\<close>

definition expandLiterals_call ::
  "nat \<Rightarrow> symbols \<Rightarrow> typenode \<Rightarrow> bool option \<Rightarrow> litval list js_result option" where
  "expandLiterals_call fuel syms node allowNumbers =
     expandLiterals fuel syms (case allowNumbers of None \<Rightarrow> True | Some b \<Rightarrow> b) node"

section \<open>Measures for the termination argument\<close>

text \<open>
  \<open>height\<close> is the nesting depth of unions, \<open>refs\<close> the names a node refers to,
  \<open>alias_body\<close> the body of the unique alias a name resolves to. A symbol table is
  \<open>aliases_ranked\<close> by \<open>rk\<close> when every alias body is at most \<open>H\<close> unions deep
  and refers only to names of lower rank: then alias chains are acyclic.
\<close>

fun height :: "typenode \<Rightarrow> nat" where
  "height (UnionTypeNode ts) = Suc (foldr max (map height ts) 0)"
| "height _ = 0"

fun refs :: "typenode \<Rightarrow> string set" where
  "refs (TypeReferenceNode m) = {m}"
| "refs (UnionTypeNode ts) = \<Union> (set (map refs ts))"
| "refs _ = {}"

definition alias_body :: "symbols \<Rightarrow> string \<Rightarrow> typenode option" where
  "alias_body syms m = (case syms m of Some [AliasDecl _ b] \<Rightarrow> Some b | _ \<Rightarrow> None)"

definition aliases_ranked :: "symbols \<Rightarrow> (string \<Rightarrow> nat) \<Rightarrow> nat \<Rightarrow> bool" where
  "aliases_ranked syms rk H \<longleftrightarrow>
     (\<forall>m b. alias_body syms m = Some b \<longrightarrow> height b \<le> H \<and> (\<forall>r \<in> refs b. rk r < rk m))"

text \<open>The value a literal member of a union contributes, and which members are accepted.\<close>

fun lit_value :: "typenode \<Rightarrow> litval" where
  "lit_value (LiteralTypeNode (NumericLiteral v)) = LNum v"
| "lit_value (LiteralTypeNode (StringLiteral s)) = LStr s"
| "lit_value _ = LStr []"

fun accepted_literal :: "bool \<Rightarrow> typenode \<Rightarrow> bool" where
  "accepted_literal allow (LiteralTypeNode (NumericLiteral _)) = allow"
| "accepted_literal allow (LiteralTypeNode (StringLiteral _)) = True"
| "accepted_literal allow _ = False"

text \<open>
  The literal leaves of a type, the members of nested unions read left to right: the
  reference against which the flattening of \<open>expandUnion\<close> is checked.
\<close>

fun union_leaves :: "typenode \<Rightarrow> typenode list" where
  "union_leaves (UnionTypeNode ts) = concat (map union_leaves ts)"
| "union_leaves t = [t]"

text \<open>
  The alias \<open>f_p_ieay\<close> of the generated scenario output
  \<open>test/scenarios/air-epa-gov/output/aliases/f_p_ieay.ts\<close> carries the union
  \<open>1 | 2 | 3 | 4 | 5\<close> and the string literal \<open>"p_ieay"\<close>; the symbol table
  below declares each as an alias.
\<close>

definition f_p_ieay_years :: typenode where
  "f_p_ieay_years = UnionTypeNode (map (\<lambda>k. LiteralTypeNode (NumericLiteral k)) [1, 2, 3, 4, 5])"

definition f_p_ieay_syms :: symbols where
  "f_p_ieay_syms = [''f_p_ieay_years'' \<mapsto> [AliasDecl ''f_p_ieay_years'' f_p_ieay_years],
                    ''f_p_ieay_name'' \<mapsto> [AliasDecl ''f_p_ieay_name'' (LiteralTypeNode (StringLiteral ''p_ieay''))]]"

text \<open>
  The alias \<open>f_p_wbd\<close> of \<open>test/scenarios/air-epa-gov/output/aliases/f_p_wbd.ts\<close>
  (\<open>FormData<string, "p_wbd">\<close>) carries the keyword type \<open>string\<close>, which is no
  literal, and the string literal \<open>"p_wbd"\<close>.
\<close>

definition f_p_wbd_syms :: symbols where
  "f_p_wbd_syms = [''f_p_wbd_value'' \<mapsto> [AliasDecl ''f_p_wbd_value'' (OtherTypeNode ''StringKeyword'')],
                   ''f_p_wbd_name'' \<mapsto> [AliasDecl ''f_p_wbd_name'' (LiteralTypeNode (StringLiteral ''p_wbd''))]]"

section \<open>Lemmas\<close>

lemma foldr_max_ge: "x \<in> set xs \<Longrightarrow> x \<le> foldr max xs (0::nat)"
  by (induction xs) auto

lemma expandUnion_members:
  "t \<in> set (expandUnion ts) \<Longrightarrow> height t < height (UnionTypeNode ts) \<and> refs t \<subseteq> refs (UnionTypeNode ts)"
  by (induction ts rule: expandUnion.induct) (auto simp: le_imp_less_Suc)

lemma expandUnion_leaves: "expandUnion ts = union_leaves (UnionTypeNode ts)"
  by (induction ts rule: expandUnion.induct) simp_all

lemma collect_Some:
  "\<forall>r \<in> set rs. r \<noteq> None \<Longrightarrow> collect rs \<noteq> None"
  by (induction rs) (auto split: option.splits sum.splits)

lemma collect_Inr:
  "collect rs = Some (Inr xs) \<Longrightarrow> x \<in> set xs \<Longrightarrow> \<exists>ys. Some (Inr ys) \<in> set rs \<and> x \<in> set ys"
  by (induction rs arbitrary: xs) (force split: option.splits sum.splits)+

lemma getDefinition_Inr:
  "getDefinition syms m = Inr d \<Longrightarrow> syms m = Some [d]"
  by (auto simp: getDefinition_def length_Suc_conv split: option.splits if_splits)

lemma getDefinition_Inr_iff:
  "getDefinition syms m = Inr d \<longleftrightarrow> syms m = Some [d]"
  by (auto simp: getDefinition_def length_Suc_conv split: option.splits if_splits)

lemma alias_body_getDefinition:
  "getDefinition syms m = Inr (AliasDecl x b) \<Longrightarrow> alias_body syms m = Some b"
  by (simp add: alias_body_def getDefinition_Inr)

lemma expandLiterals_fuel_enough:
  "aliases_ranked syms rk H \<Longrightarrow> height node \<le> h \<Longrightarrow> h \<le> H \<Longrightarrow> (\<forall>r \<in> refs node. rk r < R) \<Longrightarrow>
   h + 1 + R * (H + 1) \<le> fuel \<Longrightarrow> expandLiterals fuel syms a node \<noteq> None"
proof (induction fuel arbitrary: node h R)
  case 0
  then show ?case by simp
next
  case (Suc n)
  show ?case
  proof (cases node)
    case (LiteralTypeNode l)
    then show ?thesis by (cases l) simp_all
  next
    case (TypeReferenceNode m)
    show ?thesis
    proof (cases "getDefinition syms m")
      case (Inl e)
      with TypeReferenceNode show ?thesis by simp
    next
      case (Inr d)
      show ?thesis
      proof (cases d)
        case (AliasDecl x b)
        with Inr have body: "alias_body syms m = Some b" by (simp add: alias_body_getDefinition)
        with Suc.prems(1) have hb: "height b \<le> H" and rb: "\<forall>r \<in> refs b. rk r < rk m"
          by (auto simp: aliases_ranked_def)
        from Suc.prems(4) TypeReferenceNode have "rk m + 1 \<le> R" by simp
        then have "(rk m + 1) * (H + 1) \<le> R * (H + 1)" by (rule mult_le_mono1)
        with Suc.prems(5) have "H + 1 + rk m * (H + 1) \<le> n" by simp
        with Suc.IH [OF Suc.prems(1) hb order.refl rb] have "expandLiterals n syms a b \<noteq> None" .
        with TypeReferenceNode Inr AliasDecl show ?thesis by simp
      next
        case (TypeParamDecl p)
        with TypeReferenceNode Inr show ?thesis by simp
      next
        case (OtherDecl k)
        with TypeReferenceNode Inr show ?thesis by simp
      qed
    qed
  next
    case (UnionTypeNode ts)
    have "\<forall>t \<in> set (expandUnion ts). expandLiterals n syms a t \<noteq> None"
    proof
      fix t assume t: "t \<in> set (expandUnion ts)"
      from expandUnion_members [OF t] UnionTypeNode Suc.prems(2)
      have ht: "height t \<le> h - 1" and rt: "refs t \<subseteq> refs node" by auto
      from Suc.prems(2) UnionTypeNode have "1 \<le> h" by simp
      with Suc.prems(5) have "h - 1 + 1 + R * (H + 1) \<le> n" by simp
      moreover from Suc.prems(3) have "h - 1 \<le> H" by simp
      moreover from Suc.prems(4) rt have "\<forall>r \<in> refs t. rk r < R" by blast
      ultimately show "expandLiterals n syms a t \<noteq> None"
        using Suc.IH [OF Suc.prems(1) ht] by blast
    qed
    with UnionTypeNode show ?thesis
      by (simp add: collect_Some)
  next
    case (OtherTypeNode k)
    then show ?thesis by simp
  qed
qed

lemma expandLiterals_accepted:
  "accepted_literal allow t \<Longrightarrow> expandLiterals (Suc n) syms allow t = Some (Inr [lit_value t])"
  by (cases "(allow, t)" rule: accepted_literal.cases) simp_all

lemma collect_accepted:
  "\<forall>t \<in> set xs. accepted_literal allow t \<Longrightarrow>
   collect (map (expandLiterals (Suc n) syms allow) xs) = Some (Inr (map lit_value xs))"
  by (induction xs) (simp_all del: expandLiterals.simps add: expandLiterals_accepted)

lemma collect_more_fuel:
  "collect rs = Some r \<Longrightarrow> list_all2 (\<lambda>x y. x \<noteq> None \<longrightarrow> y = x) rs rs' \<Longrightarrow> collect rs' = Some r"
proof (induction rs arbitrary: rs' r)
  case Nil
  then show ?case by simp
next
  case (Cons x xs)
  then obtain y ys where rs': "rs' = y # ys" and xy: "x \<noteq> None \<longrightarrow> y = x"
      and rest: "list_all2 (\<lambda>x y. x \<noteq> None \<longrightarrow> y = x) xs ys"
    by (cases rs') auto
  show ?case
    using Cons.prems(1) Cons.IH [OF _ rest] xy rs'
    by (auto split: option.splits sum.splits)
qed

lemma expandLiterals_mono:
  "expandLiterals n syms a node = Some r \<Longrightarrow> expandLiterals (Suc n) syms a node = Some r"
proof (induction n arbitrary: node r)
  case 0
  then show ?case by simp
next
  case (Suc n)
  have step: "x \<noteq> None \<longrightarrow> expandLiterals (Suc n) syms a t = x"
    if "x = expandLiterals n syms a t" for x t
    using Suc.IH [of t] that by (metis option.exhaust)
  show ?case
  proof (cases node)
    case (UnionTypeNode ts)
    have "list_all2 (\<lambda>x y. x \<noteq> None \<longrightarrow> y = x)
            (map (expandLiterals n syms a) (expandUnion ts))
            (map (expandLiterals (Suc n) syms a) (expandUnion ts))"
      unfolding list_all2_map1 list_all2_map2 by (rule list_all2_refl, rule step [OF refl])
    moreover have "collect (map (expandLiterals n syms a) (expandUnion ts)) = Some r"
      using Suc.prems UnionTypeNode by simp
    ultimately have "collect (map (expandLiterals (Suc n) syms a) (expandUnion ts)) = Some r"
      by (rule collect_more_fuel [rotated])
    with UnionTypeNode show ?thesis by simp
  next
    case (TypeReferenceNode m)
    show ?thesis
    proof (cases "getDefinition syms m")
      case (Inr d)
      show ?thesis
      proof (cases d)
        case (AliasDecl x b)
        from Suc.prems TypeReferenceNode Inr AliasDecl have "expandLiterals n syms a b = Some r"
          by simp
        then have "expandLiterals (Suc n) syms a b = Some r" by (rule Suc.IH)
        moreover have "expandLiterals (Suc (Suc n)) syms a node = expandLiterals (Suc n) syms a b"
          using TypeReferenceNode Inr AliasDecl
          by (simp only: expandLiterals.simps(2) typenode.case sum.case decl.case)
        ultimately show ?thesis by simp
      qed (use Suc.prems TypeReferenceNode Inr in simp_all)
    qed (use Suc.prems TypeReferenceNode in simp)
  qed (use Suc.prems in simp_all)
qed

section \<open>Properties\<close>

text \<open>
  C6. With \<open>allowNumbers = false\<close>, a successful expansion never yields a number:
  every numeric literal reached through aliases and unions throws instead.
\<close>

theorem expandLiterals_no_numbers:
  "expandLiterals fuel syms False node = Some (Inr xs) \<Longrightarrow> \<forall>v \<in> set xs. \<forall>k. v \<noteq> LNum k"
proof (induction fuel arbitrary: node xs)
  case 0
  then show ?case by simp
next
  case (Suc n)
  show ?case
  proof (cases node)
    case (LiteralTypeNode l)
    with Suc.prems show ?thesis by (cases l) auto
  next
    case (TypeReferenceNode m)
    with Suc.prems Suc.IH show ?thesis
      by (auto split: sum.splits decl.splits)
  next
    case (UnionTypeNode ts)
    show ?thesis
    proof (intro ballI allI)
      fix v k assume v: "v \<in> set xs"
      from Suc.prems UnionTypeNode
      have "collect (map (expandLiterals n syms False) (expandUnion ts)) = Some (Inr xs)" by simp
      from collect_Inr [OF this v] obtain ys t where "expandLiterals n syms False t = Some (Inr ys)" "v \<in> set ys"
        by (auto dest: sym)
      with Suc.IH show "v \<noteq> LNum k" by blast
    qed
  next
    case (OtherTypeNode k)
    with Suc.prems show ?thesis by simp
  qed
qed

text \<open>
  C7. \<open>expandLiterals\<close> returns (a value or an exception) on every node whose
  alias chains are ranked, given fuel \<open>(R + 1) * (H + 1)\<close>: one unit per union
  level, \<open>H + 1\<close> per alias followed.
\<close>

theorem expandLiterals_terminates:
  assumes "aliases_ranked syms rk H" and "height node \<le> H" and "\<forall>r \<in> refs node. rk r < R"
    and "(R + 1) * (H + 1) \<le> fuel"
  shows "\<exists>res. expandLiterals fuel syms a node = Some res"
  using expandLiterals_fuel_enough [OF assms(1,2) order.refl assms(3), of fuel a] assms(4) by auto

text \<open>
  C8. On a cycle of aliases each naming the next (\<open>type A = B; type B = A\<close>) the
  recursion never ends: no amount of fuel gives a result, where the code overflows the stack.
\<close>

theorem expandLiterals_alias_cycle:
  assumes cyc: "\<forall>m \<in> S. \<exists>x m'. m' \<in> S \<and> syms m = Some [AliasDecl x (TypeReferenceNode m')]"
    and nm: "nm \<in> S"
  shows "expandLiterals fuel syms a (TypeReferenceNode nm) = None"
  using nm
proof (induction fuel arbitrary: nm)
  case 0
  then show ?case by simp
next
  case (Suc n)
  from cyc Suc.prems obtain x m' where "m' \<in> S" and "syms nm = Some [AliasDecl x (TypeReferenceNode m')]"
    by blast
  with Suc.IH show ?case by (simp add: getDefinition_def)
qed

text \<open>
  C9. A union, however deeply its members nest further unions, whose leaves are all
  accepted literals expands to the values of all its leaves, left to right: nested
  unions are flattened in place.
\<close>

theorem expandLiterals_union_literals:
  assumes "\<forall>t \<in> set (union_leaves (UnionTypeNode ts)). accepted_literal allow t"
  shows "expandLiterals (Suc (Suc n)) syms allow (UnionTypeNode ts) =
           Some (Inr (map lit_value (union_leaves (UnionTypeNode ts))))"
  using collect_accepted [of "expandUnion ts"] assms unfolding expandUnion_leaves [symmetric] by simp

text \<open>
  C10. \<open>getDefinition\<close> returns the declaration exactly when the name has a single
  one; an unknown name throws "Cannot resolve", and a symbol with no declarations
  throws "Ambiguous".
\<close>

theorem getDefinition_results:
  "(getDefinition syms m = Inr d \<longleftrightarrow> syms m = Some [d]) \<and>
   (syms m = None \<longrightarrow> getDefinition syms m =
      Inl (Error (''Cannot resolve type reference '' @ [CHR 0x27] @ m @ [CHR 0x27] @ ''.''))) \<and>
   (syms m = Some [] \<longrightarrow> getDefinition syms m =
      Inl (Error (''Ambiguous type reference '' @ [CHR 0x27] @ m @ [CHR 0x27] @ ''.'')))"
  by (simp add: getDefinition_Inr_iff) (simp add: getDefinition_def)

section \<open>Witnesses\<close>

theorem expandLiterals_no_numbers_witness:
  "expandLiterals 2 f_p_ieay_syms False (TypeReferenceNode ''f_p_ieay_name'') = Some (Inr [LStr ''p_ieay'']) \<and>
   LStr ''p_ieay'' \<notin> range LNum"
proof -
  have r: "expandLiterals 2 f_p_ieay_syms False (TypeReferenceNode ''f_p_ieay_name'') = Some (Inr [LStr ''p_ieay''])"
    by (simp add: f_p_ieay_syms_def getDefinition_def numeral_2_eq_2)
  show ?thesis using expandLiterals_no_numbers [OF r] r by (auto simp: image_iff)
qed

theorem expandLiterals_terminates_witness:
  "(\<exists>res. expandLiterals 4 f_p_ieay_syms True (TypeReferenceNode ''f_p_ieay_years'') = Some res) \<and>
   (\<exists>res. expandLiterals 4 f_p_wbd_syms True (TypeReferenceNode ''f_p_wbd_value'') = Some res) \<and>
   expandLiterals 4 f_p_wbd_syms True (TypeReferenceNode ''f_p_wbd_value'') =
     Some (Inl (fail_msg ''unsupported type for expandLiterals'' ''StringKeyword''))"
proof -
  have ranked: "aliases_ranked f_p_ieay_syms (\<lambda>m. 0) 1"
    by (auto simp: aliases_ranked_def alias_body_def f_p_ieay_syms_def f_p_ieay_years_def split: if_splits)
  have ranked': "aliases_ranked f_p_wbd_syms (\<lambda>m. 0) 1"
    by (auto simp: aliases_ranked_def alias_body_def f_p_wbd_syms_def split: if_splits)
  have "\<exists>res. expandLiterals 4 f_p_ieay_syms True (TypeReferenceNode ''f_p_ieay_years'') = Some res"
    by (rule expandLiterals_terminates [OF ranked, of _ 1]) simp_all
  moreover have "\<exists>res. expandLiterals 4 f_p_wbd_syms True (TypeReferenceNode ''f_p_wbd_value'') = Some res"
    by (rule expandLiterals_terminates [OF ranked', of _ 1]) simp_all
  moreover have "expandLiterals 4 f_p_wbd_syms True (TypeReferenceNode ''f_p_wbd_value'') =
                   Some (Inl (fail_msg ''unsupported type for expandLiterals'' ''StringKeyword''))"
    by (simp add: f_p_wbd_syms_def getDefinition_def numeral_eq_Suc)
  ultimately show ?thesis by blast
qed

theorem expandLiterals_alias_cycle_witness:
  "expandLiterals 1000 [''Loop'' \<mapsto> [AliasDecl ''Loop'' (TypeReferenceNode ''Loop'')]] True (TypeReferenceNode ''Loop'') = None"
  by (rule expandLiterals_alias_cycle [of "{''Loop''}"]) simp_all

theorem expandLiterals_union_literals_witness:
  "expandLiterals 2 f_p_ieay_syms True
     (UnionTypeNode [LiteralTypeNode (NumericLiteral 1),
                     UnionTypeNode [LiteralTypeNode (NumericLiteral 2), LiteralTypeNode (StringLiteral ''p_ieay'')]])
   = Some (Inr [LNum 1, LNum 2, LStr ''p_ieay''])"
  using expandLiterals_union_literals
          [of "[LiteralTypeNode (NumericLiteral 1),
                UnionTypeNode [LiteralTypeNode (NumericLiteral 2), LiteralTypeNode (StringLiteral ''p_ieay'')]]"
              True 0 f_p_ieay_syms]
  by (simp add: numeral_2_eq_2)

theorem getDefinition_results_witness:
  "getDefinition [''Empty'' \<mapsto> []] ''Empty'' =
     Inl (Error (''Ambiguous type reference '' @ [CHR 0x27] @ ''Empty'' @ [CHR 0x27] @ ''.''))"
  using getDefinition_results [of "[''Empty'' \<mapsto> []]" "''Empty''"] by simp

end
