(* ===== verification/Imports.thy ===== *)
theory Imports
  imports Prelude
begin

text \<open>
  Import management of src/adl/core/support/typescript.ts: \<open>createImportFor\<close>
  (lines 120--126), \<open>addImportsTo\<close> (lines 128--144), \<open>createImportsFor\<close>
  (lines 146--164) and \<open>addNullable\<close> (lines 166--173). A type reference of the
  model carries the file that declares it (if any), its syntax, and the references it
  requires. An import structure is either one built by \<open>createImportFor\<close>
  (\<open>{kind, namedImports: [name], moduleSpecifier}\<close>) or the structure ts-morph's
  \<open>getStructure()\<close> returns for a declaration already in a file (named imports as
  specifier objects, plus the optional fields), and \<open>JSON.stringify\<close> is injective on
  these shapes, so the set of serialised structures is modelled as a set of structures.
  ts-morph's \<open>getRelativePathAsModuleSpecifierTo\<close> is a parameter \<open>ms\<close> of the
  model (\<open>ms from to\<close>).
\<close>

section \<open>Type references and import structures\<close>

text \<open>The syntax of a declaration: a type reference with its printed name, a union, a keyword.\<close>

datatype type_syntax =
    TypeRefSyntax string
  | UnionSyntax "type_syntax list"
  | KeywordSyntax string
  | OtherSyntax string

datatype typeref =
  TypeReference (tr_sourceFile: "string option") (tr_declaration: type_syntax)
                (tr_requiredReferences: "typeref list")

datatype import_structure =
    CreatedImport "string list" string
  | DeclStructure "string list" string

type_synonym modspec = "string \<Rightarrow> string \<Rightarrow> string"

text \<open>A source file as far as imports go: its path and its import declarations.\<close>

record ts_file =
  tf_path :: string
  tf_imports :: "(string list \<times> string) list"

section \<open>The operations\<close>

definition createImportFor :: "modspec \<Rightarrow> string \<Rightarrow> string \<Rightarrow> string \<Rightarrow> import_structure" where
  "createImportFor ms name sourceFile relativeToSourceFile =
     CreatedImport [name] (ms relativeToSourceFile sourceFile)"

text \<open>\<open>d.getStructure()\<close> of an import declaration already in the file.\<close>

definition getStructure :: "string list \<times> string \<Rightarrow> import_structure" where
  "getStructure d = DeclStructure (fst d) (snd d)"

text \<open>\<open>addImportDeclarations\<close>: the declaration a structure becomes in the file.\<close>

fun structure_decl :: "import_structure \<Rightarrow> string list \<times> string" where
  "structure_decl (CreatedImport ns m) = (ns, m)"
| "structure_decl (DeclStructure ns m) = (ns, m)"

text \<open>The second loop of \<open>addImportsTo\<close> (lines 134--141): the list \<open>unique\<close> and the final set.\<close>

fun add_unique :: "import_structure set \<Rightarrow> import_structure list \<Rightarrow> import_structure list \<times> import_structure set" where
  "add_unique s [] = ([], s)"
| "add_unique s (each # imports) =
     (if each \<in> s then add_unique s imports
      else (case add_unique (insert each s) imports of (u, s') \<Rightarrow> (each # u, s')))"

definition addImportsTo :: "ts_file \<Rightarrow> import_structure list \<Rightarrow> ts_file" where
  "addImportsTo sourceFile imports =
     (let s = set (map getStructure (tf_imports sourceFile));
          unique = fst (add_unique s imports)
      in sourceFile\<lparr>tf_imports := tf_imports sourceFile @ map structure_decl unique\<rparr>)"

text \<open>
  The inner \<open>impl\<close> of \<open>createImportsFor\<close>: an import for the reference itself when
  it is declared in another file and its syntax is a type reference, then, depth first,
  the imports of the references it requires.
\<close>

fun createImportsFor_impl :: "modspec \<Rightarrow> string \<Rightarrow> typeref \<Rightarrow> import_structure list" where
  "createImportsFor_impl ms sourceFile (TypeReference src decl reqs) =
     (case (src, decl) of
        (Some f, TypeRefSyntax typeName) \<Rightarrow>
          if sourceFile \<noteq> f then [createImportFor ms typeName f sourceFile] else []
      | _ \<Rightarrow> []) @ concat (map (createImportsFor_impl ms sourceFile) reqs)"

definition createImportsFor :: "modspec \<Rightarrow> string \<Rightarrow> typeref \<Rightarrow> import_structure list" where
  "createImportsFor ms sourceFile typeReference = createImportsFor_impl ms sourceFile typeReference"

definition addNullable :: "typeref \<Rightarrow> typeref" where
  "addNullable typeReference =
     TypeReference None (UnionSyntax [tr_declaration typeReference, KeywordSyntax ''null''])
                   [typeReference]"

text \<open>The references reachable through \<open>requiredReferences\<close>, in the order \<open>impl\<close> visits them.\<close>

fun subrefs :: "typeref \<Rightarrow> typeref list" where
  "subrefs (TypeReference src decl reqs) =
     TypeReference src decl reqs # concat (map subrefs reqs)"

text \<open>The import \<open>impl\<close> creates for one reference, without its required references.\<close>

definition own_import :: "modspec \<Rightarrow> string \<Rightarrow> typeref \<Rightarrow> import_structure list" where
  "own_import ms sf t =
     (case t of TypeReference (Some f) (TypeRefSyntax n) _ \<Rightarrow> if sf \<noteq> f then [createImportFor ms n f sf] else []
      | _ \<Rightarrow> [])"

section \<open>A generated file: ResponseContract.ts\<close>

text \<open>
  The generated model ResponseContract.ts of the apimanagement scenario: the type
  references of its four properties (\<open>int32\<close> is a type of the ADL library, declared
  in no generated file) and the import declarations the file starts with.
\<close>

definition responseContract_props :: "typeref list" where
  "responseContract_props =
     [TypeReference None (TypeRefSyntax ''int32'') [],
      TypeReference None (KeywordSyntax ''string'') [],
      TypeReference None (OtherSyntax ''Array<RepresentationContract>'')
        [TypeReference (Some ''/output/models/RepresentationContract.ts'') (TypeRefSyntax ''RepresentationContract'') []],
      TypeReference None (OtherSyntax ''Array<ParameterContract>'')
        [TypeReference (Some ''/output/models/ParameterContract.ts'') (TypeRefSyntax ''ParameterContract'') []]]"

definition responseContract_file :: ts_file where
  "responseContract_file =
     \<lparr>tf_path = ''/output/models/ResponseContract.ts'',
      tf_imports = [([''ParameterContract''], ''./ParameterContract''),
                    ([''RepresentationContract''], ''./RepresentationContract'')]\<rparr>"

text \<open>The module specifier between two files of one folder.\<close>

definition sibling_specifier :: modspec where
  "sibling_specifier from to =
     ''./'' @ rev (takeWhile (\<lambda>c. c \<noteq> CHR ''/'') (rev (take (length to - 3) to)))"

section \<open>Lemmas\<close>

lemma add_unique_spec:
  "add_unique s xs = (u, s') \<Longrightarrow> distinct u \<and> set u = set xs - s \<and> subseq u xs \<and> s' = s \<union> set xs"
proof (induction s xs arbitrary: u s' rule: add_unique.induct)
  case (1 s)
  then show ?case by simp
next
  case (2 s each rest)
  show ?case
  proof (cases "each \<in> s")
    case True
    with "2.prems" "2.IH"(1) [OF True] show ?thesis by auto
  next
    case False
    obtain u0 s0 where r: "add_unique (insert each s) rest = (u0, s0)" by fastforce
    with "2.prems" False have u: "u = each # u0" and s': "s' = s0" by auto
    from "2.IH"(2) [OF False r] have "distinct u0 \<and> set u0 = set rest - insert each s \<and> subseq u0 rest \<and> s0 = insert each s \<union> set rest" .
    with u s' False show ?thesis by auto
  qed
qed

lemma add_unique_first:
  "fst (add_unique s xs) = rev (remdups (rev (filter (\<lambda>x. x \<notin> s) xs)))"
proof (induction s xs rule: add_unique.induct)
  case (1 s)
  then show ?case by simp
next
  case (2 s each rest)
  show ?case
  proof (cases "each \<in> s")
    case True
    with "2.IH"(1) show ?thesis by simp
  next
    case False
    have "fst (add_unique s (each # rest)) = each # fst (add_unique (insert each s) rest)"
      using False by (simp split: prod.split)
    also have "\<dots> = each # rev (remdups (rev (filter (\<lambda>x. x \<notin> insert each s) rest)))"
      using "2.IH"(2) [OF False] by (simp split: prod.split add: case_prod_beta)
    also have "\<dots> = rev (remdups (rev (filter (\<lambda>x. x \<notin> s) (each # rest))))"
      using False by (simp add: remdups_snoc rev_filter filter_filter conj_commute)
    finally show ?thesis .
  qed
qed

lemma inter_eq_mem: "s \<inter> A = t \<inter> A \<Longrightarrow> x \<in> A \<Longrightarrow> (x \<in> s) = (x \<in> t)"
  by blast

lemma inter_eq_mono: "s \<inter> A = t \<inter> A \<Longrightarrow> B \<subseteq> A \<Longrightarrow> s \<inter> B = t \<inter> B"
  by blast

lemma add_unique_relevant:
  "s \<inter> set xs = t \<inter> set xs \<Longrightarrow> fst (add_unique s xs) = fst (add_unique t xs)"
proof (induction s xs arbitrary: t rule: add_unique.induct)
  case (1 s)
  then show ?case by simp
next
  case (2 s each rest)
  have st: "(each \<in> s) = (each \<in> t)" using inter_eq_mem [OF "2.prems"] by simp
  have rest': "s \<inter> set rest = t \<inter> set rest" using inter_eq_mono [OF "2.prems"] by auto
  have ins: "insert each s \<inter> set rest = insert each t \<inter> set rest"
    using rest' by blast
  show ?case
  proof (cases "each \<in> s")
    case True
    then have "fst (add_unique s rest) = fst (add_unique t rest)" by (rule "2.IH"(1) [OF _ rest'])
    with True st show ?thesis by simp
  next
    case False
    then have "fst (add_unique (insert each s) rest) = fst (add_unique (insert each t) rest)"
      by (rule "2.IH"(2) [OF _ ins])
    with False st show ?thesis
      by (simp add: case_prod_beta)
  qed
qed

lemma add_unique_no_created:
  "\<forall>x \<in> set imps. \<exists>ns m. x = CreatedImport ns m \<Longrightarrow> \<forall>x \<in> S. \<exists>ns m. x = DeclStructure ns m \<Longrightarrow>
   fst (add_unique S imps) = fst (add_unique {} imps)"
  by (rule add_unique_relevant) fastforce

lemma addImportsTo_imports:
  "tf_imports (addImportsTo f imps) =
     tf_imports f @ map structure_decl (fst (add_unique (set (map getStructure (tf_imports f))) imps))"
  by (simp add: addImportsTo_def Let_def)

lemma getStructure_decl: "\<forall>x \<in> set (map getStructure ds). \<exists>ns m. x = DeclStructure ns m"
  by (auto simp: getStructure_def)

lemma createImportsFor_impl_own:
  "createImportsFor_impl ms sf (TypeReference src decl reqs) =
     own_import ms sf (TypeReference src decl reqs) @ concat (map (createImportsFor_impl ms sf) reqs)"
  by (simp add: own_import_def split: option.split type_syntax.split)

lemma own_import_mem:
  "x \<in> set (own_import ms sf t) \<longleftrightarrow>
     (\<exists>n f reqs. t = TypeReference (Some f) (TypeRefSyntax n) reqs \<and> f \<noteq> sf \<and> x = createImportFor ms n f sf)"
proof (cases t)
  case (TypeReference src decl reqs)
  then show ?thesis
    by (cases src; cases decl) (auto simp: own_import_def)
qed

lemma createImportsFor_impl_preorder:
  "createImportsFor_impl ms sf tr = concat (map (own_import ms sf) (subrefs tr))"
proof (induction tr)
  case (TypeReference src decl reqs)
  then have "concat (map (createImportsFor_impl ms sf) reqs) = concat (map (own_import ms sf) (concat (map subrefs reqs)))"
    by (induction reqs) simp_all
  then show ?case
    by (simp only: createImportsFor_impl_own subrefs.simps list.map concat.simps)
qed

lemma own_import_length:
  "length (own_import ms sf t) =
     (if \<exists>f n reqs. t = TypeReference (Some f) (TypeRefSyntax n) reqs \<and> f \<noteq> sf then 1 else 0)"
  by (simp add: own_import_def split: typeref.split option.split type_syntax.split)

lemma createImportsFor_mem:
  "TypeReference (Some g) (TypeRefSyntax n) reqs \<in> set (subrefs tr) \<Longrightarrow> g \<noteq> sf \<Longrightarrow>
   createImportFor ms n g sf \<in> set (createImportsFor ms sf tr)"
  unfolding createImportsFor_def createImportsFor_impl_preorder set_concat set_map
  by (auto simp: own_import_mem)

lemma addImportsTo_created_mem:
  "CreatedImport ns m \<in> set imps \<Longrightarrow> (ns, m) \<in> set (tf_imports (addImportsTo f imps))"
proof -
  assume x: "CreatedImport ns m \<in> set imps"
  obtain u s' where r: "add_unique (set (map getStructure (tf_imports f))) imps = (u, s')" by fastforce
  have "CreatedImport ns m \<notin> set (map getStructure (tf_imports f))" by (auto simp: getStructure_def)
  with x add_unique_spec [OF r] have "CreatedImport ns m \<in> set u" by blast
  then have "(ns, m) \<in> set (map structure_decl u)" by force
  with r show ?thesis by (simp add: addImportsTo_imports)
qed

section \<open>Properties\<close>

text \<open>
  C11. \<open>addImportsTo\<close> keeps the file's imports and appends exactly the requested
  structures that are not already among the file's import structures, each once, in the
  order of their first request (the first occurrence is kept: \<open>rev \<circ> remdups \<circ> rev\<close>).
\<close>

theorem addImportsTo_dedup:
  "addImportsTo f imps =
     f\<lparr>tf_imports := tf_imports f @
        map structure_decl (rev (remdups (rev (filter (\<lambda>x. x \<notin> getStructure ` set (tf_imports f)) imps))))\<rparr>"
  using add_unique_first [of "set (map getStructure (tf_imports f))" imps]
  by (simp add: addImportsTo_def Let_def)

text \<open>
  C12. The de-duplication never sees an import the file already has: the structures of
  existing declarations (\<open>getStructure()\<close>) never equal those built by
  \<open>createImportFor\<close>, so adding the same created imports twice puts each into the
  file twice.
\<close>

theorem addImportsTo_repeat:
  assumes created: "\<forall>x \<in> set imps. \<exists>ns m. x = CreatedImport ns m"
  shows "tf_imports (addImportsTo (addImportsTo f imps) imps) =
           tf_imports f @ map structure_decl (fst (add_unique {} imps)) @ map structure_decl (fst (add_unique {} imps))"
  unfolding addImportsTo_imports add_unique_no_created [OF created getStructure_decl]
  by simp

text \<open>
  C13. \<open>createImportsFor\<close> creates an import exactly for each reference, reachable
  through \<open>requiredReferences\<close>, that is a type reference declared in another file;
  in particular a file never imports from itself.
\<close>

theorem createImportsFor_set:
  "x \<in> set (createImportsFor ms sf tr) \<longleftrightarrow>
     (\<exists>n f reqs. x = createImportFor ms n f sf \<and> f \<noteq> sf \<and> TypeReference (Some f) (TypeRefSyntax n) reqs \<in> set (subrefs tr))"
  unfolding createImportsFor_def createImportsFor_impl_preorder set_concat set_map
  by (auto simp: own_import_mem)

text \<open>
  C26. \<open>createImportsFor\<close> does not de-duplicate: it creates exactly one import per
  occurrence, among the references reachable through \<open>requiredReferences\<close> (the
  reference itself included), of a type reference declared in a file other than the
  importing one.
\<close>

theorem createImportsFor_length:
  "length (createImportsFor ms sf tr) =
     length (filter (\<lambda>t. \<exists>f n reqs. t = TypeReference (Some f) (TypeRefSyntax n) reqs \<and> f \<noteq> sf) (subrefs tr))"
  unfolding createImportsFor_def createImportsFor_impl_preorder
  by (rule length_concat_map_filter) (simp add: own_import_length)

text \<open>
  C27. The two halves composed: after \<open>addImportsTo\<close> with the imports
  \<open>createImportsFor\<close> computed for a file, the file imports every type reference it
  needs from another file, under that type's name and the relative module specifier.
\<close>

theorem addImportsTo_createImportsFor:
  assumes "TypeReference (Some g) (TypeRefSyntax n) reqs \<in> set (subrefs tr)" and "g \<noteq> tf_path f"
  shows "([n], ms (tf_path f) g) \<in> set (tf_imports (addImportsTo f (createImportsFor ms (tf_path f) tr)))"
  using createImportsFor_mem [OF assms, of ms] addImportsTo_created_mem
  by (simp add: createImportFor_def)

section \<open>Witnesses\<close>

theorem addImportsTo_repeat_witness:
  "tf_imports (addImportsTo (addImportsTo \<lparr>tf_path = ''/models/Pet.ts'', tf_imports = []\<rparr>
       [createImportFor (\<lambda>a b. ''./Category'') ''Category'' ''/models/Category.ts'' ''/models/Pet.ts''])
       [createImportFor (\<lambda>a b. ''./Category'') ''Category'' ''/models/Category.ts'' ''/models/Pet.ts'']) =
   [([''Category''], ''./Category''), ([''Category''], ''./Category'')]"
  using addImportsTo_repeat [of "[createImportFor (\<lambda>a b. ''./Category'') ''Category'' ''/models/Category.ts'' ''/models/Pet.ts'']"
                                "\<lparr>tf_path = ''/models/Pet.ts'', tf_imports = []\<rparr>"]
  by (simp add: createImportFor_def)

theorem addImportsTo_createImportsFor_witness:
  "([''RepresentationContract''], ''./RepresentationContract'') \<in>
     set (tf_imports (addImportsTo \<lparr>tf_path = ''/output/models/ResponseContract.ts'', tf_imports = []\<rparr>
            (createImportsFor sibling_specifier ''/output/models/ResponseContract.ts'' (responseContract_props ! 2)))) \<and>
   ([''ParameterContract''], ''./ParameterContract'') \<in>
     set (tf_imports (addImportsTo \<lparr>tf_path = ''/output/models/ResponseContract.ts'', tf_imports = []\<rparr>
            (createImportsFor sibling_specifier ''/output/models/ResponseContract.ts'' (responseContract_props ! 3)))) \<and>
   set (tf_imports responseContract_file) =
     {([''RepresentationContract''], ''./RepresentationContract''), ([''ParameterContract''], ''./ParameterContract'')}"
proof -
  have r: "sibling_specifier ''/output/models/ResponseContract.ts'' ''/output/models/RepresentationContract.ts'' =
           ''./RepresentationContract''"
    and p: "sibling_specifier ''/output/models/ResponseContract.ts'' ''/output/models/ParameterContract.ts'' =
           ''./ParameterContract''"
    by (simp_all add: sibling_specifier_def)
  have "([''RepresentationContract''], sibling_specifier ''/output/models/ResponseContract.ts'' ''/output/models/RepresentationContract.ts'') \<in>
     set (tf_imports (addImportsTo \<lparr>tf_path = ''/output/models/ResponseContract.ts'', tf_imports = []\<rparr>
            (createImportsFor sibling_specifier ''/output/models/ResponseContract.ts'' (responseContract_props ! 2))))"
    using addImportsTo_createImportsFor [of "''/output/models/RepresentationContract.ts''" "''RepresentationContract''" "[]"
            "responseContract_props ! 2" "\<lparr>tf_path = ''/output/models/ResponseContract.ts'', tf_imports = []\<rparr>"
            sibling_specifier]
    by (simp add: responseContract_props_def)
  moreover have "([''ParameterContract''], sibling_specifier ''/output/models/ResponseContract.ts'' ''/output/models/ParameterContract.ts'') \<in>
     set (tf_imports (addImportsTo \<lparr>tf_path = ''/output/models/ResponseContract.ts'', tf_imports = []\<rparr>
            (createImportsFor sibling_specifier ''/output/models/ResponseContract.ts'' (responseContract_props ! 3))))"
    using addImportsTo_createImportsFor [of "''/output/models/ParameterContract.ts''" "''ParameterContract''" "[]"
            "responseContract_props ! 3" "\<lparr>tf_path = ''/output/models/ResponseContract.ts'', tf_imports = []\<rparr>"
            sibling_specifier]
    by (simp add: responseContract_props_def)
  moreover have "set (tf_imports responseContract_file) =
     {([''RepresentationContract''], ''./RepresentationContract''), ([''ParameterContract''], ''./ParameterContract'')}"
    by (auto simp: responseContract_file_def)
  ultimately show ?thesis by (simp only: r p)
qed

end
