(* ===== verification/Alias.thy ===== *)
theory Alias
  imports Prelude
begin

text \<open>
  The alias indirection of the model (\<open>Alias<T>\<close> of model/alias, outside the
  sources, modelled from the spec): a field is either an inline value or a reference to a
  top-level declaration by name. Resolution looks the name up among the top-level
  declarations visible in the current document set, given as the function from a name to
  the declarations carrying it, and fails with \<open>UnresolvedAlias\<close> when there is none and
  \<open>AmbiguousAlias\<close> when there are several. It is a function of the current
  declarations only, so it is recomputed on every access.
\<close>

datatype 'a alias_or = Value 'a | Alias string

datatype alias_error = UnresolvedAlias string | AmbiguousAlias string

definition resolveAlias :: "(string \<Rightarrow> 'a list) \<Rightarrow> 'a alias_or \<Rightarrow> alias_error + 'a" where
  "resolveAlias decls indirection =
     (case indirection of
        Value v \<Rightarrow> Inr v
      | Alias name \<Rightarrow>
          (case decls name of
             [] \<Rightarrow> Inl (UnresolvedAlias name)
           | [d] \<Rightarrow> Inr d
           | _ \<Rightarrow> Inl (AmbiguousAlias name)))"

lemma resolveAlias_Alias_Inr:
  "resolveAlias decls (Alias name) = Inr d \<longleftrightarrow> decls name = [d]"
  by (auto simp: resolveAlias_def split: list.splits)

lemma resolveAlias_ambiguous:
  "2 \<le> length (decls name) \<Longrightarrow> resolveAlias decls (Alias name) = Inl (AmbiguousAlias name)"
  by (auto simp: resolveAlias_def split: list.splits)

end
