(* ===== verification/Http.thy ===== *)
theory Http
  imports Alias "HOL-Library.Multiset"
begin

text \<open>
  The HTTP protocol model of src/adl/core/model/http/protocol.ts: the enums
  \<open>AuthenticationType\<close> and \<open>ParameterLocation\<close>, the authentication schemes,
  OAuth2 flows, connections, authentication requirements and references, and the
  class \<open>HttpProtocol\<close> with its constructor, its declaration getters and its two
  unimplemented factory methods. A source file is the list of its top-level
  declarations in document order; ts-morph's \<open>getTypeAliases()\<close> and
  \<open>getInterfaces()\<close> select by kind. The classifiers imported from
  \<open>api-model\<close> (\<open>isResultTypeAlias\<close> and the others) are parameters of the model,
  gathered in \<open>api_preds\<close>; \<open>hasTag\<close> reads the declaration's JSDoc tags.
\<close>

section \<open>Enumerations\<close>

datatype AuthenticationType = ApiKey | Http | OAuth2 | OpenIdConnect

fun AuthenticationType_value :: "AuthenticationType \<Rightarrow> string" where
  "AuthenticationType_value ApiKey = ''apikey''"
| "AuthenticationType_value Http = ''http''"
| "AuthenticationType_value OAuth2 = ''oauth2''"
| "AuthenticationType_value OpenIdConnect = ''openidconnect''"

datatype ParameterLocation = Query | Header | Cookie

fun ParameterLocation_value :: "ParameterLocation \<Rightarrow> string" where
  "ParameterLocation_value Query = ''query''"
| "ParameterLocation_value Header = ''header''"
| "ParameterLocation_value Cookie = ''cookie''"

section \<open>Authentication schemes, flows and connections\<close>

record OAuth2Scope =
  scope_name :: string
  scope_description :: string

text \<open>The fields of the abstract base \<open>OAuth2Flow\<close>; each flow adds its URLs.\<close>

record OAuth2Flow =
  refreshUrl :: "string option"
  flow_scopes :: "OAuth2Scope list"

datatype flow =
    ClientCredentialsOAuth2Flow (tokenUrl: string) OAuth2Flow
  | PasswordOAuth2Flow string OAuth2Flow
  | ImplicitOAuth2Flow (authorizationUrl: string) OAuth2Flow
  | AuthorizationCodeOAuth2Flow string string OAuth2Flow

record OAuth2Flows =
  implicit :: "flow option"
  password :: "flow option"
  clientCredentials :: "flow option"
  authorizationCode :: "flow option"

text \<open>
  The four schemes of the union \<open>Authentication\<close>; every constructor takes the
  scheme's \<open>name\<close> first and the optional \<open>description\<close> of
  \<open>AuthenticationBase\<close> last.
\<close>

datatype authentication =
    ApiKeyAuthentication string string ParameterLocation "string option"
  | HttpAuthentication string string "string option" "string option"
  | OAuth2Authentication string OAuth2Flows "string option"
  | OpenIdConnectAuthentication string string "string option"

text \<open>The \<open>readonly type\<close> field each class fixes.\<close>

fun auth_type :: "authentication \<Rightarrow> AuthenticationType" where
  "auth_type (ApiKeyAuthentication _ _ _ _) = ApiKey"
| "auth_type (HttpAuthentication _ _ _ _) = Http"
| "auth_type (OAuth2Authentication _ _ _) = OAuth2"
| "auth_type (OpenIdConnectAuthentication _ _ _) = OpenIdConnect"

fun auth_name :: "authentication \<Rightarrow> string" where
  "auth_name (ApiKeyAuthentication n _ _ _) = n"
| "auth_name (HttpAuthentication n _ _ _) = n"
| "auth_name (OAuth2Authentication n _ _) = n"
| "auth_name (OpenIdConnectAuthentication n _ _) = n"

record AuthenticationReference =
  ref_authentication :: "authentication alias_or"
  ref_scopes :: "string list"

record AuthenticationRequirement =
  authentications :: "AuthenticationReference list"

text \<open>
  \<open>new AuthenticationReference(authentication, initializer)\<close>: the initializer is
  typed \<open>Partial<AuthenticationRequirement>\<close>, whose only field is
  \<open>authentications\<close>; \<open>initialize\<close> copies it onto the object, where no field of
  the reference reads it, so \<open>scopes\<close> keeps its initial \<open>[]\<close>.
\<close>

definition new_AuthenticationReference ::
  "authentication alias_or \<Rightarrow> AuthenticationReference list option \<Rightarrow> AuthenticationReference" where
  "new_AuthenticationReference authentication initializer =
     \<lparr>ref_authentication = authentication, ref_scopes = []\<rparr>"

record ConnectionVariable =
  var_name :: string
  var_description :: "string option"
  defaultValue :: "string option"
  allowedValues :: "string list option"

record Connection =
  url :: string
  conn_description :: "string option"
  variables :: "ConnectionVariable list"

section \<open>Declarations of the protocol's files\<close>

datatype decl_shape = TypeAliasShape | InterfaceShape | OtherShape

record decl_info =
  di_shape :: decl_shape
  di_name :: string
  di_tags :: "string list"

type_synonym source_doc = "decl_info list"

definition getTypeAliases :: "source_doc \<Rightarrow> decl_info list" where
  "getTypeAliases f = filter (\<lambda>d. di_shape d = TypeAliasShape) f"

definition getInterfaces :: "source_doc \<Rightarrow> decl_info list" where
  "getInterfaces f = filter (\<lambda>d. di_shape d = InterfaceShape) f"

definition hasTag :: "decl_info \<Rightarrow> string \<Rightarrow> bool" where
  "hasTag d tag \<longleftrightarrow> tag \<in> set (di_tags d)"

definition isHeader :: "decl_info \<Rightarrow> bool" where
  "isHeader declaration = (if hasTag declaration ''header'' then True else False)"

definition isParameterTypeAlias :: "decl_info \<Rightarrow> bool" where
  "isParameterTypeAlias declaration = False"

record api_preds =
  isOperationGroupInterfaceType :: "decl_info \<Rightarrow> bool"
  isResponseCollectionTypeAlias :: "decl_info \<Rightarrow> bool"
  isResponseTypeAlias :: "decl_info \<Rightarrow> bool"
  isResultTypeAlias :: "decl_info \<Rightarrow> bool"
  isResultInterfaceType :: "decl_info \<Rightarrow> bool"

text \<open>\<open>ApiModel\<close> as far as the protocol touches it: the table of alias checkers.\<close>

record ApiModel =
  KnownAliasTypes :: "string \<rightharpoonup> (decl_info \<Rightarrow> bool)"

datatype decl_class = ResponseCollectionClass | ResponseClass | ResultClass | ParameterClass | HeaderClass

datatype http_declaration = Declaration decl_info decl_class

datatype OperationGroup = OperationGroup decl_info

text \<open>A result declaration: a type alias or an interface the classifiers accept as a result.\<close>

definition is_result :: "api_preds \<Rightarrow> decl_info \<Rightarrow> bool" where
  "is_result P d \<longleftrightarrow>
     (di_shape d = TypeAliasShape \<and> isResultTypeAlias P d) \<or> (di_shape d = InterfaceShape \<and> isResultInterfaceType P d)"

section \<open>The class \<open>HttpProtocol\<close>\<close>

record HttpProtocol =
  files :: "source_doc list"
  hp_authentications :: "authentication alias_or list"
  authenticationRequirements :: "AuthenticationRequirement alias_or list"
  connections :: "Connection alias_or list"

text \<open>
  The constructor: the base \<open>Protocol\<close> keeps the given files (none when there are
  none), the three arrays start empty, and without source files the header checker is
  registered in the model's \<open>KnownAliasTypes\<close>.
\<close>

definition new_HttpProtocol :: "ApiModel \<Rightarrow> source_doc list option \<Rightarrow> HttpProtocol \<times> ApiModel" where
  "new_HttpProtocol api sourceFiles =
     (\<lparr>files = (case sourceFiles of Some fs \<Rightarrow> fs | None \<Rightarrow> []),
       hp_authentications = [], authenticationRequirements = [], connections = []\<rparr>,
      if sourceFiles = None
      then api\<lparr>KnownAliasTypes := (KnownAliasTypes api)(''header'' \<mapsto> isHeader)\<rparr>
      else api)"

definition operationGroups :: "api_preds \<Rightarrow> HttpProtocol \<Rightarrow> OperationGroup list" where
  "operationGroups P hp =
     concat (map (\<lambda>each. map OperationGroup (filter (isOperationGroupInterfaceType P) (getInterfaces each)))
                 (files hp))"

definition responseCollections :: "api_preds \<Rightarrow> HttpProtocol \<Rightarrow> http_declaration list" where
  "responseCollections P hp =
     map (\<lambda>each. Declaration each ResponseCollectionClass)
       (concat (map (\<lambda>each. filter (isResponseCollectionTypeAlias P) (getTypeAliases each)) (files hp)))"

definition responses :: "api_preds \<Rightarrow> HttpProtocol \<Rightarrow> http_declaration list" where
  "responses P hp =
     map (\<lambda>each. Declaration each ResponseClass)
       (concat (map (\<lambda>each. filter (isResponseTypeAlias P) (getTypeAliases each)) (files hp)))"

definition results :: "api_preds \<Rightarrow> HttpProtocol \<Rightarrow> http_declaration list" where
  "results P hp =
     map (\<lambda>each. Declaration each ResultClass)
       (concat (map (\<lambda>each. filter (isResultTypeAlias P) (getTypeAliases each)) (files hp))) @
     map (\<lambda>each. Declaration each ResultClass)
       (concat (map (\<lambda>each. filter (isResultInterfaceType P) (getInterfaces each)) (files hp)))"

definition parameters :: "HttpProtocol \<Rightarrow> http_declaration list" where
  "parameters hp =
     map (\<lambda>each. Declaration each ParameterClass)
       (concat (map (\<lambda>each. filter isParameterTypeAlias (getTypeAliases each)) (files hp)))"

definition headers :: "HttpProtocol \<Rightarrow> http_declaration list" where
  "headers hp =
     map (\<lambda>each. Declaration each HeaderClass)
       (concat (map (\<lambda>each. filter isHeader (getTypeAliases each)) (files hp)))"

definition createOperationGroup :: "HttpProtocol \<Rightarrow> unit js_result" where
  "createOperationGroup hp = Inl (Error ''not implemented'')"

definition createOperationResultAlias :: "HttpProtocol \<Rightarrow> unit js_result" where
  "createOperationResultAlias hp = Inl (Error ''not implemented'')"

section \<open>Lemmas\<close>

lemma results_file:
  "mset (filter (is_result P) f) =
     mset (filter (isResultTypeAlias P) (getTypeAliases f)) + mset (filter (isResultInterfaceType P) (getInterfaces f))"
  by (induction f) (auto simp: is_result_def getTypeAliases_def getInterfaces_def filter_filter_mset)

text \<open>The two spreads of \<open>results\<close> are the aliases and the interfaces of the document-order results.\<close>

lemma results_split:
  "results P hp =
     map (\<lambda>d. Declaration d ResultClass)
       (filter (\<lambda>d. di_shape d = TypeAliasShape) (concat (map (filter (is_result P)) (files hp))) @
        filter (\<lambda>d. di_shape d = InterfaceShape) (concat (map (filter (is_result P)) (files hp))))"
proof -
  have a: "filter (\<lambda>d. is_result P d \<and> di_shape d = TypeAliasShape) f =
           filter (isResultTypeAlias P) (getTypeAliases f)" for f
    by (induction f) (auto simp: is_result_def getTypeAliases_def)
  have i: "filter (\<lambda>d. is_result P d \<and> di_shape d = InterfaceShape) f =
           filter (isResultInterfaceType P) (getInterfaces f)" for f
    by (induction f) (auto simp: is_result_def getInterfaces_def)
  show ?thesis
    by (simp add: results_def filter_concat comp_def a i)
qed

lemma is_result_shape: "is_result P d \<Longrightarrow> di_shape d = TypeAliasShape \<longleftrightarrow> \<not> di_shape d = InterfaceShape"
  by (auto simp: is_result_def)

section \<open>Properties\<close>

text \<open>
  C14. The \<open>results\<close> getter lists every result declaration (a result type alias or
  a result interface) of the protocol's files exactly once: as a multiset it is the list
  of results in document order.
\<close>

theorem results_permutation:
  "mset (results P hp) = mset (map (\<lambda>d. Declaration d ResultClass) (concat (map (filter (is_result P)) (files hp))))"
proof -
  have "mset (concat (map (filter (is_result P)) fs)) =
          mset (concat (map (\<lambda>each. filter (isResultTypeAlias P) (getTypeAliases each)) fs)) +
          mset (concat (map (\<lambda>each. filter (isResultInterfaceType P) (getInterfaces each)) fs))" for fs
    by (induction fs) (simp_all add: results_file [unfolded mset_filter])
  then show ?thesis
    by (simp add: results_def)
qed

text \<open>
  C15. The \<open>headers\<close> getter lists exactly the type aliases of the protocol's files
  that carry the \<open>@header\<close> tag.
\<close>

theorem headers_tagged:
  "set (headers hp) =
     {Declaration d HeaderClass | d. \<exists>f \<in> set (files hp). d \<in> set f \<and> di_shape d = TypeAliasShape \<and> ''header'' \<in> set (di_tags d)}"
  by (auto simp: headers_def isHeader_def hasTag_def getTypeAliases_def)

text \<open>
  C16. Constructing a protocol without source files registers \<open>isHeader\<close> as the
  alias checker for \<open>header\<close> and leaves the other checkers; constructing it with
  source files leaves the model unchanged.
\<close>

theorem header_checker_registered:
  "KnownAliasTypes (snd (new_HttpProtocol api None)) ''header'' = Some isHeader \<and>
   (\<forall>k. k \<noteq> ''header'' \<longrightarrow> KnownAliasTypes (snd (new_HttpProtocol api None)) k = KnownAliasTypes api k) \<and>
   snd (new_HttpProtocol api (Some fs)) = api"
  by (simp add: new_HttpProtocol_def)

text \<open>
  C17. The \<open>results\<close> getter lists the results in document order (file by file,
  declaration by declaration) exactly when no result interface comes, in that order,
  before a result type alias: it lists the result aliases of all files before their
  result interfaces.
\<close>

theorem results_document_order:
  "results P hp = map (\<lambda>d. Declaration d ResultClass) (concat (map (filter (is_result P)) (files hp))) \<longleftrightarrow>
   sorted_wrt (\<lambda>a b. \<not> (di_shape a = InterfaceShape \<and> di_shape b = TypeAliasShape))
              (concat (map (filter (is_result P)) (files hp)))"
proof -
  let ?L = "concat (map (filter (is_result P)) (files hp))"
  have shapes: "\<forall>d\<in>set ?L. di_shape d = TypeAliasShape \<longleftrightarrow> \<not> di_shape d = InterfaceShape"
    using is_result_shape by auto
  have inj: "inj (\<lambda>d. Declaration d ResultClass)" by (auto intro: injI)
  have "results P hp = map (\<lambda>d. Declaration d ResultClass) ?L \<longleftrightarrow>
        filter (\<lambda>d. di_shape d = TypeAliasShape) ?L @ filter (\<lambda>d. di_shape d = InterfaceShape) ?L = ?L"
    unfolding results_split map_append [symmetric] by (rule inj_map_eq_map [OF inj])
  also have "\<dots> \<longleftrightarrow> sorted_wrt (\<lambda>a b. \<not> (di_shape a = InterfaceShape \<and> di_shape b = TypeAliasShape)) ?L"
    by (rule filter_append_filter_eq_iff [OF shapes])
  finally show ?thesis .
qed

text \<open>
  C24. \<open>operationGroups\<close> scans every document of the project: the groups of a
  project whose documents are \<open>As @ Bs\<close> are those of \<open>As\<close> followed by those of
  \<open>Bs\<close>, and the groups of one document are its interfaces that satisfy
  \<open>isOperationGroupInterfaceType\<close>, in declaration order.
\<close>

theorem operationGroups_document_order:
  "operationGroups P (hp\<lparr>files := As @ Bs\<rparr>) =
     operationGroups P (hp\<lparr>files := As\<rparr>) @ operationGroups P (hp\<lparr>files := Bs\<rparr>) \<and>
   operationGroups P (hp\<lparr>files := [A]\<rparr>) =
     map OperationGroup (filter (\<lambda>d. di_shape d = InterfaceShape \<and> isOperationGroupInterfaceType P d) A)"
  by (simp add: operationGroups_def getInterfaces_def)

section \<open>Witnesses\<close>

theorem header_checker_registered_witness:
  "KnownAliasTypes (snd (new_HttpProtocol \<lparr>KnownAliasTypes = Map.empty\<rparr> None)) ''header'' = Some isHeader \<and>
   KnownAliasTypes (snd (new_HttpProtocol \<lparr>KnownAliasTypes = Map.empty\<rparr> None)) ''query'' = None"
  using header_checker_registered [of "\<lparr>KnownAliasTypes = Map.empty\<rparr>" "[]"] by simp

theorem operationGroups_document_order_witness:
  "operationGroups \<lparr>isOperationGroupInterfaceType = \<lambda>d. True, isResponseCollectionTypeAlias = \<lambda>d. False,
                    isResponseTypeAlias = \<lambda>d. False, isResultTypeAlias = \<lambda>d. False, isResultInterfaceType = \<lambda>d. False\<rparr>
     \<lparr>files = [[\<lparr>di_shape = InterfaceShape, di_name = ''Pets'', di_tags = []\<rparr>,
                \<lparr>di_shape = TypeAliasShape, di_name = ''Pet'', di_tags = []\<rparr>],
               [\<lparr>di_shape = InterfaceShape, di_name = ''Stores'', di_tags = []\<rparr>]],
      hp_authentications = [], authenticationRequirements = [], connections = []\<rparr> =
   [OperationGroup \<lparr>di_shape = InterfaceShape, di_name = ''Pets'', di_tags = []\<rparr>,
    OperationGroup \<lparr>di_shape = InterfaceShape, di_name = ''Stores'', di_tags = []\<rparr>]"
  using operationGroups_document_order
          [where As = "[[\<lparr>di_shape = InterfaceShape, di_name = ''Pets'', di_tags = []\<rparr>,
                        \<lparr>di_shape = TypeAliasShape, di_name = ''Pet'', di_tags = []\<rparr>]]"
             and Bs = "[[\<lparr>di_shape = InterfaceShape, di_name = ''Stores'', di_tags = []\<rparr>]]"
             and P = "\<lparr>isOperationGroupInterfaceType = \<lambda>d. True, isResponseCollectionTypeAlias = \<lambda>d. False,
                      isResponseTypeAlias = \<lambda>d. False, isResultTypeAlias = \<lambda>d. False, isResultInterfaceType = \<lambda>d. False\<rparr>"
             and hp = "\<lparr>files = [], hp_authentications = [], authenticationRequirements = [], connections = []\<rparr>"]
  by simp

theorem results_document_order_witness:
  "results \<lparr>isOperationGroupInterfaceType = \<lambda>d. False, isResponseCollectionTypeAlias = \<lambda>d. False,
            isResponseTypeAlias = \<lambda>d. False, isResultTypeAlias = \<lambda>d. True, isResultInterfaceType = \<lambda>d. True\<rparr>
     \<lparr>files = [[\<lparr>di_shape = InterfaceShape, di_name = ''PetResult'', di_tags = []\<rparr>,
                \<lparr>di_shape = TypeAliasShape, di_name = ''ErrorResult'', di_tags = []\<rparr>]],
      hp_authentications = [], authenticationRequirements = [], connections = []\<rparr> \<noteq>
   [Declaration \<lparr>di_shape = InterfaceShape, di_name = ''PetResult'', di_tags = []\<rparr> ResultClass,
    Declaration \<lparr>di_shape = TypeAliasShape, di_name = ''ErrorResult'', di_tags = []\<rparr> ResultClass]"
  using results_document_order
          [of "\<lparr>isOperationGroupInterfaceType = \<lambda>d. False, isResponseCollectionTypeAlias = \<lambda>d. False,
                isResponseTypeAlias = \<lambda>d. False, isResultTypeAlias = \<lambda>d. True, isResultInterfaceType = \<lambda>d. True\<rparr>"
              "\<lparr>files = [[\<lparr>di_shape = InterfaceShape, di_name = ''PetResult'', di_tags = []\<rparr>,
                \<lparr>di_shape = TypeAliasShape, di_name = ''ErrorResult'', di_tags = []\<rparr>]],
                hp_authentications = [], authenticationRequirements = [], connections = []\<rparr>"]
  by (simp add: is_result_def)

end
