(* ===== verification/AzureRules.thy ===== *)
theory AzureRules
  imports Prelude
begin

text \<open>
  The Azure lint rule src/adl/plugins/azure/rules/require-read-only-properties.ts. The
  rule's \<open>onProperty\<close> handler inspects a model property and, when it is both
  \<open>readOnly\<close> and \<open>required\<close>, returns a message with two suggestions whose
  \<open>fix\<close> closures mutate the property; a fix is modelled as the function from the
  property before to the property after. The rule's metadata are constants.

  The sibling rule parameter-description-required.ts is commented out in full: it does
  not run, and it is not modelled.
\<close>

section \<open>Rules, properties and suggestions\<close>

record model_property =
  prop_name :: string
  readOnly :: bool
  required :: bool

datatype suggestion = Suggestion (sg_description: string) (fix_of: "model_property \<Rightarrow> model_property")

record rule_result =
  message :: string
  suggestions :: "suggestion list"

datatype activation = Edit | Save

datatype severity = SevError | SevWarning

text \<open>
  The metadata of a \<open>Rule\<close>: when it runs, its identifier (a rule object may omit it),
  and the \<open>meta\<close> block.
\<close>

record rule_meta =
  activation :: activation
  rule_id :: "string option"
  severity :: severity
  rule_description :: string
  documentationUrl :: string

definition require_read_only_properties :: rule_meta where
  "require_read_only_properties =
     \<lparr>activation = Edit, rule_id = Some ''require-read-only-properties'', severity = SevError,
      rule_description = ''A model property cannot be both readOnly and required. A readOnly property is something that the server sets when returning the model object while required is a property to be set when sending it as a part of the request body.'',
      documentationUrl = ''https://github.com/Azure/azure-rest-api-specs/blob/master/documentation/openapi-authoring-automated-guidelines.md#r2056-requiredreadonlyproperties''\<rparr>"

text \<open>
  \<open>onProperty(model, property)\<close> (lines 10--32); the model is not consulted and is a
  parameter of any type.
\<close>

definition onProperty :: "'m \<Rightarrow> model_property \<Rightarrow> rule_result option" where
  "onProperty model property =
     (if readOnly property \<and> required property
      then Some \<lparr>message = ''A property '' @ [CHR 0x27] @ prop_name property @ [CHR 0x27] @
                           '' cannot be marked both as readOnly and required.'',
                 suggestions =
                   [Suggestion ''Remove readonly keyword.'' (\<lambda>p. p\<lparr>readOnly := False\<rparr>),
                    Suggestion ''Mark this property as optional.'' (\<lambda>p. p\<lparr>required := False\<rparr>)]\<rparr>
      else None)"

section \<open>Properties\<close>

text \<open>
  C18. The rule reports a property exactly when it is both \<open>readOnly\<close> and
  \<open>required\<close>, with a message naming the property and two suggestions.
\<close>

theorem onProperty_fires:
  "(onProperty model p \<noteq> None) = (readOnly p \<and> required p) \<and>
   (\<forall>r. onProperty model p = Some r \<longrightarrow>
        length (suggestions r) = 2 \<and>
        message r = ''A property '' @ [CHR 0x27] @ prop_name p @ [CHR 0x27] @
                    '' cannot be marked both as readOnly and required.'')"
  by (simp add: onProperty_def)

text \<open>
  C19. Each suggested fix clears the violation and changes exactly one flag: after
  applying any suggestion of a report to the reported property the rule no longer fires
  on it, and the property's name is unchanged.
\<close>

theorem onProperty_fixes:
  assumes "onProperty model p = Some r" and "s \<in> set (suggestions r)"
  shows "onProperty model (fix_of s p) = None \<and> prop_name (fix_of s p) = prop_name p \<and>
         (readOnly (fix_of s p) \<noteq> readOnly p) \<noteq> (required (fix_of s p) \<noteq> required p)"
  using assms by (auto simp: onProperty_def split: if_splits)

theorem onProperty_fires_witness:
  "onProperty () \<lparr>prop_name = ''provisioningState'', readOnly = True, required = True\<rparr> \<noteq> None"
  using onProperty_fires [of "()" "\<lparr>prop_name = ''provisioningState'', readOnly = True, required = True\<rparr>"]
  by simp

theorem onProperty_fixes_witness:
  "onProperty () \<lparr>prop_name = ''provisioningState'', readOnly = True, required = False\<rparr> = None"
proof -
  let ?p = "\<lparr>prop_name = ''provisioningState'', readOnly = True, required = True\<rparr>"
  obtain r where r: "onProperty () ?p = Some r" by (simp add: onProperty_def)
  have "Suggestion ''Mark this property as optional.'' (\<lambda>p. p\<lparr>required := False\<rparr>) \<in> set (suggestions r)"
    using r by (auto simp: onProperty_def)
  from onProperty_fixes [OF r this] show ?thesis by simp
qed

end
