(* ===== verification/TextHelpers.thy ===== *)
theory TextHelpers
  imports Prelude
begin

text \<open>
  Text helpers of src/adl/core/support/typescript.ts: \<open>getInnerText\<close> (lines
  175--178), which keeps an interface's text from its first brace, and the getter
  \<open>relativePath\<close> that lines 231--243 add to ts-morph's \<open>SourceFile\<close>, which
  rewrites a file path with \<open>replace(/(^\/)|(^\w)/, './$2')\<close>. The JavaScript
  primitives are modelled with their edge cases: \<open>indexOf\<close> returns -1 when the
  character is absent, and \<open>substring\<close> clamps a negative start to 0.
\<close>

section \<open>JavaScript string primitives\<close>

definition js_indexOf :: "string \<Rightarrow> char \<Rightarrow> int" where
  "js_indexOf s c = (case find (\<lambda>i. s ! i = c) [0..<length s] of Some i \<Rightarrow> int i | None \<Rightarrow> -1)"

definition js_substring :: "string \<Rightarrow> int \<Rightarrow> string" where
  "js_substring s start = drop (nat (min (max 0 start) (int (length s)))) s"

text \<open>The regular-expression class \<open>\w\<close>: ASCII letters, digits and underscore.\<close>

definition is_word_char :: "char \<Rightarrow> bool" where
  "is_word_char c \<longleftrightarrow>
     c \<in> set ''abcdefghijklmnopqrstuvwxyzABCDEFGHIJKLMNOPQRSTUVWXYZ0123456789_''"

section \<open>The helpers\<close>

definition getInnerText :: "string \<Rightarrow> string" where
  "getInnerText text = js_substring text (js_indexOf text (CHR ''{''))"

text \<open>
  \<open>relativePath\<close>: the regular expression matches at most one character at the start;
  a leading slash (group 1) is replaced by \<open>./\<close>, a leading word character (group 2)
  by \<open>./\<close> followed by itself, and any other path is returned unchanged.
\<close>

fun relativePath :: "string \<Rightarrow> string" where
  "relativePath [] = []"
| "relativePath (c # rest) =
     (if c = CHR ''/'' then ''./'' @ rest
      else if is_word_char c then ''./'' @ c # rest
      else c # rest)"

text \<open>
  The getter \<open>fullPath\<close> (lines 238--243): the file system's absolute path of the
  \<open>relativePath\<close>; \<open>getAbsolutePath\<close> of support/file-system and the project's
  file system are parameters. \<open>getAPI\<close> (lines 112--114) reads the \<open>api\<close> field
  the project carries.
\<close>

definition fullPath :: "('fs \<Rightarrow> string \<Rightarrow> string) \<Rightarrow> 'fs \<Rightarrow> string \<Rightarrow> string" where
  "fullPath getAbsolutePath fileSystem filePath = getAbsolutePath fileSystem (relativePath filePath)"

definition getAPI :: "('node \<Rightarrow> 'project) \<Rightarrow> ('project \<Rightarrow> 'api) \<Rightarrow> 'node \<Rightarrow> 'api" where
  "getAPI getProject api input = api (getProject input)"

section \<open>Lemmas\<close>

lemma js_indexOf_found:
  "c \<in> set s \<Longrightarrow> \<exists>i < length s. js_indexOf s c = int i \<and> s ! i = c \<and> c \<notin> set (take i s)"
proof -
  assume c: "c \<in> set s"
  then obtain j where "j < length s" "s ! j = c" by (auto simp: in_set_conv_nth)
  then have "find (\<lambda>i. s ! i = c) [0..<length s] \<noteq> None" by (auto simp: find_None_iff)
  then obtain i where f: "find (\<lambda>i. s ! i = c) [0..<length s] = Some i" by blast
  from find_Some_first [OF f] have "i < length s" "s ! i = c" "\<forall>j < i. s ! j \<noteq> c" by auto
  moreover from this have "c \<notin> set (take i s)" by (auto simp: in_set_conv_nth)
  ultimately show ?thesis using f by (auto simp: js_indexOf_def)
qed

lemma js_indexOf_absent: "c \<notin> set s \<Longrightarrow> js_indexOf s c = -1"
proof -
  assume "c \<notin> set s"
  then have "find (\<lambda>i. s ! i = c) [0..<length s] = None"
    by (auto simp: find_None_iff in_set_conv_nth)
  then show ?thesis by (simp add: js_indexOf_def)
qed

lemma dropWhile_at_first:
  "i < length s \<Longrightarrow> s ! i = c \<Longrightarrow> c \<notin> set (take i s) \<Longrightarrow> dropWhile (\<lambda>x. x \<noteq> c) s = drop i s"
proof (induction s arbitrary: i)
  case Nil
  then show ?case by simp
next
  case (Cons x xs)
  then show ?case by (cases i) auto
qed

section \<open>Properties\<close>

text \<open>
  C20. \<open>getInnerText\<close> is the text from the first opening brace on (the reference
  \<open>dropWhile\<close>), and the whole text when there is no brace: \<open>indexOf\<close> returns -1 and
  \<open>substring(-1)\<close> starts at 0.
\<close>

theorem getInnerText_spec:
  "getInnerText text =
     (if CHR ''{'' \<in> set text then dropWhile (\<lambda>x. x \<noteq> CHR ''{'') text else text)"
proof (cases "CHR ''{'' \<in> set text")
  case True
  then obtain i where "i < length text" "js_indexOf text (CHR ''{'') = int i" "text ! i = CHR ''{''"
      "CHR ''{'' \<notin> set (take i text)"
    using js_indexOf_found by blast
  with True show ?thesis
    by (simp add: getInnerText_def js_substring_def dropWhile_at_first)
next
  case False
  then show ?thesis by (simp add: getInnerText_def js_substring_def js_indexOf_absent)
qed

text \<open>
  C21. \<open>relativePath\<close> never loses a character: it either returns the path
  unchanged or prefixes \<open>./\<close>, dropping only a leading slash; a path starting with a
  word character is prefixed, an absolute path keeps everything after its slash, and a
  second application changes nothing.
\<close>

theorem relativePath_idempotent:
  "relativePath (relativePath p) = relativePath p \<and>
   (relativePath p = p \<or> (\<exists>q. relativePath p = ''./'' @ q \<and> (p = CHR ''/'' # q \<or> p = q))) \<and>
   (p \<noteq> [] \<longrightarrow> is_word_char (hd p) \<longrightarrow> relativePath p = ''./'' @ p) \<and>
   relativePath (CHR ''/'' # rest) = ''./'' @ rest"
  by (cases p) (auto simp: is_word_char_def)

theorem relativePath_idempotent_witness:
  "relativePath ''/models/Pet.ts'' = ''./models/Pet.ts'' \<and> relativePath ''models/Pet.ts'' = ''./models/Pet.ts''"
  using relativePath_idempotent [of "''models/Pet.ts''" "''models/Pet.ts''"]
  by (simp add: is_word_char_def)

end
