(* ===== verification/OpenApiExamples.thy ===== *)
theory OpenApiExamples
  imports Prelude
begin

text \<open>
  src/adl/core/serialization/openapiv3/example.ts: \<open>processExamples\<close> is the hook
  that would turn the examples dictionary of an OpenAPI v3 document into model elements.
  Its body returns \<open>undefined\<close> for every input; the dictionary context and the element
  type are parameters.
\<close>

definition processExamples :: "'ctx \<Rightarrow> 'element option" where
  "processExamples ctx = None"

end
