(* ===== verification/LoadTests.thy ===== *)
theory LoadTests
  imports Prelude
begin

text \<open>
  The OpenAPI v3 loading tests of core/test/load-openapi3.ts: which mocha tests are
  registered (one per input file of the single scenarios, one per folder of the multiple
  ones), where each test writes its outputs, and the body of a test as a sequence of
  effects on a disk. The disk maps a path to the content of the file there. The
  collaborators the test calls (the \<open>ApiModel\<close> import and save, the serializer,
  \<open>clean\<close> of test/common, the directory listing, and the JavaScript \<open>RegExp\<close> engine
  outside the fragment the test's patterns use) are fields of a record; the test is
  modelled over any behaviour of them. Node's \<open>path\<close> functions are written out for
  the arguments the test passes: absolute paths and directory entries. Console output
  and timing are left out: they have no effect on the outcome.
\<close>

section \<open>Effects on the disk\<close>

type_synonym disk = "string \<Rightarrow> string option"

text \<open>An action on the disk that may throw: the result and the disk afterwards.\<close>

type_synonym 'a io = "disk \<Rightarrow> 'a js_result \<times> disk"

definition io_return :: "'a \<Rightarrow> 'a io" where
  "io_return a = (\<lambda>d. (Inr a, d))"

definition io_lift :: "'a js_result \<Rightarrow> 'a io" where
  "io_lift r = (\<lambda>d. (r, d))"

definition io_bind :: "'a io \<Rightarrow> ('a \<Rightarrow> 'b io) \<Rightarrow> 'b io" where
  "io_bind m f = (\<lambda>d. case m d of (Inl e, d') \<Rightarrow> (Inl e, d') | (Inr a, d') \<Rightarrow> f a d')"

text \<open>\<open>writeFile\<close> and \<open>isFile\<close> of @azure-tools/async-io on the disk.\<close>

definition writeFile :: "string \<Rightarrow> string \<Rightarrow> unit io" where
  "writeFile p content = (\<lambda>d. (Inr (), d(p \<mapsto> content)))"

definition isFile :: "string \<Rightarrow> bool io" where
  "isFile p = (\<lambda>d. (Inr (d p \<noteq> None), d))"

text \<open>\<open>equal\<close> and \<open>fail\<close> of node's \<open>assert\<close>.\<close>

definition assert_equal :: "bool \<Rightarrow> bool \<Rightarrow> string \<Rightarrow> unit io" where
  "assert_equal actual expected message =
     (if actual = expected then io_return () else io_lift (Inl (AssertionError message)))"

definition assert_fail :: "string \<Rightarrow> unit io" where
  "assert_fail message = io_lift (Inl (AssertionError message))"

section \<open>Node's path functions\<close>

text \<open>The segments of a path between its slashes.\<close>

fun split_slash :: "string \<Rightarrow> string list" where
  "split_slash [] = [[]]"
| "split_slash (c # cs) =
     (let r = split_slash cs in if c = CHR ''/'' then [] # r else (c # hd r) # tl r)"

text \<open>
  Normalisation of the segments of an absolute path (the accumulator holds the kept
  segments, last first): empty segments and \<open>.\<close> vanish, \<open>..\<close> drops the last kept
  segment and stays at the root.
\<close>

fun norm_segs :: "string list \<Rightarrow> string list \<Rightarrow> string list" where
  "norm_segs acc [] = rev acc"
| "norm_segs acc (s # ss) =
     (if s = [] \<or> s = ''.'' then norm_segs acc ss
      else if s = ''..'' then norm_segs (drop 1 acc) ss
      else norm_segs (s # acc) ss)"

fun join_segs :: "string list \<Rightarrow> string" where
  "join_segs [] = []"
| "join_segs [s] = s"
| "join_segs (s # ss) = s @ ''/'' @ join_segs ss"

text \<open>\<open>path.resolve(p)\<close> for an absolute \<open>p\<close>: the normalised path without a trailing slash.\<close>

definition path_resolve :: "string \<Rightarrow> string" where
  "path_resolve p = CHR ''/'' # join_segs (norm_segs [] (split_slash p))"

text \<open>
  \<open>path.extname(b)\<close> for a directory entry \<open>b\<close> (no slash): from the last dot on, or
  the empty string when there is no dot, when the last dot is the first character, and
  for \<open>..\<close>.
\<close>

definition extname :: "string \<Rightarrow> string" where
  "extname b =
     (if CHR ''.'' \<notin> set b \<or> b = ''..'' then []
      else (let i = length b - length (takeWhile (\<lambda>c. c \<noteq> CHR ''.'') (rev b)) - 1
            in if i = 0 then [] else drop i b))"

text \<open>\<open>path.basename(b, ext)\<close> for a directory entry \<open>b\<close>.\<close>

definition basename_ext :: "string \<Rightarrow> string \<Rightarrow> string" where
  "basename_ext b ext =
     (if ext = [] \<or> \<not> suffix ext b then b
      else if ext = b then []
      else take (length b - length ext) b)"

section \<open>The pattern of line 70\<close>

text \<open>
  \<open>file.replace(new RegExp(`${ext}$`, 'ig'), r)\<close>. When \<open>ext\<close> has none of the
  characters that are operators of \<open>RegExp\<close> (a dot is one, and matches any character
  but a line terminator), the pattern has the fixed width of \<open>ext\<close> and is anchored at
  the end, so the only place it can match is the end; when \<open>ext\<close> ends \<open>file\<close> it
  matches there (each character of the pattern meets itself, the dot a dot), and the
  global flag finds nothing after it. Patterns outside this fragment go to the engine.
\<close>

definition regex_plain :: "string \<Rightarrow> bool" where
  "regex_plain s \<longleftrightarrow> (\<forall>c \<in> set s. c \<notin> set ''^$*+?()[]{}|'' \<and> c \<noteq> CHR 0x5C)"

definition ext_replace ::
  "(string \<Rightarrow> string \<Rightarrow> string \<Rightarrow> string js_result) \<Rightarrow> string \<Rightarrow> string \<Rightarrow> string \<Rightarrow> string js_result" where
  "ext_replace regexp_replace fname ext r =
     (if regex_plain ext \<and> suffix ext fname then Inr (take (length fname - length ext) fname @ r)
      else regexp_replace fname ext r)"

section \<open>Test registration\<close>

datatype entry_kind = RegularFile | Directory | OtherEntry

text \<open>The tests' collaborators.\<close>

record ('api, 'attic) collaborators =
  readdir :: "string \<Rightarrow> (string \<times> entry_kind) list"
  importModel :: "string \<Rightarrow> string \<Rightarrow> string list \<Rightarrow> 'api io"
  saveADL :: "'api \<Rightarrow> nat io"
  api_attic :: "'api \<Rightarrow> 'attic option"
  serialize_api :: "'api \<Rightarrow> string"
  serialize_attic :: "'attic \<Rightarrow> string"
  clean :: "string list \<Rightarrow> unit io"
  regexp_replace :: "string \<Rightarrow> string \<Rightarrow> string \<Rightarrow> string js_result"

text \<open>\<open>readdirSync(dir)\<close> filtered by \<open>statSync(...).isFile()\<close> or \<open>.isDirectory()\<close>.\<close>

definition entries_of :: "entry_kind \<Rightarrow> (string \<times> entry_kind) list \<Rightarrow> string list" where
  "entries_of k es = map fst (filter (\<lambda>e. snd e = k) es)"

text \<open>The single-file tests (lines 45--54): a test per regular file not starting with \<open>_\<close>.\<close>

definition single_tests :: "('api, 'attic) collaborators \<Rightarrow> string \<Rightarrow> (string \<times> string) list" where
  "single_tests C scenarios =
     map (\<lambda>fname. (''Processes '' @ [CHR 0x27] @ fname @ [CHR 0x27], fname))
       (filter (\<lambda>fname. \<not> prefix ''_'' fname)
          (entries_of RegularFile (readdir C (scenarios @ ''/single/input''))))"

text \<open>The multiple-file tests (lines 96--104): a test per folder.\<close>

definition multiple_tests :: "('api, 'attic) collaborators \<Rightarrow> string \<Rightarrow> (string \<times> string) list" where
  "multiple_tests C scenarios =
     map (\<lambda>folder. (''Processes '' @ [CHR 0x27] @ folder @ [CHR 0x27], folder))
       (entries_of Directory (readdir C (scenarios @ ''/multiple'')))"

section \<open>The body of a test\<close>

text \<open>
  \<open>checkAttic\<close> (lines 20--43): its assertions on the attic are commented out, so it
  only writes the attic when there is one and leaves the accumulated errors (the messages
  of \<open>AccumulateErrors\<close>) as they are.
\<close>

definition checkAttic :: "('api, 'attic) collaborators \<Rightarrow> 'api \<Rightarrow> string list \<Rightarrow> string \<Rightarrow> string list io" where
  "checkAttic C api errors atticOutput =
     (case api_attic C api of
        None \<Rightarrow> io_return errors
      | Some attic \<Rightarrow> io_bind (writeFile atticOutput (serialize_attic C attic)) (\<lambda>_. io_return errors))"

text \<open>The output paths of a single-file test (lines 70--72).\<close>

definition output_paths ::
  "(string \<Rightarrow> string \<Rightarrow> string \<Rightarrow> string js_result) \<Rightarrow> string \<Rightarrow> string \<Rightarrow> (string \<times> string) js_result" where
  "output_paths R adlOutput fname =
     (let ext = extname fname in
      js_bind (ext_replace R fname ext ''.api.yaml'') (\<lambda>apiName.
      js_bind (ext_replace R fname ext ''.attic.yaml'') (\<lambda>atticName.
      Inr (path_resolve (adlOutput @ ''/'' @ apiName), path_resolve (adlOutput @ ''/'' @ atticName)))))"

text \<open>
  Lines 76--91, shared by both tests: clean the two outputs, write the attic, write the
  serialised model, check that its file exists and that no error was accumulated.
\<close>

definition write_outputs ::
  "('api, 'attic) collaborators \<Rightarrow> 'api \<Rightarrow> string \<Rightarrow> string \<Rightarrow> unit io" where
  "write_outputs C api apiOutput atticOutput =
     io_bind (clean C [apiOutput, atticOutput]) (\<lambda>_.
     io_bind (checkAttic C api [] atticOutput) (\<lambda>errors.
     io_bind (writeFile apiOutput (serialize_api C api)) (\<lambda>_.
     io_bind (isFile apiOutput) (\<lambda>written.
     io_bind (assert_equal written True (''Should write file '' @ apiOutput @ '' '')) (\<lambda>_.
     if 0 < length errors then assert_fail (''Should not report errors: '' @ concat errors)
     else io_return ())))))"

text \<open>The test of one input file (lines 54--92).\<close>

definition single_test :: "('api, 'attic) collaborators \<Rightarrow> string \<Rightarrow> string \<Rightarrow> unit io" where
  "single_test C scenarios fname =
     (let inputRoot = scenarios @ ''/single/input'';
          outputRoot = scenarios @ ''/single/output'';
          ext = extname fname;
          name = basename_ext fname ext;
          adlOutput = path_resolve (outputRoot @ ''/'' @ name)
      in io_bind (importModel C adlOutput inputRoot [fname]) (\<lambda>api.
         io_bind (saveADL C api) (\<lambda>n.
         io_bind (io_lift (output_paths (regexp_replace C) adlOutput fname)) (\<lambda>(apiOutput, atticOutput).
         write_outputs C api apiOutput atticOutput))))"

text \<open>The test of one folder (lines 101--132).\<close>

definition multiple_test :: "('api, 'attic) collaborators \<Rightarrow> string \<Rightarrow> string \<Rightarrow> unit io" where
  "multiple_test C scenarios folder =
     (let inputRoot = path_resolve (scenarios @ ''/multiple/'' @ folder @ ''/input'');
          adlOutput = path_resolve (inputRoot @ ''/../output/'');
          files = entries_of RegularFile (readdir C inputRoot)
      in io_bind (importModel C adlOutput inputRoot files) (\<lambda>api.
         io_bind (saveADL C api) (\<lambda>n.
         write_outputs C api (path_resolve (adlOutput @ ''/'' @ folder @ ''.api.yaml''))
                             (path_resolve (adlOutput @ ''/'' @ folder @ ''.attic.yaml'')))))"

text \<open>The shared tail of the tests without the checks of lines 87--91.\<close>

definition write_outputs_unchecked ::
  "('api, 'attic) collaborators \<Rightarrow> 'api \<Rightarrow> string \<Rightarrow> string \<Rightarrow> unit io" where
  "write_outputs_unchecked C api apiOutput atticOutput =
     io_bind (clean C [apiOutput, atticOutput]) (\<lambda>_.
     io_bind (checkAttic C api [] atticOutput) (\<lambda>_.
     writeFile apiOutput (serialize_api C api)))"

section \<open>Lemmas\<close>

lemma checkAttic_errors:
  "checkAttic C api errors atticOutput d = (Inr errors, snd (checkAttic C api errors atticOutput d))"
  by (simp add: checkAttic_def io_bind_def io_return_def writeFile_def split: option.split)

lemma split_slash_ne [simp]: "split_slash x \<noteq> []"
  by (induction x) (simp_all add: Let_def)

lemma split_slash_snoc:
  "CHR ''/'' \<notin> set a \<Longrightarrow> split_slash (x @ CHR ''/'' # a) = split_slash x @ [a]"
proof (induction x)
  case Nil
  have "split_slash a = [a]" using Nil
    by (induction a) (auto simp: Let_def)
  then show ?case by simp
next
  case (Cons c x)
  have "split_slash x @ [a] \<noteq> []" by simp
  with Cons show ?case by (auto simp: Let_def)
qed

lemma norm_segs_snoc:
  "a \<noteq> [] \<Longrightarrow> a \<noteq> ''.'' \<Longrightarrow> a \<noteq> ''..'' \<Longrightarrow> norm_segs acc (ss @ [a]) = norm_segs acc ss @ [a]"
  by (induction acc ss rule: norm_segs.induct) simp_all

lemma join_segs_snoc:
  "join_segs (ss @ [a]) = (if ss = [] then a else join_segs ss @ ''/'' @ a)"
  by (induction ss rule: join_segs.induct) simp_all

lemma path_resolve_child:
  assumes "CHR ''/'' \<notin> set a" and "a \<noteq> []" and "a \<noteq> ''.''" and "a \<noteq> ''..''"
  shows "path_resolve (x @ ''/'' @ a) =
           CHR ''/'' # (if norm_segs [] (split_slash x) = [] then a
                        else join_segs (norm_segs [] (split_slash x)) @ ''/'' @ a)"
  using assms by (simp add: path_resolve_def split_slash_snoc norm_segs_snoc join_segs_snoc)

lemma extname_suffix: "suffix (extname b) b"
  by (simp add: extname_def Let_def suffix_drop)

lemma basename_ext_take:
  "suffix ext b \<Longrightarrow> basename_ext b ext = take (length b - length ext) b"
  by (auto simp: basename_ext_def)

lemma output_names_differ:
  assumes "CHR ''/'' \<notin> set n"
  shows "path_resolve (x @ ''/'' @ n @ ''.api.yaml'') \<noteq> path_resolve (x @ ''/'' @ n @ ''.attic.yaml'')"
proof -
  have "length (n @ ''.api.yaml'') > 2" and "length (n @ ''.attic.yaml'') > 2" by simp_all
  then have a: "path_resolve (x @ ''/'' @ (n @ ''.api.yaml'')) =
              CHR ''/'' # (if norm_segs [] (split_slash x) = [] then n @ ''.api.yaml''
                           else join_segs (norm_segs [] (split_slash x)) @ ''/'' @ n @ ''.api.yaml'')"
    and t: "path_resolve (x @ ''/'' @ (n @ ''.attic.yaml'')) =
              CHR ''/'' # (if norm_segs [] (split_slash x) = [] then n @ ''.attic.yaml''
                           else join_segs (norm_segs [] (split_slash x)) @ ''/'' @ n @ ''.attic.yaml'')"
    using path_resolve_child [of "n @ ''.api.yaml''" x] path_resolve_child [of "n @ ''.attic.yaml''" x] assms
    by auto
  show ?thesis by (simp only: a t) simp
qed

section \<open>Properties\<close>

text \<open>
  C28. The checks at the end of both loading tests never fire: \<open>checkAttic\<close> has its
  assertions commented out, so the accumulated errors stay empty, and the file of the
  serialised model was written just before \<open>isFile\<close> asks for it. Whatever the
  collaborators do, the shared tail of the tests behaves as if lines 87--91 (and
  127--131) were not there: a test fails only when a collaborator throws.
\<close>

theorem test_checks_never_fire:
  "write_outputs C api apiOutput atticOutput = write_outputs_unchecked C api apiOutput atticOutput"
proof
  fix d
  obtain r d1 where c: "clean C [apiOutput, atticOutput] d = (r, d1)" by fastforce
  obtain d2 where a: "checkAttic C api [] atticOutput d1 = (Inr [], d2)"
    using checkAttic_errors by metis
  show "write_outputs C api apiOutput atticOutput d = write_outputs_unchecked C api apiOutput atticOutput d"
    by (cases r) (simp_all add: write_outputs_def write_outputs_unchecked_def io_bind_def c a
                                writeFile_def isFile_def assert_equal_def io_return_def)
qed

text \<open>
  C29. The outputs of a single-file test: for an input file (a directory entry, so
  without a slash) whose extension has no \<open>RegExp\<close> operator besides its dot, the
  pattern of line 70 strips the extension, so the model is written to
  \<open>name.api.yaml\<close> and the attic to \<open>name.attic.yaml\<close> in the output folder, with
  \<open>name\<close> the file's \<open>basename\<close>; the two paths differ, so the attic never overwrites
  the model.
\<close>

theorem output_paths_named:
  assumes slash: "CHR ''/'' \<notin> set fname" and plain: "regex_plain (extname fname)"
  shows "output_paths R adlOutput fname =
           Inr (path_resolve (adlOutput @ ''/'' @ basename_ext fname (extname fname) @ ''.api.yaml''),
                path_resolve (adlOutput @ ''/'' @ basename_ext fname (extname fname) @ ''.attic.yaml'')) \<and>
         path_resolve (adlOutput @ ''/'' @ basename_ext fname (extname fname) @ ''.api.yaml'') \<noteq>
         path_resolve (adlOutput @ ''/'' @ basename_ext fname (extname fname) @ ''.attic.yaml'')"
proof
  show "output_paths R adlOutput fname =
          Inr (path_resolve (adlOutput @ ''/'' @ basename_ext fname (extname fname) @ ''.api.yaml''),
               path_resolve (adlOutput @ ''/'' @ basename_ext fname (extname fname) @ ''.attic.yaml''))"
    using plain extname_suffix [of fname]
    by (simp add: output_paths_def ext_replace_def basename_ext_take Let_def)
  have "CHR ''/'' \<notin> set (basename_ext fname (extname fname))"
    using slash extname_suffix [of fname] by (auto simp: basename_ext_take dest: in_set_takeD)
  then show "path_resolve (adlOutput @ ''/'' @ basename_ext fname (extname fname) @ ''.api.yaml'') \<noteq>
             path_resolve (adlOutput @ ''/'' @ basename_ext fname (extname fname) @ ''.attic.yaml'')"
    by (rule output_names_differ)
qed

section \<open>Witnesses\<close>

theorem output_paths_named_witness:
  "output_paths (\<lambda>_ _ _. Inl (Error ''unsupported pattern'')) ''/scenarios/v3/single/output/petstore''
                ''petstore.yaml'' =
     Inr (''/scenarios/v3/single/output/petstore/petstore.api.yaml'',
          ''/scenarios/v3/single/output/petstore/petstore.attic.yaml'')"
proof -
  have e: "extname ''petstore.yaml'' = ''.yaml''" by (simp add: extname_def)
  have b: "basename_ext ''petstore.yaml'' ''.yaml'' = ''petstore''" by (simp add: basename_ext_def suffix_to_prefix)
  have "path_resolve ''/scenarios/v3/single/output/petstore/petstore.api.yaml'' =
          ''/scenarios/v3/single/output/petstore/petstore.api.yaml''"
    and "path_resolve ''/scenarios/v3/single/output/petstore/petstore.attic.yaml'' =
          ''/scenarios/v3/single/output/petstore/petstore.attic.yaml''"
    by (simp_all add: path_resolve_def)
  moreover have "regex_plain ''.yaml''" by (simp add: regex_plain_def)
  ultimately show ?thesis
    using output_paths_named [of "''petstore.yaml''" "\<lambda>_ _ _. Inl (Error ''unsupported pattern'')"
                         "''/scenarios/v3/single/output/petstore''"] e b
    by simp
qed

end
