(* ===== verification/Spec2Isabelle.thy ===== *)
theory Spec2Isabelle
  imports Declarations TypeExpansion Imports Alias Http AzureRules TextHelpers OpenApiExamples LoadTests
begin

text \<open>
  \<^bold>\<open>A verification development of adl, the API description library.\<close>

  The repository describes HTTP APIs as TypeScript source files that ts-morph parses and
  edits. Its core is src/adl/core/support/typescript.ts. This file addresses a node of a
  parsed document by a path (\<open>getNodeIdentifier\<close>, \<open>getPath\<close>, \<open>getNode\<close>). It
  keeps long-lived references to nodes that heal themselves after a document is
  re-parsed (\<open>referenceTo\<close>). It expands a type into its literal values
  (\<open>expandUnion\<close>, \<open>getDefinition\<close>, \<open>expandLiterals\<close>). It manages the imports
  between generated files (\<open>createImportFor\<close>, \<open>addImportsTo\<close>,
  \<open>createImportsFor\<close>, \<open>addNullable\<close>). It also holds two text helpers
  (\<open>getInnerText\<close>, \<open>relativePath\<close>). On top of this,
  src/adl/core/model/http/protocol.ts models the HTTP protocol:

  \<^item> authentication schemes, requirements and connections;
  \<^item> \<open>HttpProtocol\<close>, whose getters classify the declarations of the protocol's files.

  The Azure plugin contributes one lint rule. The OpenAPI v3 serializer has a stub for
  examples. The mocha tests of core/test/load-openapi3.ts load the OpenAPI scenarios,
  save them as ADL and write the serialised model and its attic.

  \<^bold>\<open>Theories.\<close>
  \<^item> \<open>Prelude\<close>: JavaScript values and exceptions (the result type
    \<open>js_error + 'a\<close>), \<open>shift\<close>, \<open>js_bind\<close>, and the shared lemmas on
    \<open>find\<close>.
  \<^item> \<open>AstModel\<close>: ts-morph, the collaborator.
    \<^item> A document is a tree of nodes with kinds, names, values and children.
    \<^item> A node object is a handle: file, generation, position.
    \<^item> \<open>replace_file\<close> re-parses a document under a fresh generation, so the
      handles of the old tree are forgotten (\<open>wasForgotten\<close>).
    \<^item> \<open>getAncestors\<close> lists ancestors nearest first and skips \<open>SyntaxList\<close>
      wrappers.
  \<^item> \<open>JsString\<close>: \<open>JSON.stringify\<close> on strings, and the reader of the sandbox's
    string literals and of the locator calls \<open>$.getMember(...)\<close> and
    \<open>$.getEnum(...)\<close>. Theorem \<open>read_json_quote\<close>: reading back what
    \<open>quote\<close> wrote gives the name.
  \<^item> \<open>NodePath\<close>: \<open>quote\<close>, \<open>getNodeIdentifier\<close>, \<open>getPath\<close> and
    \<open>getNode\<close>, one narrowing step at a time (\<open>locate\<close>, \<open>getNode_from\<close>).
    The type union \<open>TypeDeclaration\<close> and its guard \<open>IsTypeDeclaration\<close> accept
    the same kinds (lemma \<open>IsTypeDeclaration_kinds\<close>). The AppType enum from the
    apimanagement scenario output is a concrete document.
  \<^item> \<open>Reference\<close>: the Proxy of \<open>referenceTo\<close>.
    \<^item> Its closure state (\<open>current\<close>, \<open>path\<close>) is a record.
    \<^item> Its four traps share \<open>acquire\<close>.
    \<^item> Edits, removals and accesses form a step function (\<open>sys_step\<close>) and a
      reachability relation (\<open>ref_reach\<close>).
    \<^item> \<open>ref_inv\<close> is an invariant proved by rule induction.
  \<^item> \<open>Declarations\<close>: \<open>Declaration<T>\<close> (outside the sources, from the spec): the
    address of a declaration, \<open>wrap\<close> over a reference, and \<open>declaration_value\<close>,
    which applies the view constructor to the node the reference acquires.
  \<^item> \<open>TypeExpansion\<close>: type nodes, the checker's symbol table as a map from
    names to declarations, and the three resolution functions.
  \<^item> \<open>Imports\<close>: type references with their declaring files, import structures,
    and the four import functions.
  \<^item> \<open>Alias\<close>: the alias indirection of the model (outside the sources, from the
    spec). A field holds an inline value or a name, and \<open>resolveAlias\<close> fails with
    \<open>UnresolvedAlias\<close> or \<open>AmbiguousAlias\<close>.
  \<^item> \<open>Http\<close>: the enums, authentication classes, connections and
    \<open>HttpProtocol\<close> with its constructor, getters and factory methods.
  \<^item> \<open>AzureRules\<close>: require-read-only-properties and its two fixes.
  \<^item> \<open>TextHelpers\<close>: \<open>getInnerText\<close>, \<open>relativePath\<close>, and the forwarding
    helpers \<open>fullPath\<close> and \<open>getAPI\<close> over their collaborators as parameters,
    with JavaScript's \<open>indexOf\<close> and \<open>substring\<close>.
  \<^item> \<open>OpenApiExamples\<close>: \<open>processExamples\<close>.
  \<^item> \<open>LoadTests\<close>: the loading tests. A disk maps paths to contents, and a test body
    is an action on it that may throw (\<open>'a io\<close>, with \<open>io_bind\<close>). The
    registration of tests, the output paths (Node's \<open>resolve\<close>, \<open>extname\<close>,
    \<open>basename\<close>, and the pattern of line 70), \<open>checkAttic\<close>, and the two test
    bodies (\<open>single_test\<close>, \<open>multiple_test\<close>) are modelled. The collaborators
    (import, save, serialisation, \<open>clean\<close>, the directory listing, and the
    \<open>RegExp\<close> engine outside the literal fragment) are fields of a record.

  \<^bold>\<open>What is proved.\<close>
  \<^item> Addressing:
    \<^item> C1: a top-level declaration's path resolves back to it.
    \<^item> C2: the path of a nested node starts with its parent, not its file, so it
      never resolves.
    \<^item> C25: the error of \<open>getNode\<close> on each bad input: empty path, unknown
      document, empty document, index out of range, unknown name.
  \<^item> References:
    \<^item> C3: every successful trap reaches a live node and caches it.
    \<^item> C4: after a re-parse, a reference heals to the declaration of the same kind
      and name.
    \<^item> C5: once a re-resolution finds nothing, the reference throws on every later
      access, even after the node comes back.
  \<^item> Type expansion:
    \<^item> C6: with \<open>allowNumbers = false\<close> no number is returned.
    \<^item> C7: termination for ranked (acyclic) aliases.
    \<^item> C8: divergence on alias cycles.
    \<^item> C9: a union of literals, however its unions nest, expands to the values of
      its leaves (the reference \<open>union_leaves\<close>), in order.
    \<^item> C10: \<open>getDefinition\<close>'s results and errors.
  \<^item> Imports:
    \<^item> C11: \<open>addImportsTo\<close> appends the new structures, each once at its first
      occurrence, in request order.
    \<^item> C12: an existing import is never recognised, so repeating a call duplicates it.
    \<^item> C13: \<open>createImportsFor\<close> imports exactly the foreign type references.
    \<^item> C26: it creates exactly one import per occurrence of a foreign type
      reference, with no de-duplication.
    \<^item> C27: after \<open>addImportsTo\<close> with what \<open>createImportsFor\<close> computes, the
      file imports every foreign type reference it needs.
  \<^item> HTTP:
    \<^item> C14: \<open>results\<close> is a permutation of the document-order results.
    \<^item> C17: \<open>results\<close> is in document order exactly when no result interface
      precedes a result alias; it lists all aliases first.
    \<^item> C15: \<open>headers\<close> lists exactly the tagged aliases.
    \<^item> C16: the constructor registers the header checker.
    \<^item> C24: \<open>operationGroups\<close> scans every document, in order.
  \<^item> Lint rule:
    \<^item> C18: the rule fires exactly on readOnly and required properties.
    \<^item> C19: each fix clears the violation.
  \<^item> Text helpers:
    \<^item> C20: \<open>getInnerText\<close> against a \<open>dropWhile\<close> reference.
    \<^item> C21: \<open>relativePath\<close> only prefixes \<open>./\<close> (dropping a leading slash),
      and is idempotent.
  \<^item> Across components (this theory):
    \<^item> C22: the identifier of an enum declaration parses back to
      \<open>$.getEnum\<close> of its name, so identifiers are injective in the name.
    \<^item> C23: \<open>getDefinition\<close> refines the spec's \<open>resolveAlias\<close>, by way of the
      abstraction \<open>decls_of\<close> of the symbol table and \<open>alias_error_of\<close> of its
      exceptions. The one exception is a symbol with no declarations (C10).
  \<^item> Loading tests:
    \<^item> C28: the checks at the end of both tests never fire, so a test fails only
      when a collaborator throws.
    \<^item> C29: a single-file test writes \<open>name.api.yaml\<close> and \<open>name.attic.yaml\<close>,
      two different paths.
  \<^item> The wrapper \<open>Declaration<T>\<close> (theory \<open>Declarations\<close>) carries lemmas only:
    its value is the view of the node its reference acquires, so what holds of the
    reference (C3--C5) holds of it.

  \<^bold>\<open>Fuel.\<close> \<open>expandLiterals\<close> follows type aliases, which may form cycles, so the
  model takes fuel: one unit per nested call, and \<open>None\<close> when the fuel runs out.
  \<^item> Theorem \<open>expandLiterals_mono\<close>: more fuel never changes a result.
  \<^item> C7: \<open>(R + 1) * (H + 1)\<close> units always suffice. \<open>H\<close> bounds the nesting
    of unions in the node and in every alias body. \<open>R\<close> bounds the ranks of the
    aliases the node refers to. Each alias followed lowers the rank.
  \<^item> C8: on a cycle no fuel suffices. This is the stack overflow of the code.

  \<^bold>\<open>Not modelled.\<close>
  \<^item> ts-morph's \<open>getSourceFile\<close> also accepts a bare file name and matches it by
    suffix; the model looks documents up by their full path, which is what
    \<open>getPath\<close> emits. A path element that is not a string makes it throw the
    \<open>TypeError\<close> of \<open>fileName.replace\<close>, as the model does.
  \<^item> ts-morph, the sandbox evaluator and the code outside src are collaborators,
    modelled from the spec where the code depends on them, which is why their
    components are partly modelled: only the behaviour the sources rely on is written
    out. The sandbox runs only the two locator calls \<open>getNodeIdentifier\<close> emits;
    other expressions are an error of the model. This covers ts-morph's tree,
    \<open>getAncestors\<close>, \<open>getStructure\<close> and \<open>getRelativePathAsModuleSpecifierTo\<close>,
    and \<open>Alias\<close>, \<open>TypeReference\<close> and \<open>TypeSyntax\<close> of the model.
  \<^item> The api-model classifiers are parameters of the HTTP model.
  \<^item> The file system of \<open>fullPath\<close> and the project loader of \<open>getAPI\<close>
    are parameters: they are collaborators outside the sources.
  \<^item> Of the loading tests, the console output and the stopwatch are left out: they do
    not change the outcome. The disk never refuses a write. \<open>clean\<close> of test/common
    and the errors class of test/errors are outside the sources: \<open>clean\<close> is a
    collaborator, and the errors are the list of messages they accumulate.
  \<^item> \<open>Element\<close> (model/element, outside the sources) only carries a description and
    an extension bag; the constructors of protocol.ts are modelled with the fields
    their initializers set, and \<open>Element.initialize\<close> itself is not modelled.
  \<^item> The generated scenario outputs are data. Four of them are data of the model:
    the AppType enum, the aliases \<open>f_p_ieay\<close> and \<open>f_p_wbd\<close> (the second reaching
    the error branch of \<open>expandLiterals\<close> on the keyword \<open>string\<close>), and
    ResponseContract.ts, whose imports the import functions reproduce. The others have
    the same shapes and add no behaviour.
  \<^item> Besides the rule parameter-description-required (commented out in full, modelled
    as written, metadata included), the only lines of the sources not mapped are
    import statements and the \<open>Object.defineProperties\<close> wrapper around the
    \<open>relativePath\<close> and \<open>fullPath\<close> getters.
\<close>

section \<open>Type resolution against the alias contract\<close>

text \<open>
  The checker's symbol table seen as the spec's lookup of top-level declarations by name
  (no symbol: no declaration), and the exceptions of \<open>getDefinition\<close> seen as the
  spec's error kinds, told apart by their message.
\<close>

definition decls_of :: "symbols \<Rightarrow> string \<Rightarrow> decl list" where
  "decls_of syms name = (case syms name of None \<Rightarrow> [] | Some ds \<Rightarrow> ds)"

definition alias_error_of :: "string \<Rightarrow> js_error \<Rightarrow> alias_error" where
  "alias_error_of name e =
     (case e of
        Error msg \<Rightarrow> if prefix ''Cannot resolve'' msg then UnresolvedAlias name else AmbiguousAlias name
      | _ \<Rightarrow> AmbiguousAlias name)"

section \<open>Properties across components\<close>

text \<open>
  C22. The path identifier \<open>getNodeIdentifier\<close> builds for an enum declaration
  reads back: it is a string that the locator syntax parses to \<open>$.getEnum\<close> of
  exactly the declaration's name, because \<open>quote\<close> (\<open>JSON.stringify\<close>) escapes
  the name. So two enum declarations get equal identifiers exactly when their names
  are equal.
\<close>

theorem enum_identifier_roundtrip:
  assumes "nkind n = EnumDeclaration" and "nname n = Member (JStr a)"
  shows "\<exists>e. getNodeIdentifier h n = JStr e \<and> parse_locator e = Some (GetEnum a) \<and>
           (\<forall>n' b h'. nkind n' = EnumDeclaration \<longrightarrow> nname n' = Member (JStr b) \<longrightarrow>
              (getNodeIdentifier h' n' = JStr e) = (b = a))"
proof (intro exI conjI allI impI)
  show "getNodeIdentifier h n = JStr (''$.getEnum('' @ json_quote a @ '')'')"
    using assms by (simp add: getNodeIdentifier_def call_getName_def)
  show "parse_locator (''$.getEnum('' @ json_quote a @ '')'') = Some (GetEnum a)"
    by (rule parse_getEnum)
  fix n' b h'
  assume "nkind n' = EnumDeclaration" "nname n' = Member (JStr b)"
  then show "(getNodeIdentifier h' n' = JStr (''$.getEnum('' @ json_quote a @ '')'')) = (b = a)"
    by (simp add: getNodeIdentifier_def call_getName_def json_quote_inj)
qed

theorem enum_identifier_roundtrip_witness:
  "\<exists>e. getNodeIdentifier \<lparr>h_file = ''/output/enums/AppType.ts'', h_gen = 0, h_pos = [0, 0]\<rparr> appType_enum = JStr e \<and>
       parse_locator e = Some (GetEnum ''AppType'')"
proof -
  have "nkind appType_enum = EnumDeclaration" "nname appType_enum = Member (JStr ''AppType'')"
    by (simp_all add: appType_enum_def)
  from enum_identifier_roundtrip [OF this, of "\<lparr>h_file = ''/output/enums/AppType.ts'', h_gen = 0, h_pos = [0, 0]\<rparr>"]
  show ?thesis by blast
qed

text \<open>
  C23. \<open>getDefinition\<close> implements the spec's alias resolution for every name whose
  symbol, if any, has at least one declaration: it returns the declaration exactly when
  the spec resolves the name to it, and throws the exception of the error kind the spec
  names otherwise. (A symbol with no declarations is the divergence of C10.)
\<close>

theorem getDefinition_refines_resolveAlias:
  assumes "syms m \<noteq> Some []"
  shows "map_sum (alias_error_of m) id (getDefinition syms m) = resolveAlias (decls_of syms) (Alias m)"
proof (cases "syms m")
  case None
  then show ?thesis
    by (simp add: getDefinition_def resolveAlias_def decls_of_def alias_error_of_def)
next
  case (Some ds)
  with assms obtain d ds' where ds: "ds = d # ds'" by (cases ds) auto
  show ?thesis
  proof (cases ds')
    case Nil
    with Some ds show ?thesis
      by (simp add: getDefinition_def resolveAlias_def decls_of_def)
  next
    case (Cons d' ds'')
    with Some ds show ?thesis
      by (simp add: getDefinition_def resolveAlias_def decls_of_def alias_error_of_def)
  qed
qed

theorem getDefinition_refines_resolveAlias_witness:
  "map_sum (alias_error_of ''Tier'') id
     (getDefinition [''Tier'' \<mapsto> [AliasDecl ''Tier'' (LiteralTypeNode (StringLiteral ''Basic''))]] ''Tier'') =
   Inr (AliasDecl ''Tier'' (LiteralTypeNode (StringLiteral ''Basic'')))"
  using getDefinition_refines_resolveAlias
          [of "[''Tier'' \<mapsto> [AliasDecl ''Tier'' (LiteralTypeNode (StringLiteral ''Basic''))]]" "''Tier''"]
  by (simp add: resolveAlias_def decls_of_def)

end
